(* ===== verification/Prelude.thy ===== *)
theory Prelude
  imports Main "HOL-Library.List_Lexorder" "HOL-Library.Char_ord"
begin

text \<open>
  Shared vocabulary of the development: the browser's key/value storage as a map,
  the JavaScript coercions the client relies on (truthiness of strings, \<open>a || b\<close>,
  template-literal rendering of \<open>null\<close> and \<open>undefined\<close>), \<open>Math.round\<close> and
  \<open>Math.ceil\<close> on the exact rationals the client divides, decimal rendering of naturals
  and \<open>String.prototype.trim\<close>. Strings are lists of 8-bit characters; the client only
  ever measures ASCII text, where a character is one UTF-16 code unit as in JavaScript.
\<close>

named_theorems js_simps "evaluation rules of the JavaScript helpers"

type_synonym storage = "string \<rightharpoonup> string"
  \<comment> \<open>\<open>window.localStorage\<close>: \<open>getItem\<close> is application, \<open>removeItem\<close> is update to None\<close>

subsection \<open>Coercions\<close>

definition js_truthy :: "string option \<Rightarrow> bool" where
  "js_truthy v \<longleftrightarrow> (case v of None \<Rightarrow> False | Some s \<Rightarrow> s \<noteq> [])"

definition js_or :: "string option \<Rightarrow> string \<Rightarrow> string" where
  "js_or v d = (case v of Some s \<Rightarrow> if s \<noteq> [] then s else d | None \<Rightarrow> d)"

definition show_null :: "string option \<Rightarrow> string" where
  "show_null v = (case v of None \<Rightarrow> ''null'' | Some s \<Rightarrow> s)"

definition show_undef :: "string option \<Rightarrow> string" where
  "show_undef v = (case v of None \<Rightarrow> ''undefined'' | Some s \<Rightarrow> s)"

lemma js_truthy_simps [simp, js_simps]:
  "js_truthy None = False"
  "js_truthy (Some s) \<longleftrightarrow> s \<noteq> []"
  by (simp_all add: js_truthy_def)

lemma js_or_simps [simp, js_simps]:
  "js_or None d = d"
  "js_or (Some s) d = (if s \<noteq> [] then s else d)"
  by (simp_all add: js_or_def)

lemma show_null_simps [simp, js_simps]:
  "show_null None = ''null''" "show_null (Some s) = s"
  by (simp_all add: show_null_def)

lemma show_undef_simps [simp, js_simps]:
  "show_undef None = ''undefined''" "show_undef (Some s) = s"
  by (simp_all add: show_undef_def)

lemma js_truthy_Some_iff: "js_truthy v \<longleftrightarrow> (\<exists>s. v = Some s \<and> s \<noteq> [])"
  by (cases v) auto

subsection \<open>Rounding\<close>

text \<open>
  \<open>Math.round(a / b)\<close> for naturals \<open>a\<close> and \<open>b > 0\<close>: the floor of \<open>a / b + 1/2\<close>,
  computed exactly. \<open>Math.ceil(a / b)\<close> on integers with \<open>b > 0\<close>.
\<close>

definition js_round_div :: "nat \<Rightarrow> nat \<Rightarrow> nat" where
  "js_round_div a b = (2 * a + b) div (2 * b)"

definition ceil_div :: "int \<Rightarrow> int \<Rightarrow> int" where
  "ceil_div a b = - ((- a) div b)"

lemma js_round_div_le:
  assumes "0 < b" "a \<le> k * b"
  shows "js_round_div a b \<le> k"
proof -
  have "2 * a + b < 2 * b * (k + 1)" using assms by (simp add: algebra_simps)
  then have "(2 * a + b) div (2 * b) < k + 1"
    using assms(1) by (simp add: div_less_iff_less_mult mult.commute)
  then show ?thesis by (simp add: js_round_div_def)
qed

lemma js_round_div_ge_iff:
  assumes "0 < b"
  shows "k \<le> js_round_div a b \<longleftrightarrow> 2 * b * k \<le> 2 * a + b"
  using assms by (simp add: js_round_div_def less_eq_div_iff_mult_less_eq mult.commute)

lemma ceil_div_bounds:
  assumes "0 < b"
  shows "a \<le> ceil_div a b * b" and "ceil_div a b * b < a + b"
proof -
  have e: "(- a) div b * b + (- a) mod b = - a" by (rule div_mult_mod_eq)
  have "0 \<le> (- a) mod b" "(- a) mod b < b" using assms by simp_all
  with e show "a \<le> ceil_div a b * b" and "ceil_div a b * b < a + b"
    unfolding ceil_div_def by linarith+
qed

lemma day_compare:
  fixes d L off D :: int
  assumes "0 < D" "- D < off" "off < D"
  shows "d * D < L * D - off \<longleftrightarrow> (if off < 0 then d \<le> L else d < L)"
proof -
  have eq: "d * D < L * D - off \<longleftrightarrow> off < (L - d) * D" by (simp add: algebra_simps)
  consider "1 \<le> L - d" | "L - d = 0" | "L - d \<le> -1" by linarith
  then show ?thesis
  proof cases
    case 1
    then have "1 * D \<le> (L - d) * D" using assms(1) by (intro mult_right_mono) simp_all
    with 1 eq assms show ?thesis by auto
  next
    case 2
    with eq show ?thesis by auto
  next
    case 3
    then have "(L - d) * D \<le> -1 * D" using assms(1) by (intro mult_right_mono) simp_all
    with 3 eq assms show ?thesis by auto
  qed
qed
subsection \<open>Counting\<close>

definition count_if :: "('a \<Rightarrow> bool) \<Rightarrow> 'a list \<Rightarrow> nat" where
  "count_if P xs = length (filter P xs)"

lemma count_if_simps [simp, js_simps]:
  "count_if P [] = 0"
  "count_if P (x # xs) = (if P x then Suc (count_if P xs) else count_if P xs)"
  by (simp_all add: count_if_def)

lemma count_if_le_length: "count_if P xs \<le> length xs"
  by (simp add: count_if_def)

lemma count_if_eq_length_iff: "count_if P xs = length xs \<longleftrightarrow> (\<forall>x \<in> set xs. P x)"
  unfolding count_if_def by (metis filter_True length_filter_less less_irrefl)

lemma count_if_append [simp]: "count_if P (xs @ ys) = count_if P xs + count_if P ys"
  by (simp add: count_if_def)

subsection \<open>Strings\<close>

text \<open>The whitespace \<open>trim\<close> strips, restricted to the ASCII characters the model has.\<close>

definition is_js_space :: "char \<Rightarrow> bool" where
  "is_js_space c \<longleftrightarrow> c \<in> set [CHR 0x09, CHR 0x0A, CHR 0x0B, CHR 0x0C, CHR 0x0D, CHR 0x20]"

definition js_trim :: "string \<Rightarrow> string" where
  "js_trim s = rev (dropWhile is_js_space (rev (dropWhile is_js_space s)))"

lemma all_dropWhile_iff: "(\<forall>x \<in> set (dropWhile P s). P x) \<longleftrightarrow> dropWhile P s = []"
proof (cases "dropWhile P s")
  case Nil
  then show ?thesis by (simp only: list.set empty_iff ball_empty simp_thms)
next
  case (Cons a l)
  then have "\<not> P a" by (simp add: dropWhile_eq_Cons_conv)
  with Cons show ?thesis by auto
qed

lemma js_trim_empty_iff: "js_trim s = [] \<longleftrightarrow> (\<forall>c \<in> set s. is_js_space c)"
  by (simp add: js_trim_def dropWhile_eq_Nil_conv all_dropWhile_iff)

lemma js_trim_length_le: "length (js_trim s) \<le> length s"
proof -
  have "length (dropWhile is_js_space (rev (dropWhile is_js_space s))) \<le> length s"
    by (metis dual_order.trans length_dropWhile_le length_rev)
  then show ?thesis by (simp add: js_trim_def)
qed

text \<open>Decimal rendering of a natural, as \<open>Number.prototype.toString()\<close> gives it.\<close>

fun show_nat :: "nat \<Rightarrow> string" where
  "show_nat n = (if n < 10 then [char_of (48 + n)]
                 else show_nat (n div 10) @ [char_of (48 + n mod 10)])"

declare show_nat.simps [simp del]

lemma digit_chars [simp, js_simps]:
  "char_of (48::nat) = CHR ''0''" "char_of (49::nat) = CHR ''1''" "char_of (50::nat) = CHR ''2''"
  "char_of (51::nat) = CHR ''3''" "char_of (52::nat) = CHR ''4''" "char_of (53::nat) = CHR ''5''"
  "char_of (54::nat) = CHR ''6''" "char_of (55::nat) = CHR ''7''" "char_of (56::nat) = CHR ''8''"
  "char_of (57::nat) = CHR ''9''"
  by (code_simp+)

text \<open>\<open>s.padStart(2, '0')\<close>.\<close>

definition pad2 :: "string \<Rightarrow> string" where
  "pad2 s = replicate (2 - length s) (CHR ''0'') @ s"

text \<open>\<open>String(i)\<close> for an integer.\<close>

definition show_int :: "int \<Rightarrow> string" where
  "show_int i = (if i < 0 then ''-'' @ show_nat (nat (- i)) else show_nat (nat i))"

end
