(* ===== verification/Model.thy ===== *)
theory Model
  imports Prelude
begin

text \<open>
  The data the client exchanges with the task API: the status and priority enums of
  the forms and boards, and the JSON shapes of tasks, subtasks and comments the views
  read. A date-only string \<open>"YYYY-MM-DD"\<close> is represented by its day number since
  1970-01-01; \<open>new Date("YYYY-MM-DD")\<close> is midnight UTC of that day. Ids are integers.
\<close>

datatype status = TODO | IN_PROGRESS | DONE

datatype priority = LOW | MEDIUM | HIGH

fun status_str :: "status \<Rightarrow> string" where
  "status_str TODO = ''TODO''"
| "status_str IN_PROGRESS = ''IN_PROGRESS''"
| "status_str DONE = ''DONE''"

fun priority_str :: "priority \<Rightarrow> string" where
  "priority_str LOW = ''LOW''"
| "priority_str MEDIUM = ''MEDIUM''"
| "priority_str HIGH = ''HIGH''"

record subtask =
  subtask_id :: int
  subtask_title :: string
  completed :: bool

record comment =
  comment_id :: int
  comment_text :: string
  createdAt :: int

record task =
  task_id :: int
  title :: string
  description :: string
  status :: status
  priority :: priority
  dueDate :: "int option"
  subtasks :: "subtask list"
  comments :: "comment list"

type_synonym day = int

definition ms_per_day :: int where
  "ms_per_day = 86400000"

definition date_ms :: "day \<Rightarrow> int" where
  \<comment> \<open>\<open>new Date("YYYY-MM-DD").getTime()\<close>: midnight UTC\<close>
  "date_ms d = d * ms_per_day"

lemma status_str_inj [simp]: "status_str a = status_str b \<longleftrightarrow> a = b"
  by (cases a; cases b) simp_all

lemma priority_str_inj [simp]: "priority_str a = priority_str b \<longleftrightarrow> a = b"
  by (cases a; cases b) simp_all

lemma status_cases_all: "(\<forall>s. P s) \<longleftrightarrow> P TODO \<and> P IN_PROGRESS \<and> P DONE"
  by (metis status.exhaust)

end
