(* ===== verification/Api.thy ===== *)
theory Api
  imports Model
begin

text \<open>
  The HTTP layer. \<open>src/src/services/api.js\<close> builds every request with a JSON content
  type and, when \<open>localStorage.token\<close> is truthy, an \<open>Authorization: Bearer\<close> header
  (\<open>getAuthHeader\<close>); after the response arrives it treats status 401 as a forced
  logout: it removes the stored token, sends the window to \<open>/login\<close> and throws.
  The routed pages do not use this wrapper: they call \<open>fetch\<close> themselves with the
  header \<open>Bearer ${token}\<close>, whose template renders a missing token as \<open>null\<close>.
  A request is split where the code awaits: the request value built from the storage at
  call time, and a settlement function applied to the response and the storage at
  arrival time.
\<close>

datatype 'b response = NetworkError | Response nat "'b option"
  \<comment> \<open>status code, and the JSON body (None: \<open>response.json()\<close> rejects)\<close>

datatype js_error = Unauthorized | NetworkFailure | HttpFailure string
  | TypeError string | ReferenceError string

datatype http_method = GET | POST | PUT | DELETE

record 'j http_request =
  req_method :: http_method
  req_url :: string
  req_headers :: "(string \<times> string) list"
  req_body :: "'j option"

definition resp_ok :: "nat \<Rightarrow> bool" where
  "resp_ok c \<longleftrightarrow> 200 \<le> c \<and> c < 300"

definition is_unauthorized :: "'b response \<Rightarrow> bool" where
  "is_unauthorized r \<longleftrightarrow> (case r of Response c _ \<Rightarrow> c = 401 | NetworkError \<Rightarrow> False)"

lemma is_unauthorized_simps [simp]:
  "is_unauthorized NetworkError = False"
  "is_unauthorized (Response c b) \<longleftrightarrow> c = 401"
  by (simp_all add: is_unauthorized_def)

lemma resp_ok_401 [simp]: "\<not> resp_ok 401"
  by (simp add: resp_ok_def)

subsection \<open>api.js\<close>

definition getAuthHeader :: "storage \<Rightarrow> (string \<times> string) list" where
  "getAuthHeader st =
     (if js_truthy (st ''token'') then [(''Authorization'', ''Bearer '' @ show_null (st ''token''))]
      else [])"

definition api_request ::
  "http_method \<Rightarrow> string \<Rightarrow> string \<Rightarrow> 'j option \<Rightarrow> storage \<Rightarrow> 'j http_request" where
  "api_request m base endpoint body st =
     \<lparr>req_method = m, req_url = base @ endpoint,
      req_headers = (''Content-Type'', ''application/json'') # getAuthHeader st,
      req_body = body\<rparr>"

text \<open>
  What every method does once \<open>fetch\<close> has settled: a rejected fetch propagates, 401
  removes the stored token and redirects, anything else is returned to the caller.
  The result is the value or exception of the call, the storage after it, and the
  location the window is sent to, if any.
\<close>

definition api_settle ::
  "'b response \<Rightarrow> storage \<Rightarrow> (js_error + 'b response) \<times> storage \<times> string option" where
  "api_settle r st =
     (case r of
        NetworkError \<Rightarrow> (Inl NetworkFailure, st, None)
      | Response c b \<Rightarrow>
          if c = 401 then (Inl Unauthorized, st(''token'' := None), Some ''/login'')
          else (Inr r, st, None))"

type_synonym 'b settlement =
  "'b response \<Rightarrow> storage \<Rightarrow> (js_error + 'b response) \<times> storage \<times> string option"

definition api_get :: "string \<Rightarrow> string \<Rightarrow> storage \<Rightarrow> 'j http_request \<times> 'b settlement" where
  "api_get base endpoint st = (api_request GET base endpoint None st, api_settle)"

definition api_post ::
  "string \<Rightarrow> string \<Rightarrow> 'j \<Rightarrow> storage \<Rightarrow> 'j http_request \<times> 'b settlement" where
  "api_post base endpoint data st = (api_request POST base endpoint (Some data) st, api_settle)"

definition api_put ::
  "string \<Rightarrow> string \<Rightarrow> 'j \<Rightarrow> storage \<Rightarrow> 'j http_request \<times> 'b settlement" where
  "api_put base endpoint data st = (api_request PUT base endpoint (Some data) st, api_settle)"

definition api_delete :: "string \<Rightarrow> string \<Rightarrow> storage \<Rightarrow> 'j http_request \<times> 'b settlement" where
  "api_delete base endpoint st = (api_request DELETE base endpoint None st, api_settle)"

text \<open>The names \<open>api.js\<close> exports: the object \<open>api\<close> and the default export.\<close>

definition api_exports :: "string list" where
  "api_exports = [''api'', ''default'']"

subsection \<open>The pages' own requests\<close>

text \<open>
  \<open>Tasks\<close>, \<open>TaskDetails\<close>, \<open>Analytics\<close> and \<open>CreateTask\<close> read the token and send it
  as \<open>`Bearer ${token}`\<close> with no check, and treat any non-2xx status, 401 included, as
  a plain failure of the call.
\<close>

definition bearer_headers :: "storage \<Rightarrow> (string \<times> string) list" where
  "bearer_headers st =
     [(''Authorization'', ''Bearer '' @ show_null (st ''token'')),
      (''Content-Type'', ''application/json'')]"

definition page_settle :: "string \<Rightarrow> 'b response \<Rightarrow> js_error + 'b" where
  "page_settle msg r =
     (case r of
        NetworkError \<Rightarrow> Inl NetworkFailure
      | Response c b \<Rightarrow>
          if \<not> resp_ok c then Inl (HttpFailure msg)
          else (case b of None \<Rightarrow> Inl (TypeError ''invalid json'') | Some d \<Rightarrow> Inr d))"

text \<open>Continuations that only look at \<open>response.ok\<close>, and \<open>err.message\<close> of each failure.\<close>

definition page_ok :: "string \<Rightarrow> 'b response \<Rightarrow> js_error + unit" where
  "page_ok msg r =
     (case r of
        NetworkError \<Rightarrow> Inl NetworkFailure
      | Response c b \<Rightarrow> if resp_ok c then Inr () else Inl (HttpFailure msg))"

fun error_message :: "js_error \<Rightarrow> string" where
  "error_message Unauthorized = ''Unauthorized''"
| "error_message NetworkFailure = ''Failed to fetch''"
| "error_message (HttpFailure m) = m"
| "error_message (TypeError m) = m"
| "error_message (ReferenceError m) = m"

lemmas api_defs = api_get_def api_post_def api_put_def api_delete_def api_request_def

end
