(* ===== verification/Session.thy ===== *)
theory Session
  imports Api
begin

text \<open>
  The session manager, \<open>src/src/context/AuthContext.jsx\<close>: React state \<open>user\<close>,
  \<open>token\<close> and \<open>loading\<close> mirrored into \<open>localStorage\<close>, the start-up validation of a
  stored token, \<open>login\<close>, \<open>register\<close> and \<open>logout\<close>. Every asynchronous operation
  is split at its \<open>await\<close>: submitting it adds a pending request, and the arrival of
  its response is a separate event that runs the continuation on the state of that
  moment. The window is a \<open>client\<close>: the session and the requests in flight. A 401
  answer to a request made through \<open>api.js\<close> sets \<open>window.location.href\<close>, which
  reloads the page: every pending continuation is abandoned and the provider starts
  again from the storage.
\<close>

record auth_body =
  body_token :: "string option"
  body_username :: "string option"
  body_message :: "string option"

type_synonym auth_response = "auth_body response"

datatype auth_result = AuthSuccess | AuthFailure string

record session =
  user :: "string option option"
    \<comment> \<open>None is \<open>null\<close>; Some u is \<open>{username: u}\<close>, u None when the field was absent\<close>
  token :: "string option"
  loading :: bool
  storage :: storage
  location :: string

definition AuthProvider :: "storage \<Rightarrow> string \<Rightarrow> session" where
  "AuthProvider st loc =
     \<lparr>user = None, token = st ''token'', loading = True, storage = st, location = loc\<rparr>"

definition navigate :: "string \<Rightarrow> session \<Rightarrow> session" where
  "navigate p s = s\<lparr>location := p\<rparr>"

definition isAuthenticated :: "session \<Rightarrow> bool" where
  "isAuthenticated s \<longleftrightarrow> js_truthy (token s)"

definition logout :: "session \<Rightarrow> session" where
  "logout s =
     navigate ''/login''
       (s\<lparr>token := None, user := None,
          storage := (storage s)(''token'' := None, ''username'' := None)\<rparr>)"

datatype request =
    ValidateReq string
  | LoginReq string string
  | RegisterReq string string
  | ApiReq string

text \<open>The mount effect: validate a truthy stored token, otherwise stop loading.\<close>

definition auth_mount :: "session \<Rightarrow> session \<times> request list" where
  "auth_mount s =
     (if js_truthy (token s) then (s, [ValidateReq (show_null (token s))])
      else (s\<lparr>loading := False\<rparr>, []))"

definition validateToken_done :: "auth_response \<Rightarrow> session \<Rightarrow> session" where
  "validateToken_done r s =
     (let s' = (case r of
                  NetworkError \<Rightarrow> logout s
                | Response c b \<Rightarrow>
                    if resp_ok c then
                      (case b of
                         None \<Rightarrow> logout s
                       | Some d \<Rightarrow> s\<lparr>user := Some (body_username d)\<rparr>)
                    else logout s)
      in s'\<lparr>loading := False\<rparr>)"

text \<open>
  The continuation shared by \<open>login\<close> and \<open>register\<close>; they differ only in the
  endpoint and in the fallback message.
\<close>

definition credential_done ::
  "string \<Rightarrow> auth_response \<Rightarrow> session \<Rightarrow> session \<times> auth_result" where
  "credential_done fallback r s =
     (case r of
        NetworkError \<Rightarrow> (s, AuthFailure ''Network error'')
      | Response c None \<Rightarrow> (s, AuthFailure ''Network error'')
      | Response c (Some d) \<Rightarrow>
          if resp_ok c \<and> js_truthy (body_token d) then
            (navigate ''/tasks''
               (s\<lparr>token := body_token d, user := Some (body_username d),
                  storage := (storage s)(''token'' := body_token d,
                                         ''username'' := Some (show_undef (body_username d)))\<rparr>),
             AuthSuccess)
          else (s, AuthFailure (js_or (body_message d) fallback)))"

definition login_done :: "auth_response \<Rightarrow> session \<Rightarrow> session \<times> auth_result" where
  "login_done = credential_done ''Login failed''"

definition register_done :: "auth_response \<Rightarrow> session \<Rightarrow> session \<times> auth_result" where
  "register_done = credential_done ''Registration failed''"

subsection \<open>The window: session and requests in flight\<close>

record client =
  ses :: session
  pending :: "request list"

definition page_load :: "storage \<Rightarrow> string \<Rightarrow> client" where
  "page_load st loc = (case auth_mount (AuthProvider st loc) of (s, rs) \<Rightarrow> \<lparr>ses = s, pending = rs\<rparr>)"

fun settle :: "request \<Rightarrow> auth_response \<Rightarrow> client \<Rightarrow> client" where
  "settle (ValidateReq t) r c = c\<lparr>ses := validateToken_done r (ses c)\<rparr>"
| "settle (LoginReq u p) r c = c\<lparr>ses := fst (login_done r (ses c))\<rparr>"
| "settle (RegisterReq u p) r c = c\<lparr>ses := fst (register_done r (ses c))\<rparr>"
| "settle (ApiReq e) r c =
     (case api_settle r (storage (ses c)) of
        (_, st', Some loc) \<Rightarrow> page_load st' loc
      | (_, st', None) \<Rightarrow> c\<lparr>ses := (ses c)\<lparr>storage := st'\<rparr>\<rparr>)"

datatype event =
    SubmitLogin string string
  | SubmitRegister string string
  | ClickLogout
  | IssueApi string
  | Deliver nat auth_response

definition remove_nth :: "nat \<Rightarrow> 'a list \<Rightarrow> 'a list" where
  "remove_nth i xs = take i xs @ drop (Suc i) xs"

fun client_step :: "client \<Rightarrow> event \<Rightarrow> client" where
  "client_step c (SubmitLogin u p) = c\<lparr>pending := pending c @ [LoginReq u p]\<rparr>"
| "client_step c (SubmitRegister u p) = c\<lparr>pending := pending c @ [RegisterReq u p]\<rparr>"
| "client_step c ClickLogout = c\<lparr>ses := logout (ses c)\<rparr>"
| "client_step c (IssueApi e) = c\<lparr>pending := pending c @ [ApiReq e]\<rparr>"
| "client_step c (Deliver i r) =
     (if i < length (pending c)
      then settle (pending c ! i) r (c\<lparr>pending := remove_nth i (pending c)\<rparr>)
      else c)"

fun client_run :: "client \<Rightarrow> event list \<Rightarrow> client" where
  "client_run c [] = c"
| "client_run c (e # es) = client_run (client_step c e) es"

inductive reachable :: "client \<Rightarrow> bool" where
  load: "reachable (page_load st loc)"
| step: "reachable c \<Longrightarrow> reachable (client_step c e)"

subsection \<open>The specification's session phases\<close>

datatype phase = Initializing | Unauthenticated | Authenticated

definition phase :: "session \<Rightarrow> phase" where
  "phase s = (if loading s then Initializing
              else if isAuthenticated s then Authenticated else Unauthenticated)"

inductive spec_step :: "phase \<Rightarrow> phase \<Rightarrow> bool" where
  stay: "spec_step p p"
| settled_out: "spec_step Initializing Unauthenticated"
| settled_in: "spec_step Initializing Authenticated"
| sign_in: "spec_step Unauthenticated Authenticated"
| sign_out: "spec_step Authenticated Unauthenticated"

subsection \<open>Predicates used by the properties\<close>

text \<open>A response on which \<open>login\<close> and \<open>register\<close> take their success branch.\<close>

definition credential_ok :: "auth_response \<Rightarrow> bool" where
  "credential_ok r \<longleftrightarrow>
     (case r of Response c (Some d) \<Rightarrow> resp_ok c \<and> js_truthy (body_token d) | _ \<Rightarrow> False)"

text \<open>A response on which \<open>validateToken\<close> keeps the session.\<close>

definition validation_accepted :: "auth_response \<Rightarrow> bool" where
  "validation_accepted r \<longleftrightarrow>
     (case r of Response c (Some d) \<Rightarrow> resp_ok c | _ \<Rightarrow> False)"

definition token_mirrored :: "client \<Rightarrow> bool" where
  "token_mirrored c \<longleftrightarrow> storage (ses c) ''token'' = token (ses c)"

definition is_api_req :: "request \<Rightarrow> bool" where
  "is_api_req q \<longleftrightarrow> (case q of ApiReq _ \<Rightarrow> True | _ \<Rightarrow> False)"

definition is_submit :: "event \<Rightarrow> bool" where
  "is_submit e \<longleftrightarrow> (case e of SubmitLogin _ _ \<Rightarrow> True | SubmitRegister _ _ \<Rightarrow> True | _ \<Rightarrow> False)"

definition signed_out :: "client \<Rightarrow> bool" where
  "signed_out c \<longleftrightarrow>
     token (ses c) = None \<and> user (ses c) = None \<and>
     storage (ses c) ''token'' = None \<and> storage (ses c) ''username'' = None \<and>
     (\<forall>q \<in> set (pending c). is_api_req q)"

inductive_simps spec_step_simps: "spec_step p q"

subsection \<open>Lemmas\<close>

inductive_cases reachable_stepE: "reachable (client_step c e)"

lemmas session_defs = navigate_def logout_def AuthProvider_def auth_mount_def

lemma logout_fields [simp]:
  "token (logout s) = None" "user (logout s) = None" "loading (logout s) = loading s"
  "storage (logout s) = (storage s)(''token'' := None, ''username'' := None)"
  "location (logout s) = ''/login''"
  by (simp_all add: logout_def navigate_def)

lemma navigate_fields [simp]:
  "token (navigate p s) = token s" "user (navigate p s) = user s"
  "loading (navigate p s) = loading s" "storage (navigate p s) = storage s"
  by (simp_all add: navigate_def)

lemma credential_ok_iff:
  "credential_ok r \<longleftrightarrow> (\<exists>c d. r = Response c (Some d) \<and> resp_ok c \<and> js_truthy (body_token d))"
  by (auto simp: credential_ok_def split: response.splits option.splits)

lemma credential_done_failed:
  "\<not> credential_ok r \<Longrightarrow> fst (credential_done m r s) = s"
  by (auto simp: credential_done_def credential_ok_def split: response.splits option.splits)

lemma credential_done_ok:
  assumes "r = Response c (Some d)" "resp_ok c" "js_truthy (body_token d)"
  shows "credential_done m r s =
    (navigate ''/tasks'' (s\<lparr>token := body_token d, user := Some (body_username d),
        storage := (storage s)(''token'' := body_token d,
                               ''username'' := Some (show_undef (body_username d)))\<rparr>),
     AuthSuccess)"
  using assms by (simp add: credential_done_def)

lemma credential_done_fields:
  "loading (fst (credential_done m r s)) = loading s"
  "storage (fst (credential_done m r s)) ''token'' = token (fst (credential_done m r s)) \<or>
   fst (credential_done m r s) = s"
  "credential_ok r \<Longrightarrow> isAuthenticated (fst (credential_done m r s))"
  "\<not> credential_ok r \<Longrightarrow> token (fst (credential_done m r s)) = token s"
  by (auto simp: credential_done_def credential_ok_def isAuthenticated_def
           split: response.splits option.splits)

lemma validateToken_done_fields:
  "loading (validateToken_done r s) = False"
  "token (validateToken_done r s) = None \<or> token (validateToken_done r s) = token s"
  "storage (validateToken_done r s) ''token'' = token (validateToken_done r s) \<or>
   (storage (validateToken_done r s) = storage s \<and> token (validateToken_done r s) = token s)"
  by (auto simp: validateToken_done_def Let_def split: response.splits option.splits)

lemma page_load_ses:
  "ses (page_load st loc) =
     \<lparr>user = None, token = st ''token'', loading = js_truthy (st ''token''),
      storage = st, location = loc\<rparr>"
  by (simp add: page_load_def auth_mount_def AuthProvider_def)

lemma page_load_pending:
  "pending (page_load st loc) =
     (if js_truthy (st ''token'') then [ValidateReq (show_null (st ''token''))] else [])"
  by (simp add: page_load_def auth_mount_def AuthProvider_def)

lemma api_settle_redirect:
  "api_settle r st = (x, st', Some loc) \<longleftrightarrow>
     is_unauthorized r \<and> x = Inl Unauthorized \<and> st' = st(''token'' := None) \<and> loc = ''/login''"
  by (auto simp: api_settle_def split: response.splits if_splits)

lemma api_settle_stay:
  "api_settle r st = (x, st', None) \<Longrightarrow> st' = st"
  by (auto simp: api_settle_def split: response.splits if_splits)

lemma settle_api_cases:
  "settle (ApiReq e) r c =
     (if is_unauthorized r then page_load ((storage (ses c))(''token'' := None)) ''/login'' else c)"
proof (cases "api_settle r (storage (ses c))")
  case (fields x st' loc)
  then show ?thesis
    by (cases loc) (auto simp: api_settle_redirect dest: api_settle_stay,
        auto simp: api_settle_def split: response.splits if_splits)
qed

declare settle.simps [simp del]

lemmas settle_simps [simp] = settle.simps(1-3) settle_api_cases

lemma set_remove_nth: "set (remove_nth i xs) \<subseteq> set xs"
  by (auto simp: remove_nth_def dest: in_set_takeD in_set_dropD)

lemma pending_update_ses [simp]: "ses (c\<lparr>pending := xs\<rparr>) = ses c"
  by simp

subsection \<open>The stored token and the token state agree\<close>

lemma page_load_mirrored: "token_mirrored (page_load st loc)"
  by (simp add: token_mirrored_def page_load_ses)

lemma settle_mirrored:
  assumes "token_mirrored c"
  shows "token_mirrored (settle q r c)"
proof (cases q)
  case (ValidateReq t)
  with assms show ?thesis
    using validateToken_done_fields(3) [of r "ses c"] by (auto simp: token_mirrored_def)
next
  case (LoginReq u p)
  with assms show ?thesis
    using credential_done_fields(2) [where m = "''Login failed''" and r = r and s = "ses c"]
    by (auto simp: token_mirrored_def login_done_def)
next
  case (RegisterReq u p)
  with assms show ?thesis
    using credential_done_fields(2) [where m = "''Registration failed''" and r = r and s = "ses c"]
    by (auto simp: token_mirrored_def register_done_def)
next
  case (ApiReq e)
  with assms show ?thesis
    by (simp add: settle_api_cases page_load_mirrored)
qed

lemma client_step_mirrored:
  assumes "token_mirrored c"
  shows "token_mirrored (client_step c e)"
proof (cases e)
  case (Deliver i r)
  have "token_mirrored (c\<lparr>pending := remove_nth i (pending c)\<rparr>)"
    using assms by (simp add: token_mirrored_def)
  with Deliver assms show ?thesis by (simp add: settle_mirrored)
qed (use assms in \<open>simp_all add: token_mirrored_def\<close>)

subsection \<open>Phases\<close>

lemma phase_eq_iff:
  "loading s' = loading s \<Longrightarrow> token s' = token s \<Longrightarrow> phase s' = phase s"
  by (simp add: phase_def isAuthenticated_def)

lemma spec_step_to_unauth: "\<not> loading s' \<Longrightarrow> \<not> isAuthenticated s' \<Longrightarrow>
    spec_step (phase s) (phase s')"
  by (auto simp: phase_def spec_step_simps)

lemma spec_step_settle: "spec_step (phase (ses c)) (phase (ses (settle q r c)))"
proof (cases q)
  case (ValidateReq t)
  then show ?thesis
    using validateToken_done_fields(1,2) [of r "ses c"]
    by (auto simp: phase_def isAuthenticated_def spec_step_simps)
next
  case (LoginReq u p)
  then show ?thesis
    using credential_done_fields(1,3,4) [where m = "''Login failed''" and r = r and s = "ses c"]
    by (cases "credential_ok r") (auto simp: phase_def isAuthenticated_def spec_step_simps login_done_def)
next
  case (RegisterReq u p)
  then show ?thesis
    using credential_done_fields(1,3,4) [where m = "''Registration failed''" and r = r and s = "ses c"]
    by (cases "credential_ok r")
       (auto simp: phase_def isAuthenticated_def spec_step_simps register_done_def)
next
  case (ApiReq e)
  then show ?thesis
    by (auto simp: settle_api_cases page_load_ses isAuthenticated_def intro: spec_step_to_unauth spec_step.stay)
qed

lemma signed_out_step:
  assumes "signed_out c" and "\<not> is_submit e"
  shows "signed_out (client_step c e)"
proof (cases e)
  case (Deliver i r)
  show ?thesis
  proof (cases "i < length (pending c)")
    case True
    then have "pending c ! i \<in> set (pending c)" by simp
    with assms(1) obtain a where q: "pending c ! i = ApiReq a"
      by (cases "pending c ! i") (auto simp: signed_out_def is_api_req_def)
    have "\<forall>q \<in> set (remove_nth i (pending c)). is_api_req q"
      using assms(1) set_remove_nth [of i "pending c"] by (auto simp: signed_out_def)
    with assms(1) Deliver True q show ?thesis
      by (simp add: signed_out_def page_load_ses page_load_pending)
  next
    case False
    with assms(1) Deliver show ?thesis by simp
  qed
qed (use assms in \<open>auto simp: signed_out_def is_submit_def is_api_req_def\<close>)

lemma signed_out_run:
  "signed_out c \<Longrightarrow> \<forall>e \<in> set es. \<not> is_submit e \<Longrightarrow> signed_out (client_run c es)"
  by (induction es arbitrary: c) (simp_all add: signed_out_step)

subsection \<open>Properties of the session manager\<close>

text \<open>
  C1. A login whose response is a success carrying a non-empty token authenticates the
  client, stores the response's token and the response's username (the string
  \<open>"undefined"\<close> when the response has none) and navigates to the task list.
\<close>

theorem login_success:
  assumes "resp_ok code" and "body_token d = Some t" and "t \<noteq> []"
  shows "let (s', res) = login_done (Response code (Some d)) s in
     res = AuthSuccess \<and> isAuthenticated s' \<and> token s' = Some t \<and>
     storage s' ''token'' = Some t \<and>
     storage s' ''username'' = Some (show_undef (body_username d)) \<and>
     user s' = Some (body_username d) \<and> location s' = ''/tasks''"
  using assms by (simp add: login_done_def credential_done_def isAuthenticated_def navigate_def)

theorem login_success_witness:
  "resp_ok 200 \<and> body_token \<lparr>body_token = Some ''tk'', body_username = Some ''ann'', body_message = None\<rparr> = Some ''tk''
   \<and> ''tk'' \<noteq> [] \<and>
   (let (s', res) = login_done (Response 200 (Some \<lparr>body_token = Some ''tk'', body_username = Some ''ann'', body_message = None\<rparr>))
                      (AuthProvider Map.empty ''/login'') in
     res = AuthSuccess \<and> isAuthenticated s' \<and> token s' = Some ''tk'' \<and>
     storage s' ''token'' = Some ''tk'' \<and> storage s' ''username'' = Some (show_undef (Some ''ann'')) \<and>
     user s' = Some (Some ''ann'') \<and> location s' = ''/tasks'')"
  using login_success [of 200 "\<lparr>body_token = Some ''tk'', body_username = Some ''ann'', body_message = None\<rparr>" "''tk''"
      "AuthProvider Map.empty ''/login''"]
  by (simp add: resp_ok_def)

text \<open>
  C2. When a request made through \<open>api.js\<close> is answered with 401, the page is sent to
  \<open>/login\<close> and reloads: the client ends unauthenticated, with no user, the stored
  token removed and nothing in flight. The stored username is left as it was.
\<close>

theorem api_unauthorized_forces_logout:
  assumes "i < length (pending c)" and "pending c ! i = ApiReq e" and "is_unauthorized r"
  shows "let c' = client_step c (Deliver i r) in
     \<not> isAuthenticated (ses c') \<and> token (ses c') = None \<and> user (ses c') = None \<and>
     storage (ses c') ''token'' = None \<and>
     storage (ses c') ''username'' = storage (ses c) ''username'' \<and>
     location (ses c') = ''/login'' \<and> pending c' = []"
  using assms by (simp add: page_load_ses page_load_pending isAuthenticated_def)

theorem api_unauthorized_forces_logout_witness:
  "let c = client_step (page_load [''token'' \<mapsto> ''t1'', ''username'' \<mapsto> ''ann''] ''/tasks'')
             (IssueApi ''/tasks'');
       c' = client_step c (Deliver 1 (Response 401 None))
   in 1 < length (pending c) \<and> pending c ! 1 = ApiReq ''/tasks'' \<and>
      is_unauthorized (Response 401 None :: auth_response) \<and>
      \<not> isAuthenticated (ses c') \<and> token (ses c') = None \<and> user (ses c') = None \<and>
      storage (ses c') ''token'' = None \<and>
      storage (ses c') ''username'' = storage (ses c) ''username'' \<and>
      location (ses c') = ''/login'' \<and> pending c' = []"
proof -
  let ?c = "client_step (page_load [''token'' \<mapsto> ''t1'', ''username'' \<mapsto> ''ann''] ''/tasks'')
             (IssueApi ''/tasks'')"
  have h: "1 < length (pending ?c)" "pending ?c ! 1 = ApiReq ''/tasks''"
    by (simp_all add: page_load_pending)
  show ?thesis
    using h api_unauthorized_forces_logout [OF h, of "Response 401 None"] by (simp add: Let_def)
qed

text \<open>
  C3. In every reachable state of the window, the token held in React state equals the
  token in \<open>localStorage\<close>; in particular \<open>isAuthenticated\<close> is exactly "a non-empty
  token is stored".
\<close>

theorem reachable_token_mirrored:
  assumes "reachable c"
  shows "storage (ses c) ''token'' = token (ses c)"
proof -
  from assms have "token_mirrored c"
  proof (induction rule: reachable.induct)
    case (load st loc)
    show ?case by (rule page_load_mirrored)
  next
    case (step c e)
    from step.IH show ?case by (rule client_step_mirrored)
  qed
  then show ?thesis by (simp add: token_mirrored_def)
qed

theorem reachable_token_mirrored_witness:
  "reachable (client_step (page_load Map.empty ''/login'') (SubmitLogin ''ann'' ''pw'')) \<and>
   storage (ses (client_step (page_load Map.empty ''/login'') (SubmitLogin ''ann'' ''pw''))) ''token'' =
   token (ses (client_step (page_load Map.empty ''/login'') (SubmitLogin ''ann'' ''pw'')))"
proof -
  have r: "reachable (client_step (page_load Map.empty ''/login'') (SubmitLogin ''ann'' ''pw''))"
    by (rule reachable.step [OF reachable.load])
  show ?thesis using r reachable_token_mirrored [OF r] by simp
qed

text \<open>
  C4. Refinement of the specification's session state machine: mapping a window to its
  phase (Initializing while \<open>loading\<close>, otherwise Authenticated or Unauthenticated by
  \<open>isAuthenticated\<close>), every event of the client is a transition the specification
  allows. In particular no event returns to Initializing.
\<close>

theorem client_step_refines_phases:
  "spec_step (phase (ses c)) (phase (ses (client_step c e)))"
proof (cases e)
  case ClickLogout
  show ?thesis
  proof (cases "loading (ses c)")
    case True
    with ClickLogout show ?thesis by (simp add: phase_def spec_step.stay)
  next
    case False
    with ClickLogout show ?thesis by (simp add: spec_step_to_unauth isAuthenticated_def)
  qed
next
  case (Deliver i r)
  then show ?thesis
    using spec_step_settle [of "c\<lparr>pending := remove_nth i (pending c)\<rparr>"]
    by (simp add: spec_step.stay)
qed (simp_all add: spec_step.stay)

text \<open>
  C5. The client only becomes authenticated by the arrival of a successful response to a
  pending login or register request; validation, logout and API traffic never sign in.
\<close>

theorem sign_in_only_by_credentials:
  assumes "\<not> isAuthenticated (ses c)" and "isAuthenticated (ses (client_step c e))"
  shows "\<exists>i r. e = Deliver i r \<and> i < length (pending c) \<and> credential_ok r \<and>
           (\<exists>u p. pending c ! i = LoginReq u p \<or> pending c ! i = RegisterReq u p)"
proof (cases e)
  case (Deliver i r)
  have i: "i < length (pending c)"
    using assms Deliver by (cases "i < length (pending c)") simp_all
  show ?thesis
  proof (cases "pending c ! i")
    case (ValidateReq t)
    with assms Deliver i show ?thesis
      using validateToken_done_fields(2) [of r "ses c"] by (auto simp: isAuthenticated_def)
  next
    case (LoginReq u p)
    with assms Deliver i have "credential_ok r"
      using credential_done_fields(4) [where m = "''Login failed''" and r = r and s = "ses c"]
      by (cases "credential_ok r") (auto simp: isAuthenticated_def login_done_def)
    with Deliver i LoginReq show ?thesis by blast
  next
    case (RegisterReq u p)
    with assms Deliver i have "credential_ok r"
      using credential_done_fields(4) [where m = "''Registration failed''" and r = r and s = "ses c"]
      by (cases "credential_ok r") (auto simp: isAuthenticated_def register_done_def)
    with Deliver i RegisterReq show ?thesis by blast
  next
    case (ApiReq a)
    with assms Deliver i show ?thesis
      by (auto simp: page_load_ses isAuthenticated_def split: if_splits)
  qed
qed (use assms in \<open>simp_all add: isAuthenticated_def\<close>)

theorem sign_in_only_by_credentials_witness:
  "let c = client_step (page_load Map.empty ''/login'') (SubmitLogin ''ann'' ''pw'');
       r = Response 200 (Some \<lparr>body_token = Some ''tk'', body_username = Some ''ann'', body_message = None\<rparr>)
   in \<not> isAuthenticated (ses c) \<and> isAuthenticated (ses (client_step c (Deliver 0 r))) \<and>
      (\<exists>i r'. Deliver 0 r = Deliver i r' \<and> i < length (pending c) \<and> credential_ok r' \<and>
           (\<exists>u p. pending c ! i = LoginReq u p \<or> pending c ! i = RegisterReq u p))"
proof -
  let ?c = "client_step (page_load Map.empty ''/login'') (SubmitLogin ''ann'' ''pw'')"
  let ?r = "Response 200 (Some \<lparr>body_token = Some ''tk'', body_username = Some ''ann'', body_message = None\<rparr>)"
  have h1: "\<not> isAuthenticated (ses ?c)"
    by (simp add: page_load_ses isAuthenticated_def)
  have h2: "isAuthenticated (ses (client_step ?c (Deliver 0 ?r)))"
    by (simp add: page_load_ses page_load_pending login_done_def credential_done_def
        isAuthenticated_def resp_ok_def remove_nth_def)
  show ?thesis
    using h1 h2 sign_in_only_by_credentials [OF h1 h2] by (simp add: Let_def)
qed

text \<open>
  C6. Logging out while only API reads are in flight is final: whatever order their
  responses arrive in, 401 or not, and whatever further reads are issued, the client
  keeps no token and no user, and the storage keeps no token and no username, until the
  user submits credentials again.
\<close>

theorem logout_survives_inflight_requests:
  assumes "\<forall>q \<in> set (pending c). is_api_req q" and "\<forall>e \<in> set es. \<not> is_submit e"
  shows "let c' = client_run (client_step c ClickLogout) es in
     token (ses c') = None \<and> user (ses c') = None \<and>
     storage (ses c') ''token'' = None \<and> storage (ses c') ''username'' = None"
proof -
  have "signed_out (client_step c ClickLogout)"
    using assms(1) by (simp add: signed_out_def)
  then have "signed_out (client_run (client_step c ClickLogout) es)"
    using assms(2) by (rule signed_out_run)
  then show ?thesis by (simp add: signed_out_def Let_def)
qed

theorem logout_survives_inflight_requests_witness:
  "let c = client_run (page_load [''token'' \<mapsto> ''t1'', ''username'' \<mapsto> ''ann''] ''/tasks'')
             [Deliver 0 (Response 200 (Some \<lparr>body_token = None, body_username = Some ''ann'', body_message = None\<rparr>)),
              IssueApi ''/tasks''];
       es = [IssueApi ''/analytics'', Deliver 1 (Response 200 None), Deliver 0 (Response 401 None)];
       c' = client_run (client_step c ClickLogout) es
   in (\<forall>q \<in> set (pending c). is_api_req q) \<and> (\<forall>e \<in> set es. \<not> is_submit e) \<and>
      token (ses c') = None \<and> user (ses c') = None \<and>
      storage (ses c') ''token'' = None \<and> storage (ses c') ''username'' = None"
proof -
  let ?c = "client_run (page_load [''token'' \<mapsto> ''t1'', ''username'' \<mapsto> ''ann''] ''/tasks'')
             [Deliver 0 (Response 200 (Some \<lparr>body_token = None, body_username = Some ''ann'', body_message = None\<rparr>)),
              IssueApi ''/tasks'']"
  let ?es = "[IssueApi ''/analytics'', Deliver 1 (Response 200 None), Deliver 0 (Response 401 None)]"
  have h1: "\<forall>q \<in> set (pending ?c). is_api_req q"
    by (simp add: page_load_pending remove_nth_def is_api_req_def)
  have h2: "\<forall>e \<in> set ?es. \<not> is_submit e"
    by (simp add: is_submit_def)
  show ?thesis
    using h1 h2 logout_survives_inflight_requests [OF h1 h2] unfolding Let_def by blast
qed

text \<open>
  C7. A login that does not succeed leaves the session exactly as it was and reports
  the server's message, or \<open>"Login failed"\<close> when the body has none, or
  \<open>"Network error"\<close> when the request failed or the body was not JSON.
\<close>

theorem login_failure_keeps_session:
  assumes "\<not> credential_ok r"
  shows "login_done r s =
     (s, AuthFailure (case r of Response c (Some d) \<Rightarrow> js_or (body_message d) ''Login failed''
                              | _ \<Rightarrow> ''Network error''))"
  using assms by (auto simp: login_done_def credential_done_def credential_ok_def
                       split: response.splits option.splits)

theorem login_failure_keeps_session_witness:
  "\<not> credential_ok (Response 403 (Some \<lparr>body_token = None, body_username = None,
                                         body_message = Some ''Bad credentials''\<rparr>)) \<and>
   login_done (Response 403 (Some \<lparr>body_token = None, body_username = None,
                                   body_message = Some ''Bad credentials''\<rparr>))
              (AuthProvider Map.empty ''/login'') =
     (AuthProvider Map.empty ''/login'', AuthFailure ''Bad credentials'')"
proof -
  let ?r = "Response 403 (Some \<lparr>body_token = None, body_username = None,
                                body_message = Some ''Bad credentials''\<rparr>) :: auth_response"
  have h: "\<not> credential_ok ?r" by (simp add: credential_ok_def)
  show ?thesis using h login_failure_keeps_session [OF h, of "AuthProvider Map.empty ''/login''"]
    by simp
qed

text \<open>
  C8. Start-up with a stored non-empty token: the client is Initializing with one
  validation request for that token in flight. The phase it then settles in is
  Authenticated exactly when the validation answer is a 2xx JSON response; otherwise
  the stored token and username are removed and the client is at \<open>/login\<close>.
\<close>

theorem startup_validation:
  assumes "st ''token'' = Some t" and "t \<noteq> []"
  shows "let c = page_load st loc; c' = client_step c (Deliver 0 r) in
     phase (ses c) = Initializing \<and> pending c = [ValidateReq t] \<and>
     phase (ses c') = (if validation_accepted r then Authenticated else Unauthenticated) \<and>
     (validation_accepted r \<or>
        (storage (ses c') = st(''token'' := None, ''username'' := None) \<and>
         location (ses c') = ''/login''))"
  using assms
  by (auto simp: page_load_ses page_load_pending phase_def isAuthenticated_def remove_nth_def
                 validateToken_done_def validation_accepted_def
           split: response.splits option.splits)

theorem startup_validation_witness:
  "[''token'' \<mapsto> ''t1''] ''token'' = Some ''t1'' \<and> ''t1'' \<noteq> [] \<and>
   (let c = page_load [''token'' \<mapsto> ''t1''] ''/tasks''; c' = client_step c (Deliver 0 NetworkError) in
     phase (ses c) = Initializing \<and> pending c = [ValidateReq ''t1''] \<and>
     phase (ses c') = (if validation_accepted (NetworkError :: auth_response) then Authenticated
                       else Unauthenticated) \<and>
     (validation_accepted (NetworkError :: auth_response) \<or>
        (storage (ses c') = [''token'' \<mapsto> ''t1''](''token'' := None, ''username'' := None) \<and>
         location (ses c') = ''/login'')))"
  using startup_validation [of "[''token'' \<mapsto> ''t1'']" "''t1''" "''/tasks''" NetworkError]
  by simp

text \<open>
  C9. A validation request still in flight is answered against whatever session is
  current when the answer arrives: a rejected validation logs that session out and
  removes its stored token, also when the user has signed in meanwhile with a new
  token, which the validation never concerned.
\<close>

theorem stale_validation_logs_out_new_login:
  assumes "i < length (pending c)" "pending c ! i = ValidateReq t" "\<not> validation_accepted r"
  shows "\<not> isAuthenticated (ses (client_step c (Deliver i r))) \<and>
         storage (ses (client_step c (Deliver i r))) ''token'' = None \<and>
         user (ses (client_step c (Deliver i r))) = None \<and>
         location (ses (client_step c (Deliver i r))) = ''/login''"
  using assms
  by (auto simp: validateToken_done_def validation_accepted_def isAuthenticated_def Let_def
           split: response.splits option.splits if_splits)

theorem stale_validation_logs_out_new_login_witness:
  "0 < length (pending (client_run (page_load [''token'' \<mapsto> ''old''] ''/login'')
      [SubmitLogin ''bob'' ''pw'', Deliver 1 (Response 200 (Some \<lparr>body_token = Some ''new'',
         body_username = Some ''bob'', body_message = None\<rparr>))])) \<and>
   pending (client_run (page_load [''token'' \<mapsto> ''old''] ''/login'')
      [SubmitLogin ''bob'' ''pw'', Deliver 1 (Response 200 (Some \<lparr>body_token = Some ''new'',
         body_username = Some ''bob'', body_message = None\<rparr>))]) ! 0 = ValidateReq ''old'' \<and>
   isAuthenticated (ses (client_run (page_load [''token'' \<mapsto> ''old''] ''/login'')
      [SubmitLogin ''bob'' ''pw'', Deliver 1 (Response 200 (Some \<lparr>body_token = Some ''new'',
         body_username = Some ''bob'', body_message = None\<rparr>))])) \<and>
   \<not> isAuthenticated (ses (client_step (client_run (page_load [''token'' \<mapsto> ''old''] ''/login'')
      [SubmitLogin ''bob'' ''pw'', Deliver 1 (Response 200 (Some \<lparr>body_token = Some ''new'',
         body_username = Some ''bob'', body_message = None\<rparr>))]) (Deliver 0 (Response 401 None)))) \<and>
   storage (ses (client_step (client_run (page_load [''token'' \<mapsto> ''old''] ''/login'')
      [SubmitLogin ''bob'' ''pw'', Deliver 1 (Response 200 (Some \<lparr>body_token = Some ''new'',
         body_username = Some ''bob'', body_message = None\<rparr>))]) (Deliver 0 (Response 401 None)))) ''token'' = None"
proof -
  have h: "0 < length (pending (client_run (page_load [''token'' \<mapsto> ''old''] ''/login'')
      [SubmitLogin ''bob'' ''pw'', Deliver 1 (Response 200 (Some \<lparr>body_token = Some ''new'',
         body_username = Some ''bob'', body_message = None\<rparr>))]))"
    "pending (client_run (page_load [''token'' \<mapsto> ''old''] ''/login'')
      [SubmitLogin ''bob'' ''pw'', Deliver 1 (Response 200 (Some \<lparr>body_token = Some ''new'',
         body_username = Some ''bob'', body_message = None\<rparr>))]) ! 0 = ValidateReq ''old''"
    "\<not> validation_accepted (Response 401 None)"
    by (simp_all add: page_load_ses page_load_pending remove_nth_def validation_accepted_def)
  have a: "isAuthenticated (ses (client_run (page_load [''token'' \<mapsto> ''old''] ''/login'')
      [SubmitLogin ''bob'' ''pw'', Deliver 1 (Response 200 (Some \<lparr>body_token = Some ''new'',
         body_username = Some ''bob'', body_message = None\<rparr>))]))"
    by (simp add: page_load_ses page_load_pending remove_nth_def login_done_def credential_done_def
        isAuthenticated_def resp_ok_def)
  show ?thesis using h(1,2) a stale_validation_logs_out_new_login [OF h] by blast
qed

text \<open>
  C10. A validation success that arrives while no token is held, after a logout or a
  forced logout, still sets the user from the answer: the client is unauthenticated yet
  holds a user, and the stored and React tokens stay empty.
\<close>

theorem stale_validation_restores_user:
  assumes "i < length (pending c)" "pending c ! i = ValidateReq t"
    and "r = Response k (Some b)" "resp_ok k" "token (ses c) = None"
  shows "\<not> isAuthenticated (ses (client_step c (Deliver i r))) \<and>
         token (ses (client_step c (Deliver i r))) = None \<and>
         user (ses (client_step c (Deliver i r))) = Some (body_username b)"
  using assms by (simp add: validateToken_done_def isAuthenticated_def Let_def)

theorem stale_validation_restores_user_witness:
  "0 < length (pending (client_step (page_load [''token'' \<mapsto> ''old''] ''/tasks'') ClickLogout)) \<and>
   pending (client_step (page_load [''token'' \<mapsto> ''old''] ''/tasks'') ClickLogout) ! 0 = ValidateReq ''old'' \<and>
   token (ses (client_step (page_load [''token'' \<mapsto> ''old''] ''/tasks'') ClickLogout)) = None \<and>
   \<not> isAuthenticated (ses (client_step (client_step (page_load [''token'' \<mapsto> ''old''] ''/tasks'') ClickLogout)
      (Deliver 0 (Response 200 (Some \<lparr>body_token = None, body_username = Some ''alice'', body_message = None\<rparr>))))) \<and>
   user (ses (client_step (client_step (page_load [''token'' \<mapsto> ''old''] ''/tasks'') ClickLogout)
      (Deliver 0 (Response 200 (Some \<lparr>body_token = None, body_username = Some ''alice'', body_message = None\<rparr>))))) =
     Some (Some ''alice'')"
proof -
  have h: "0 < length (pending (client_step (page_load [''token'' \<mapsto> ''old''] ''/tasks'') ClickLogout))"
    "pending (client_step (page_load [''token'' \<mapsto> ''old''] ''/tasks'') ClickLogout) ! 0 = ValidateReq ''old''"
    "Response 200 (Some \<lparr>body_token = None, body_username = Some ''alice'', body_message = None\<rparr>) =
     Response 200 (Some \<lparr>body_token = None, body_username = Some ''alice'', body_message = None\<rparr>)"
    "resp_ok 200"
    "token (ses (client_step (page_load [''token'' \<mapsto> ''old''] ''/tasks'') ClickLogout)) = None"
    by (simp_all add: page_load_ses page_load_pending resp_ok_def)
  show ?thesis using h(1,2,5) stale_validation_restores_user [OF h] by simp
qed

end
