(* ===== verification/CreateTask.thy ===== *)
theory CreateTask
  imports Api
begin

text \<open>
  The task-creation form, \<open>src/src/pages/CreateTask.jsx\<close>: the form record and its
  field errors, \<open>handleChange\<close>, the client-side checks of \<open>validateForm\<close>, and
  \<open>handleSubmit\<close> split at its await into the request it sends and the continuation
  that navigates or alerts. The current time is a clock: milliseconds since the epoch
  and the local offset from UTC in minutes (east positive, \<open>-getTimezoneOffset()\<close>);
  a due date is a day number, and \<open>new Date("YYYY-MM-DD")\<close> is midnight UTC of it.
\<close>

record task_form =
  form_title :: string
  form_description :: string
  form_dueDate :: "day option"   \<comment> \<open>None is the empty input\<close>
  form_priority :: priority
  form_status :: status

datatype form_field = Title | Description | DueDate | Priority | Status

datatype field_input =
    InTitle string | InDescription string | InDueDate "day option"
  | InPriority priority | InStatus status

record form_state =
  formData :: task_form
  errors :: "form_field \<rightharpoonup> string"
  loading_form :: bool

record clock =
  now_ms :: int
  tz_min :: int

definition initial_form :: form_state where
  "initial_form =
     \<lparr>formData = \<lparr>form_title = [], form_description = [], form_dueDate = None,
                   form_priority = MEDIUM, form_status = TODO\<rparr>,
      errors = Map.empty, loading_form = False\<rparr>"

fun input_field :: "field_input \<Rightarrow> form_field" where
  "input_field (InTitle _) = Title"
| "input_field (InDescription _) = Description"
| "input_field (InDueDate _) = DueDate"
| "input_field (InPriority _) = Priority"
| "input_field (InStatus _) = Status"

fun set_input :: "field_input \<Rightarrow> task_form \<Rightarrow> task_form" where
  "set_input (InTitle v) f = f\<lparr>form_title := v\<rparr>"
| "set_input (InDescription v) f = f\<lparr>form_description := v\<rparr>"
| "set_input (InDueDate v) f = f\<lparr>form_dueDate := v\<rparr>"
| "set_input (InPriority v) f = f\<lparr>form_priority := v\<rparr>"
| "set_input (InStatus v) f = f\<lparr>form_status := v\<rparr>"

definition handleChange :: "field_input \<Rightarrow> form_state \<Rightarrow> form_state" where
  "handleChange inp s =
     s\<lparr>formData := set_input inp (formData s),
       errors := (if js_truthy (errors s (input_field inp))
                  then (errors s)(input_field inp \<mapsto> [])
                  else errors s)\<rparr>"

text \<open>\<open>today.setHours(0, 0, 0, 0)\<close>: local midnight of the current local day, in UTC ms.\<close>

definition local_day :: "clock \<Rightarrow> day" where
  "local_day ck = (now_ms ck + tz_min ck * 60000) div ms_per_day"

definition local_midnight :: "clock \<Rightarrow> int" where
  "local_midnight ck = local_day ck * ms_per_day - tz_min ck * 60000"

definition validateForm :: "clock \<Rightarrow> task_form \<Rightarrow> form_field \<rightharpoonup> string" where
  "validateForm ck f =
     (let e1 = (if js_trim (form_title f) = [] then [Title \<mapsto> ''Title is required'']
                else if length (form_title f) < 3
                  then [Title \<mapsto> ''Title must be at least 3 characters'']
                else Map.empty);
          e2 = (if form_description f \<noteq> [] \<and> 500 < length (form_description f)
                then e1(Description \<mapsto> ''Description must be less than 500 characters'')
                else e1);
          e3 = (case form_dueDate f of
                  None \<Rightarrow> e2
                | Some d \<Rightarrow> if date_ms d < local_midnight ck
                            then e2(DueDate \<mapsto> ''Due date cannot be in the past'') else e2)
      in e3)"

text \<open>
  \<open>handleSubmit\<close> up to its await: invalid forms store the errors and return; valid
  ones set \<open>loading\<close> and send the form as the body of \<open>POST /tasks\<close>.
\<close>

definition handleSubmit ::
  "clock \<Rightarrow> storage \<Rightarrow> string \<Rightarrow> form_state \<Rightarrow> form_state \<times> task_form http_request option" where
  "handleSubmit ck st base s =
     (let errs = validateForm ck (formData s) in
      if errs \<noteq> Map.empty then (s\<lparr>errors := errs\<rparr>, None)
      else (s\<lparr>errors := errs, loading_form := True\<rparr>,
            Some \<lparr>req_method = POST, req_url = base @ ''/tasks'',
                  req_headers = bearer_headers st, req_body = Some (formData s)\<rparr>))"

datatype submit_outcome = NavigateTo string | AlertShown string

text \<open>The continuation: the created task's id, or an alert; \<open>loading\<close> is reset in \<open>finally\<close>.\<close>

definition handleSubmit_done :: "int response \<Rightarrow> form_state \<Rightarrow> form_state \<times> submit_outcome" where
  "handleSubmit_done r s =
     (s\<lparr>loading_form := False\<rparr>,
      (case page_settle ''Failed to create task'' r of
         Inl _ \<Rightarrow> AlertShown ''Failed to create task. Please try again.''
       | Inr i \<Rightarrow> NavigateTo (''/task/'' @ show_int i)))"

definition handleCancel :: "string" where
  "handleCancel = ''/tasks''"

subsection \<open>Lemmas\<close>

lemma validateForm_Title:
  "validateForm ck f Title =
     (if js_trim (form_title f) = [] then Some ''Title is required''
      else if length (form_title f) < 3 then Some ''Title must be at least 3 characters''
      else None)"
  by (simp add: validateForm_def Let_def split: option.splits)

lemma validateForm_Description:
  "validateForm ck f Description =
     (if 500 < length (form_description f)
      then Some ''Description must be less than 500 characters'' else None)"
  by (auto simp: validateForm_def Let_def split: option.splits)

lemma validateForm_DueDate:
  "validateForm ck f DueDate =
     (case form_dueDate f of
        None \<Rightarrow> None
      | Some d \<Rightarrow> if date_ms d < local_midnight ck then Some ''Due date cannot be in the past'' else None)"
  by (simp add: validateForm_def Let_def split: option.splits)

lemma validateForm_other: "validateForm ck f Priority = None" "validateForm ck f Status = None"
  by (simp_all add: validateForm_def Let_def split: option.splits)

lemma validateForm_empty_iff:
  "validateForm ck f = Map.empty \<longleftrightarrow>
     validateForm ck f Title = None \<and> validateForm ck f Description = None \<and>
     validateForm ck f DueDate = None"
proof
  assume "validateForm ck f Title = None \<and> validateForm ck f Description = None \<and>
     validateForm ck f DueDate = None"
  then show "validateForm ck f = Map.empty"
    using validateForm_other by (intro ext) (metis form_field.exhaust)
qed simp

lemma due_before_midnight_iff:
  assumes "- 1440 < tz_min ck" and "tz_min ck < 1440"
  shows "date_ms d < local_midnight ck \<longleftrightarrow>
           (if tz_min ck < 0 then d \<le> local_day ck else d < local_day ck)"
proof -
  have "date_ms d < local_midnight ck \<longleftrightarrow>
          d * ms_per_day < local_day ck * ms_per_day - tz_min ck * 60000"
    by (simp add: date_ms_def local_midnight_def)
  also have "\<dots> \<longleftrightarrow> (if tz_min ck * 60000 < 0 then d \<le> local_day ck else d < local_day ck)"
    using assms by (intro day_compare) (simp_all add: ms_per_day_def)
  finally show ?thesis by simp
qed

lemmas form_checks = validateForm_Title validateForm_Description validateForm_DueDate

subsection \<open>Properties of the form\<close>

text \<open>
  C11. The title check: a title is rejected exactly when it has fewer than 3 characters
  or consists of whitespace only. Since the length is taken before trimming, a title
  such as \<open>"  a"\<close> is accepted.
\<close>

theorem title_rejected_iff:
  "Title \<in> dom (validateForm ck f) \<longleftrightarrow> length (form_title f) < 3 \<or> js_trim (form_title f) = []"
  by (simp add: domIff validateForm_Title)

text \<open>The description check: rejected exactly when longer than 500 characters.\<close>

theorem description_rejected_iff:
  "Description \<in> dom (validateForm ck f) \<longleftrightarrow> 500 < length (form_description f)"
  by (simp add: domIff validateForm_Description)

text \<open>
  C13. The due-date check, for any real time-zone offset: east of UTC or at UTC a date
  is rejected exactly when it is before the local current day; west of UTC also the
  current day itself is rejected, because the date is read as midnight UTC and
  compared with local midnight.
\<close>

theorem due_date_rejected_iff:
  assumes "- 1440 < tz_min ck" and "tz_min ck < 1440"
  shows "DueDate \<in> dom (validateForm ck f) \<longleftrightarrow>
    (case form_dueDate f of None \<Rightarrow> False
     | Some d \<Rightarrow> if tz_min ck < 0 then d \<le> local_day ck else d < local_day ck)"
  using assms by (simp add: domIff validateForm_DueDate due_before_midnight_iff split: option.splits)

theorem due_date_rejected_iff_witness:
  "- 1440 < tz_min \<lparr>now_ms = 0, tz_min = 60\<rparr> \<and> tz_min \<lparr>now_ms = 0, tz_min = 60\<rparr> < 1440 \<and>
   (DueDate \<in> dom (validateForm \<lparr>now_ms = 0, tz_min = 60\<rparr>
      (formData initial_form\<lparr>form_dueDate := Some (-1)\<rparr>)) \<longleftrightarrow>
    (case form_dueDate (formData initial_form\<lparr>form_dueDate := Some (-1)\<rparr>) of None \<Rightarrow> False
     | Some d \<Rightarrow> if tz_min \<lparr>now_ms = 0, tz_min = 60\<rparr> < 0 then d \<le> local_day \<lparr>now_ms = 0, tz_min = 60\<rparr>
                 else d < local_day \<lparr>now_ms = 0, tz_min = 60\<rparr>))"
  using due_date_rejected_iff [of "\<lparr>now_ms = 0, tz_min = 60\<rparr>" "formData initial_form\<lparr>form_dueDate := Some (-1)\<rparr>"]
  by simp

text \<open>
  C15. Submitting validates first: the errors shown are those of \<open>validateForm\<close>; a
  form with any error sends nothing and keeps its data; a valid form sends exactly one
  \<open>POST /tasks\<close> whose body is the form and sets the loading flag.
\<close>

theorem submit_validates_before_sending:
  "let (s', req) = handleSubmit ck st base s; errs = validateForm ck (formData s) in
     errors s' = errs \<and> formData s' = formData s \<and> (req = None \<longleftrightarrow> errs \<noteq> Map.empty) \<and>
     (case req of
        None \<Rightarrow> loading_form s' = loading_form s
      | Some r \<Rightarrow> req_method r = POST \<and> req_url r = base @ ''/tasks'' \<and>
                  req_body r = Some (formData s) \<and> loading_form s')"
  by (simp add: handleSubmit_def Let_def)

text \<open>
  C16. After the request settles the loading flag is cleared and the form keeps its
  data; a 2xx JSON answer navigates to the new task's page, anything else (network
  failure, non-2xx status, a body that is not JSON) shows the alert.
\<close>

theorem submit_done_outcome:
  "let (s', out) = handleSubmit_done r s in
     \<not> loading_form s' \<and> formData s' = formData s \<and> errors s' = errors s \<and>
     out = (case r of
              Response c (Some i) \<Rightarrow> if resp_ok c then NavigateTo (''/task/'' @ show_int i)
                                   else AlertShown ''Failed to create task. Please try again.''
            | _ \<Rightarrow> AlertShown ''Failed to create task. Please try again.'')"
  by (simp add: handleSubmit_done_def page_settle_def split: response.splits option.splits)

text \<open>
  Typing into a field changes only that field of the form and clears only that
  field's error, to the empty message; the other errors stay as they were.
\<close>

theorem handleChange_clears_own_error:
  "let s' = handleChange inp s in
     formData s' = set_input inp (formData s) \<and>
     \<not> js_truthy (errors s' (input_field inp)) \<and>
     (\<forall>g. g \<noteq> input_field inp \<longrightarrow> errors s' g = errors s g)"
  by (simp add: handleChange_def js_truthy_def split: option.splits)

theorem handleChange_clears_own_error_witness:
  "let s = initial_form\<lparr>errors := [Title \<mapsto> ''Title is required'', DueDate \<mapsto> ''x'']\<rparr>;
       s' = handleChange (InTitle ''Buy'') s
   in formData s' = set_input (InTitle ''Buy'') (formData s) \<and>
      \<not> js_truthy (errors s' (input_field (InTitle ''Buy''))) \<and>
      (\<forall>g. g \<noteq> input_field (InTitle ''Buy'') \<longrightarrow> errors s' g = errors s g) \<and>
      errors s' DueDate = Some ''x''"
  using handleChange_clears_own_error [of "InTitle ''Buy''"
      "initial_form\<lparr>errors := [Title \<mapsto> ''Title is required'', DueDate \<mapsto> ''x'']\<rparr>"]
  by (simp add: Let_def handleChange_def)

end
