(* ===== verification/Server.thy ===== *)
theory Server
  imports Api
begin

text \<open>
  The remote task API, which is not part of the repository. It is modelled from the
  endpoint table of the specification (section 6) as a store of tasks and one
  function per endpoint, so that the client's requests and reloads can be composed
  with it. A request body that is a whole task object and one that carries a single
  field are both patches: the fields present overwrite, the others are kept (the
  specification leaves partial updates open; for whole objects the two readings
  agree). Statuses in the analytics are counted from the stored tasks.
\<close>

record task_patch =
  p_title :: "string option"
  p_description :: "string option"
  p_status :: "status option"
  p_priority :: "priority option"
  p_dueDate :: "day option option"
  p_subtasks :: "subtask list option"

record analytics =
  totalTasks :: nat
  toDo :: nat
  inProgress :: nat
  done_count :: nat  \<comment> \<open>the JSON field \<open>done\<close>; \<open>done\<close> is an Isar keyword\<close>

record server =
  srv_tasks :: "task list"
  srv_next :: int
  srv_clock :: int

datatype api_call =
    GetTasks
  | GetTask int
  | PostTask task_patch
  | PutTask int task_patch
  | DeleteTask int
  | PostSubtask int string
  | PutSubtask int int bool
  | PostComment int string
  | GetAnalytics
  | BadPath string  \<comment> \<open>a \<open>/tasks/{id}\<close> path whose id is not an integer\<close>

datatype payload = PTasks "task list" | PTask task | PStats analytics | PEmpty

text \<open>A request as a page sends it: the endpoint and the headers.\<close>

type_synonym page_req = "api_call \<times> (string \<times> string) list"

definition no_patch :: task_patch where
  "no_patch = \<lparr>p_title = None, p_description = None, p_status = None, p_priority = None,
               p_dueDate = None, p_subtasks = None\<rparr>"

definition full_patch :: "task \<Rightarrow> task_patch" where
  \<comment> \<open>\<open>JSON.stringify(task)\<close>: every field is present\<close>
  "full_patch t = \<lparr>p_title = Some (title t), p_description = Some (description t),
                   p_status = Some (status t), p_priority = Some (priority t),
                   p_dueDate = Some (dueDate t), p_subtasks = Some (subtasks t)\<rparr>"

definition apply_patch :: "task_patch \<Rightarrow> task \<Rightarrow> task" where
  "apply_patch p t =
     t\<lparr>title := (case p_title p of Some v \<Rightarrow> v | None \<Rightarrow> title t),
       description := (case p_description p of Some v \<Rightarrow> v | None \<Rightarrow> description t),
       status := (case p_status p of Some v \<Rightarrow> v | None \<Rightarrow> status t),
       priority := (case p_priority p of Some v \<Rightarrow> v | None \<Rightarrow> priority t),
       dueDate := (case p_dueDate p of Some v \<Rightarrow> v | None \<Rightarrow> dueDate t),
       subtasks := (case p_subtasks p of Some v \<Rightarrow> v | None \<Rightarrow> subtasks t)\<rparr>"

definition find_task :: "int \<Rightarrow> task list \<Rightarrow> task option" where
  "find_task i ts = find (\<lambda>t. task_id t = i) ts"

definition update_task :: "int \<Rightarrow> (task \<Rightarrow> task) \<Rightarrow> task list \<Rightarrow> task list" where
  "update_task i f ts = map (\<lambda>t. if task_id t = i then f t else t) ts"

fun set_completed_list :: "int \<Rightarrow> bool \<Rightarrow> subtask list \<Rightarrow> subtask list" where
  "set_completed_list sid b [] = []"
| "set_completed_list sid b (st # sts) =
     (if subtask_id st = sid then st\<lparr>completed := b\<rparr> else st) # set_completed_list sid b sts"

definition set_completed :: "int \<Rightarrow> bool \<Rightarrow> task \<Rightarrow> task" where
  "set_completed sid b t = t\<lparr>subtasks := set_completed_list sid b (subtasks t)\<rparr>"

definition next_subtask_id :: "task \<Rightarrow> int" where
  "next_subtask_id t = fold max (map subtask_id (subtasks t)) 0 + 1"

definition next_comment_id :: "task \<Rightarrow> int" where
  "next_comment_id t = fold max (map comment_id (comments t)) 0 + 1"

definition count_status :: "status \<Rightarrow> task list \<Rightarrow> nat" where
  "count_status s ts = count_if (\<lambda>t. status t = s) ts"

definition server_analytics :: "task list \<Rightarrow> analytics" where
  "server_analytics ts =
     \<lparr>totalTasks = length ts, toDo = count_status TODO ts,
      inProgress = count_status IN_PROGRESS ts, done_count = count_status DONE ts\<rparr>"

definition new_task :: "int \<Rightarrow> task_patch \<Rightarrow> task" where
  "new_task i p = apply_patch p
     \<lparr>task_id = i, title = [], description = [], status = TODO, priority = MEDIUM,
      dueDate = None, subtasks = [], comments = []\<rparr>"

fun server_handle :: "api_call \<Rightarrow> server \<Rightarrow> server \<times> payload response" where
  "server_handle GetTasks s = (s, Response 200 (Some (PTasks (srv_tasks s))))"
| "server_handle (GetTask i) s =
     (case find_task i (srv_tasks s) of
        None \<Rightarrow> (s, Response 404 None)
      | Some t \<Rightarrow> (s, Response 200 (Some (PTask t))))"
| "server_handle (PostTask p) s =
     (let t = new_task (srv_next s) p in
      (s\<lparr>srv_tasks := srv_tasks s @ [t], srv_next := srv_next s + 1\<rparr>, Response 201 (Some (PTask t))))"
| "server_handle (PutTask i p) s =
     (case find_task i (srv_tasks s) of
        None \<Rightarrow> (s, Response 404 None)
      | Some t \<Rightarrow> (s\<lparr>srv_tasks := update_task i (apply_patch p) (srv_tasks s)\<rparr>,
                   Response 200 (Some (PTask (apply_patch p t)))))"
| "server_handle (DeleteTask i) s =
     (case find_task i (srv_tasks s) of
        None \<Rightarrow> (s, Response 404 None)
      | Some t \<Rightarrow> (s\<lparr>srv_tasks := filter (\<lambda>t. task_id t \<noteq> i) (srv_tasks s)\<rparr>, Response 204 None))"
| "server_handle (PostSubtask i ttl) s =
     (case find_task i (srv_tasks s) of
        None \<Rightarrow> (s, Response 404 None)
      | Some t \<Rightarrow>
          (let st = \<lparr>subtask_id = next_subtask_id t, subtask_title = ttl, completed = False\<rparr> in
           (s\<lparr>srv_tasks := update_task i (\<lambda>t. t\<lparr>subtasks := subtasks t @ [st]\<rparr>) (srv_tasks s)\<rparr>,
            Response 201 (Some PEmpty))))"
| "server_handle (PutSubtask i sid b) s =
     (case find_task i (srv_tasks s) of
        None \<Rightarrow> (s, Response 404 None)
      | Some t \<Rightarrow>
          if sid \<in> set (map subtask_id (subtasks t))
          then (s\<lparr>srv_tasks := update_task i (set_completed sid b) (srv_tasks s)\<rparr>, Response 200 (Some PEmpty))
          else (s, Response 404 None))"
| "server_handle (PostComment i txt) s =
     (case find_task i (srv_tasks s) of
        None \<Rightarrow> (s, Response 404 None)
      | Some t \<Rightarrow>
          (let c = \<lparr>comment_id = next_comment_id t, comment_text = txt, createdAt = srv_clock s\<rparr> in
           (s\<lparr>srv_tasks := update_task i (\<lambda>t. t\<lparr>comments := comments t @ [c]\<rparr>) (srv_tasks s)\<rparr>,
            Response 201 (Some PEmpty))))"
| "server_handle GetAnalytics s = (s, Response 200 (Some (PStats (server_analytics (srv_tasks s)))))"
| "server_handle (BadPath p) s = (s, Response 404 None)"

text \<open>Well-formed stores: task ids are distinct and below the next id to be issued.\<close>

definition wf_server :: "server \<Rightarrow> bool" where
  "wf_server s \<longleftrightarrow> distinct (map task_id (srv_tasks s)) \<and>
     (\<forall>t \<in> set (srv_tasks s). task_id t < srv_next s)"

subsection \<open>Lemmas\<close>

lemma find_task_SomeD: "find_task i ts = Some t \<Longrightarrow> t \<in> set ts \<and> task_id t = i"
  by (auto simp: find_task_def find_Some_iff)

lemma find_task_update_same:
  "(\<And>t. task_id (f t) = task_id t) \<Longrightarrow>
   find_task i (update_task i f ts) = map_option f (find_task i ts)"
  by (induction ts) (auto simp: find_task_def update_task_def)

lemma find_task_update_other:
  "(\<And>t. task_id (f t) = task_id t) \<Longrightarrow> j \<noteq> i \<Longrightarrow>
   find_task j (update_task i f ts) = find_task j ts"
  by (induction ts) (auto simp: find_task_def update_task_def)

lemma map_task_id_update:
  "(\<And>t. task_id (f t) = task_id t) \<Longrightarrow> map task_id (update_task i f ts) = map task_id ts"
  by (induction ts) (auto simp: update_task_def)

lemma set_update_task_ids:
  "(\<And>t. task_id (f t) = task_id t) \<Longrightarrow> task_id ` set (update_task i f ts) = task_id ` set ts"
  by (metis list.set_map map_task_id_update)

lemma task_id_patches [simp]:
  "task_id (apply_patch p t) = task_id t"
  "task_id (set_completed sid b t) = task_id t"
  "comments (apply_patch p t) = comments t"
  by (simp_all add: apply_patch_def set_completed_def)

lemma set_completed_list_flag:
  "x \<in> set (set_completed_list sid b sts) \<Longrightarrow> subtask_id x = sid \<Longrightarrow> completed x = b"
proof (induction sts)
  case (Cons st sts)
  show ?case
  proof (cases "subtask_id st = sid")
    case True
    with Cons.prems Cons.IH show ?thesis by (cases "x = st\<lparr>completed := b\<rparr>") simp_all
  next
    case False
    with Cons.prems Cons.IH show ?thesis by (cases "x = st") simp_all
  qed
qed simp

lemma set_completed_flag:
  "x \<in> set (subtasks (set_completed sid b t)) \<Longrightarrow> subtask_id x = sid \<Longrightarrow> completed x = b"
  by (simp add: set_completed_def set_completed_list_flag)

lemma apply_full_patch:
  "apply_patch (full_patch x) y = x\<lparr>task_id := task_id y, comments := comments y\<rparr>"
  by (simp add: apply_patch_def full_patch_def)

lemmas server_task_lemmas = find_task_update_same find_task_update_other map_task_id_update
  set_update_task_ids

lemma find_task_exists: "t \<in> set ts \<Longrightarrow> \<exists>t'. find_task (task_id t) ts = Some t'"
  by (cases "find_task (task_id t) ts") (auto simp: find_task_def find_None_iff)

lemma find_task_unique:
  assumes "distinct (map task_id ts)" "t \<in> set ts"
  shows "find_task (task_id t) ts = Some t"
proof -
  obtain t' where f: "find_task (task_id t) ts = Some t'" using find_task_exists [OF assms(2)] by blast
  then have "t' \<in> set ts" "task_id t' = task_id t" using find_task_SomeD by auto
  then have "t' = t" using assms by (metis distinct_map inj_onD)
  with f show ?thesis by simp
qed

lemma update_task_mem: "t \<in> set ts \<Longrightarrow> f t \<in> set (update_task (task_id t) f ts)"
  by (force simp: update_task_def)

lemma update_task_memE:
  assumes "y \<in> set (update_task i f ts)" "task_id y = i" "\<And>x. task_id (f x) = task_id x"
  obtains x where "x \<in> set ts" "task_id x = i" "y = f x"
  using assms by (auto simp: update_task_def split: if_splits)

lemma update_task_cong_unique:
  assumes "distinct (map task_id ts)" "t \<in> set ts" "f t = g t"
  shows "update_task (task_id t) f ts = update_task (task_id t) g ts"
proof -
  have "\<And>y. y \<in> set ts \<Longrightarrow> task_id y = task_id t \<Longrightarrow> y = t"
    using assms(1,2) by (metis distinct_map inj_onD)
  then show ?thesis using assms(3) unfolding update_task_def by (intro map_cong) auto
qed

lemma set_completed_list_nth:
  "distinct (map subtask_id xs) \<Longrightarrow> j < length xs \<Longrightarrow>
   set_completed_list (subtask_id (xs ! j)) b xs = xs[j := (xs ! j)\<lparr>completed := b\<rparr>]"
proof (induction xs arbitrary: j)
  case (Cons x xs)
  show ?case
  proof (cases j)
    case 0
    have "set_completed_list (subtask_id x) b xs = xs"
      using Cons.prems(1) by (induction xs) auto
    with 0 show ?thesis by simp
  next
    case (Suc j')
    then have m: "xs ! j' \<in> set xs" using Cons.prems(2) by simp
    have n: "subtask_id x \<notin> subtask_id ` set xs" using Cons.prems(1) by simp
    from m n have "subtask_id (xs ! j') \<noteq> subtask_id x" by (metis image_eqI)
    with Suc Cons show ?thesis by simp
  qed
qed simp

lemma wf_server_update:
  assumes "wf_server s" and "\<And>t. task_id (f t) = task_id t"
  shows "wf_server (s\<lparr>srv_tasks := update_task i f (srv_tasks s)\<rparr>)"
proof -
  have "\<forall>t \<in> set (update_task i f (srv_tasks s)). task_id t < srv_next s"
  proof
    fix t assume "t \<in> set (update_task i f (srv_tasks s))"
    then have "task_id t \<in> task_id ` set (srv_tasks s)"
      using set_update_task_ids [of f i "srv_tasks s"] assms(2) by blast
    then show "task_id t < srv_next s" using assms(1) by (auto simp: wf_server_def)
  qed
  with assms show ?thesis by (simp add: wf_server_def map_task_id_update)
qed

lemma task_id_new_task [simp]: "task_id (new_task i p) = i"
  by (simp add: new_task_def)

lemma wf_server_post:
  assumes "wf_server s"
  shows "wf_server (s\<lparr>srv_tasks := srv_tasks s @ [new_task (srv_next s) p], srv_next := srv_next s + 1\<rparr>)"
proof -
  have "srv_next s \<notin> task_id ` set (srv_tasks s)" using assms by (auto simp: wf_server_def)
  with assms show ?thesis by (auto simp: wf_server_def)
qed

lemma wf_server_delete:
  "wf_server s \<Longrightarrow> wf_server (s\<lparr>srv_tasks := filter P (srv_tasks s)\<rparr>)"
  by (auto simp: wf_server_def distinct_map_filter)

text \<open>
  Every endpoint keeps the store well formed (task ids distinct and below the counter),
  which justifies the hypothesis \<open>wf_server\<close> of the client properties that look a
  task up by id.
\<close>

lemma server_handle_preserves_wf:
  assumes "wf_server s"
  shows "wf_server (fst (server_handle c s))"
proof (cases c)
  case (PostTask p)
  with assms show ?thesis by (simp add: Let_def wf_server_post)
next
  case (DeleteTask i)
  with assms show ?thesis by (simp add: wf_server_delete split: option.splits)
next
  case (PutTask i p)
  with assms show ?thesis by (simp add: wf_server_update split: option.splits)
next
  case (PostSubtask i ttl)
  with assms show ?thesis by (simp add: Let_def wf_server_update split: option.splits)
next
  case (PutSubtask i sid b)
  with assms show ?thesis by (simp add: wf_server_update split: option.splits)
next
  case (PostComment i msg)
  with assms show ?thesis by (simp add: Let_def wf_server_update split: option.splits)
qed (use assms in \<open>simp_all split: option.splits\<close>)

end
