(* ===== verification/TaskDetails.thy ===== *)
theory TaskDetails
  imports Server
begin

text \<open>
  The task detail page, \<open>src/src/pages/TaskDetails.jsx\<close>. Its state is the record
  \<open>details\<close>; each handler is split at its await into the request it sends (with the
  page's bearer headers) and a continuation that receives the response. A
  continuation either settles, shows an alert, navigates, or calls
  \<open>fetchTaskDetails()\<close> again (\<open>Refetch\<close>). \<open>run_action\<close> composes a handler with
  the server model when no other event intervenes: the request is answered, the
  continuation runs, and a requested refetch is answered in turn.
\<close>


record details =
  d_task :: "task option"
  d_loading :: bool
  d_error :: "string option"
  newSubtask :: string
  newComment :: string
  isEditing :: bool
  editedTask :: "task option"
  timerRunning :: bool
  timeSpent :: nat

datatype after = Refetch | AlertMsg string | GoTo string | Settled

definition details_init :: details where
  "details_init =
     \<lparr>d_task = None, d_loading = True, d_error = None, newSubtask = [], newComment = [],
      isEditing = False, editedTask = None, timerRunning = False, timeSpent = 0\<rparr>"

definition fetchTaskDetails :: "storage \<Rightarrow> int \<Rightarrow> details \<Rightarrow> details \<times> page_req" where
  "fetchTaskDetails st tid d = (d\<lparr>d_loading := True\<rparr>, (GetTask tid, bearer_headers st))"

definition fetchTaskDetails_done :: "payload response \<Rightarrow> details \<Rightarrow> details" where
  "fetchTaskDetails_done r d =
     (case page_settle ''Failed to fetch task'' r of
        Inr (PTask t) \<Rightarrow> d\<lparr>d_task := Some t, editedTask := Some t, d_error := None, d_loading := False\<rparr>
      | Inr _ \<Rightarrow> d\<lparr>d_error := Some ''Unexpected response'', d_loading := False\<rparr>
      | Inl e \<Rightarrow> d\<lparr>d_error := Some (error_message e), d_loading := False\<rparr>)"

definition status_body :: "task option \<Rightarrow> status \<Rightarrow> task_patch" where
  \<comment> \<open>\<open>{ ...task, status: newStatus }\<close>\<close>
  "status_body tk s =
     (case tk of None \<Rightarrow> no_patch\<lparr>p_status := Some s\<rparr> | Some t \<Rightarrow> full_patch (t\<lparr>status := s\<rparr>))"

definition handleStatusChange ::
  "storage \<Rightarrow> int \<Rightarrow> status \<Rightarrow> details \<Rightarrow> details \<times> page_req option" where
  "handleStatusChange st tid s d = (d, Some (PutTask tid (status_body (d_task d) s), bearer_headers st))"

definition handleStatusChange_done :: "payload response \<Rightarrow> details \<Rightarrow> details \<times> after" where
  "handleStatusChange_done r d =
     (case page_ok ''Failed to update status'' r of
        Inr _ \<Rightarrow> (d, Refetch)
      | Inl e \<Rightarrow> (d, AlertMsg (''Error updating status: '' @ error_message e)))"

definition handleAddSubtask :: "storage \<Rightarrow> int \<Rightarrow> details \<Rightarrow> details \<times> page_req option" where
  "handleAddSubtask st tid d =
     (if js_trim (newSubtask d) = [] then (d, None)
      else (d, Some (PostSubtask tid (newSubtask d), bearer_headers st)))"

definition handleAddSubtask_done :: "payload response \<Rightarrow> details \<Rightarrow> details \<times> after" where
  "handleAddSubtask_done r d =
     (case page_ok ''Failed to add subtask'' r of
        Inr _ \<Rightarrow> (d\<lparr>newSubtask := []\<rparr>, Refetch)
      | Inl e \<Rightarrow> (d, AlertMsg (''Error adding subtask: '' @ error_message e)))"

definition toggleSubtask ::
  "storage \<Rightarrow> int \<Rightarrow> int \<Rightarrow> bool \<Rightarrow> details \<Rightarrow> details \<times> page_req option" where
  "toggleSubtask st tid sid c d = (d, Some (PutSubtask tid sid (\<not> c), bearer_headers st))"

definition toggleSubtask_done :: "payload response \<Rightarrow> details \<Rightarrow> details \<times> after" where
  "toggleSubtask_done r d =
     (case page_ok ''Failed to update subtask'' r of
        Inr _ \<Rightarrow> (d, Refetch)
      | Inl e \<Rightarrow> (d, AlertMsg (''Error updating subtask: '' @ error_message e)))"

definition handleAddComment :: "storage \<Rightarrow> int \<Rightarrow> details \<Rightarrow> details \<times> page_req option" where
  "handleAddComment st tid d =
     (if js_trim (newComment d) = [] then (d, None)
      else (d, Some (PostComment tid (newComment d), bearer_headers st)))"

definition handleAddComment_done :: "payload response \<Rightarrow> details \<Rightarrow> details \<times> after" where
  "handleAddComment_done r d =
     (case page_ok ''Failed to add comment'' r of
        Inr _ \<Rightarrow> (d\<lparr>newComment := []\<rparr>, Refetch)
      | Inl e \<Rightarrow> (d, AlertMsg (''Error adding comment: '' @ error_message e)))"

definition handleSaveEdit :: "storage \<Rightarrow> int \<Rightarrow> details \<Rightarrow> details \<times> page_req option" where
  "handleSaveEdit st tid d =
     (d, Some (PutTask tid (case editedTask d of None \<Rightarrow> no_patch | Some t \<Rightarrow> full_patch t),
               bearer_headers st))"

definition handleSaveEdit_done :: "payload response \<Rightarrow> details \<Rightarrow> details \<times> after" where
  "handleSaveEdit_done r d =
     (case page_ok ''Failed to update task'' r of
        Inr _ \<Rightarrow> (d\<lparr>isEditing := False\<rparr>, Refetch)
      | Inl e \<Rightarrow> (d, AlertMsg (''Error updating task: '' @ error_message e)))"

definition handleDelete :: "storage \<Rightarrow> int \<Rightarrow> bool \<Rightarrow> details \<Rightarrow> details \<times> page_req option" where
  "handleDelete st tid confirmed d =
     (if \<not> confirmed then (d, None) else (d, Some (DeleteTask tid, bearer_headers st)))"

definition handleDelete_done :: "payload response \<Rightarrow> details \<Rightarrow> details \<times> after" where
  "handleDelete_done r d =
     (case page_ok ''Failed to delete task'' r of
        Inr _ \<Rightarrow> (d, GoTo ''/tasks'')
      | Inl e \<Rightarrow> (d, AlertMsg (''Error deleting task: '' @ error_message e)))"

datatype details_view = VLoading | VNotFound "string option" | VTask task nat nat

definition details_view :: "details \<Rightarrow> details_view" where
  "details_view d =
     (if d_loading d then VLoading
      else case (d_error d, d_task d) of
             (None, Some t) \<Rightarrow> VTask t (count_if completed (subtasks t)) (length (subtasks t))
           | (e, _) \<Rightarrow> VNotFound e)"

definition run_action ::
  "storage \<Rightarrow> int \<Rightarrow> server \<Rightarrow> details \<times> page_req option \<Rightarrow>
   (payload response \<Rightarrow> details \<Rightarrow> details \<times> after) \<Rightarrow> server \<times> details \<times> after" where
  "run_action st tid srv dq k =
     (case dq of
        (d, None) \<Rightarrow> (srv, d, Settled)
      | (d, Some q) \<Rightarrow>
          (case server_handle (fst q) srv of
             (srv1, r) \<Rightarrow>
               (case k r d of
                  (d1, Refetch) \<Rightarrow>
                    (case fetchTaskDetails st tid d1 of
                       (d2, q2) \<Rightarrow>
                         (case server_handle (fst q2) srv1 of
                            (srv2, r2) \<Rightarrow> (srv2, fetchTaskDetails_done r2 d2, Refetch)))
                | (d1, a) \<Rightarrow> (srv1, d1, a))))"

subsection \<open>Lemmas\<close>

lemma page_ok_ok [simp]: "resp_ok c \<Longrightarrow> page_ok m (Response c b) = Inr ()"
  by (simp add: page_ok_def)

lemma resp_ok_200 [simp]: "resp_ok 200" "resp_ok 201" "resp_ok 204"
  by (simp_all add: resp_ok_def)

lemma fetch_found:
  "find_task tid (srv_tasks s) = Some t \<Longrightarrow>
   fetchTaskDetails_done (snd (server_handle (GetTask tid) s)) d =
     d\<lparr>d_task := Some t, editedTask := Some t, d_error := None, d_loading := False\<rparr>"
  by (simp add: fetchTaskDetails_done_def page_settle_def)

lemmas details_handlers = handleStatusChange_def handleAddSubtask_def toggleSubtask_def
  handleAddComment_def handleSaveEdit_def handleDelete_def

lemmas details_continuations = handleStatusChange_done_def handleAddSubtask_done_def
  toggleSubtask_done_def handleAddComment_done_def handleSaveEdit_done_def handleDelete_done_def

subsection \<open>Properties of the detail page\<close>

text \<open>
  C19. Toggling a subtask of the detail page through the subtask endpoint and the
  reload that follows: the server and the page both hold the task with exactly that
  subtask's \<open>completed\<close> flag set to the negation of the value the page displayed,
  and the page shows it without error.
\<close>

theorem toggle_then_reload_negates:
  assumes "find_task tid (srv_tasks srv) = Some t" and "sid \<in> set (map subtask_id (subtasks t))"
  shows "case run_action st tid srv (toggleSubtask st tid sid c d) toggleSubtask_done of
     (srv', d', a) \<Rightarrow>
       find_task tid (srv_tasks srv') = Some (set_completed sid (\<not> c) t) \<and>
       d_task d' = Some (set_completed sid (\<not> c) t) \<and> d_error d' = None \<and> \<not> d_loading d' \<and>
       (\<forall>x \<in> set (subtasks (set_completed sid (\<not> c) t)). subtask_id x = sid \<longrightarrow> completed x = (\<not> c))"
proof -
  let ?t' = "set_completed sid (\<not> c) t"
  have upd: "find_task tid (update_task tid (set_completed sid (\<not> c)) (srv_tasks srv)) = Some ?t'"
    using assms(1) by (simp add: find_task_update_same)
  have put: "server_handle (PutSubtask tid sid (\<not> c)) srv =
      (srv\<lparr>srv_tasks := update_task tid (set_completed sid (\<not> c)) (srv_tasks srv)\<rparr>,
       Response 200 (Some PEmpty))"
    using assms by simp
  have get: "server_handle (GetTask tid)
      (srv\<lparr>srv_tasks := update_task tid (set_completed sid (\<not> c)) (srv_tasks srv)\<rparr>) =
      (srv\<lparr>srv_tasks := update_task tid (set_completed sid (\<not> c)) (srv_tasks srv)\<rparr>,
       Response 200 (Some (PTask ?t')))"
    using upd by simp
  show ?thesis
    using upd put get
    by (simp add: run_action_def toggleSubtask_def toggleSubtask_done_def fetchTaskDetails_def
        fetchTaskDetails_done_def page_settle_def set_completed_flag del: server_handle.simps)
qed

theorem toggle_then_reload_negates_witness:
  "let t = \<lparr>task_id = 1, title = ''Report'', description = [], status = TODO, priority = LOW,
             dueDate = None, subtasks = [\<lparr>subtask_id = 7, subtask_title = ''draft'', completed = False\<rparr>],
             comments = []\<rparr>;
       srv = \<lparr>srv_tasks = [t], srv_next = 2, srv_clock = 0\<rparr>
   in find_task 1 (srv_tasks srv) = Some t \<and> 7 \<in> set (map subtask_id (subtasks t)) \<and>
      (case run_action Map.empty 1 srv (toggleSubtask Map.empty 1 7 False details_init) toggleSubtask_done of
        (srv', d', a) \<Rightarrow>
          find_task 1 (srv_tasks srv') = Some (set_completed 7 (\<not> False) t) \<and>
          d_task d' = Some (set_completed 7 (\<not> False) t) \<and> d_error d' = None \<and> \<not> d_loading d' \<and>
          (\<forall>x \<in> set (subtasks (set_completed 7 (\<not> False) t)). subtask_id x = 7 \<longrightarrow> completed x = (\<not> False)))"
proof -
  let ?t = "\<lparr>task_id = 1, title = ''Report'', description = [], status = TODO, priority = LOW,
             dueDate = None, subtasks = [\<lparr>subtask_id = 7, subtask_title = ''draft'', completed = False\<rparr>],
             comments = []\<rparr>"
  let ?srv = "\<lparr>srv_tasks = [?t], srv_next = 2, srv_clock = 0\<rparr>"
  have h1: "find_task 1 (srv_tasks ?srv) = Some ?t" by (simp add: find_task_def)
  have h2: "(7::int) \<in> set (map subtask_id (subtasks ?t))" by simp
  show ?thesis
    using h1 h2 toggle_then_reload_negates [OF h1 h2, where st = Map.empty and c = False and d = details_init]
    unfolding Let_def by blast
qed

text \<open>
  C20. Changing the status on an up-to-date detail page and the reload that follows:
  the server and the page hold the same task with only its status changed.
\<close>

theorem status_change_then_reload:
  assumes "find_task tid (srv_tasks srv) = Some t" and "d_task d = Some t"
  shows "case run_action st tid srv (handleStatusChange st tid s d) handleStatusChange_done of
     (srv', d', a) \<Rightarrow>
       find_task tid (srv_tasks srv') = Some (t\<lparr>status := s\<rparr>) \<and> d_task d' = Some (t\<lparr>status := s\<rparr>) \<and>
       d_error d' = None \<and> a = Refetch"
proof -
  have t_id: "task_id t = tid" using assms(1) by (simp add: find_task_SomeD)
  have patched: "apply_patch (status_body (Some t) s) t = t\<lparr>status := s\<rparr>"
    by (simp add: status_body_def apply_full_patch)
  have upd: "find_task tid (update_task tid (apply_patch (status_body (Some t) s)) (srv_tasks srv)) =
             Some (t\<lparr>status := s\<rparr>)"
    using assms(1) patched by (simp add: find_task_update_same)
  show ?thesis
    using assms upd patched
    by (simp add: run_action_def handleStatusChange_def handleStatusChange_done_def
        fetchTaskDetails_def fetchTaskDetails_done_def page_settle_def del: server_handle.simps,
        simp)
qed

theorem status_change_then_reload_witness:
  "let t = \<lparr>task_id = 1, title = ''Report'', description = [], status = IN_PROGRESS, priority = LOW,
             dueDate = None, subtasks = [], comments = []\<rparr>;
       srv = \<lparr>srv_tasks = [t], srv_next = 2, srv_clock = 0\<rparr>;
       d = details_init\<lparr>d_task := Some t, d_loading := False\<rparr>
   in find_task 1 (srv_tasks srv) = Some t \<and> d_task d = Some t \<and>
      (case run_action Map.empty 1 srv (handleStatusChange Map.empty 1 DONE d) handleStatusChange_done of
        (srv', d', a) \<Rightarrow>
          find_task 1 (srv_tasks srv') = Some (t\<lparr>status := DONE\<rparr>) \<and> d_task d' = Some (t\<lparr>status := DONE\<rparr>) \<and>
          d_error d' = None \<and> a = Refetch)"
proof -
  let ?t = "\<lparr>task_id = 1, title = ''Report'', description = [], status = IN_PROGRESS, priority = LOW,
             dueDate = None, subtasks = [], comments = []\<rparr>"
  let ?srv = "\<lparr>srv_tasks = [?t], srv_next = 2, srv_clock = 0\<rparr>"
  let ?d = "details_init\<lparr>d_task := Some ?t, d_loading := False\<rparr>"
  have h1: "find_task 1 (srv_tasks ?srv) = Some ?t" by (simp add: find_task_def)
  have h2: "d_task ?d = Some ?t" by simp
  show ?thesis
    using h1 h2 status_change_then_reload [OF h1 h2, where st = Map.empty and s = DONE]
    unfolding Let_def by blast
qed

text \<open>
  C21. Adding a subtask: a blank or whitespace-only input sends nothing; otherwise the
  subtask is created on the server, the input is cleared and the reloaded task shows
  the new subtask, not completed, after the existing ones.
\<close>

theorem add_subtask_then_reload:
  assumes "find_task tid (srv_tasks srv) = Some t"
  shows "case run_action st tid srv (handleAddSubtask st tid d) handleAddSubtask_done of
     (srv', d', a) \<Rightarrow>
       (if js_trim (newSubtask d) = [] then srv' = srv \<and> d' = d
        else d_task d' = Some (t\<lparr>subtasks := subtasks t @
                 [\<lparr>subtask_id = next_subtask_id t, subtask_title = newSubtask d, completed = False\<rparr>]\<rparr>) \<and>
             newSubtask d' = [] \<and> d_error d' = None)"
proof (cases "js_trim (newSubtask d) = []")
  case True
  then show ?thesis by (simp add: run_action_def handleAddSubtask_def)
next
  case False
  let ?st = "\<lparr>subtask_id = next_subtask_id t, subtask_title = newSubtask d, completed = False\<rparr>"
  let ?f = "\<lambda>t. t\<lparr>subtasks := subtasks t @ [?st]\<rparr>"
  have upd: "find_task tid (update_task tid ?f (srv_tasks srv)) = Some (?f t)"
    using assms by (simp add: find_task_update_same)
  show ?thesis
    using assms upd False
    by (simp add: run_action_def handleAddSubtask_def handleAddSubtask_done_def Let_def
        fetchTaskDetails_def fetchTaskDetails_done_def page_settle_def)
qed

theorem add_subtask_then_reload_witness:
  "let t = \<lparr>task_id = 1, title = ''Report'', description = [], status = TODO, priority = LOW,
             dueDate = None, subtasks = [], comments = []\<rparr>;
       srv = \<lparr>srv_tasks = [t], srv_next = 2, srv_clock = 0\<rparr>;
       d = details_init\<lparr>d_task := Some t, newSubtask := ''outline''\<rparr>
   in find_task 1 (srv_tasks srv) = Some t \<and>
      (case run_action Map.empty 1 srv (handleAddSubtask Map.empty 1 d) handleAddSubtask_done of
        (srv', d', a) \<Rightarrow>
          (if js_trim (newSubtask d) = [] then srv' = srv \<and> d' = d
           else d_task d' = Some (t\<lparr>subtasks := subtasks t @
                 [\<lparr>subtask_id = next_subtask_id t, subtask_title = newSubtask d, completed = False\<rparr>]\<rparr>) \<and>
             newSubtask d' = [] \<and> d_error d' = None))"
proof -
  let ?t = "\<lparr>task_id = 1, title = ''Report'', description = [], status = TODO, priority = LOW,
             dueDate = None, subtasks = [], comments = []\<rparr>"
  let ?srv = "\<lparr>srv_tasks = [?t], srv_next = 2, srv_clock = 0\<rparr>"
  have h: "find_task 1 (srv_tasks ?srv) = Some ?t" by (simp add: find_task_def)
  show ?thesis
    using h add_subtask_then_reload [OF h, where st = Map.empty and
        d = "details_init\<lparr>d_task := Some ?t, newSubtask := ''outline''\<rparr>"]
    unfolding Let_def by blast
qed

text \<open>
  C22. Every write of the detail page that fails (network failure or non-2xx status)
  shows an alert and leaves the page state exactly as it was; nothing is reloaded.
\<close>

theorem write_failure_alerts_and_keeps_state:
  assumes "\<not> (\<exists>c b. r = Response c b \<and> resp_ok c)"
  shows "(\<exists>m. handleStatusChange_done r d = (d, AlertMsg m)) \<and>
         (\<exists>m. handleAddSubtask_done r d = (d, AlertMsg m)) \<and>
         (\<exists>m. toggleSubtask_done r d = (d, AlertMsg m)) \<and>
         (\<exists>m. handleAddComment_done r d = (d, AlertMsg m)) \<and>
         (\<exists>m. handleSaveEdit_done r d = (d, AlertMsg m)) \<and>
         (\<exists>m. handleDelete_done r d = (d, AlertMsg m))"
  using assms by (cases r) (auto simp: details_continuations page_ok_def)

theorem write_failure_alerts_and_keeps_state_witness:
  "\<not> (\<exists>c b. (Response 500 None :: payload response) = Response c b \<and> resp_ok c) \<and>
   (\<exists>m. handleStatusChange_done (Response 500 None) details_init = (details_init, AlertMsg m)) \<and>
   (\<exists>m. handleAddSubtask_done (Response 500 None) details_init = (details_init, AlertMsg m)) \<and>
   (\<exists>m. toggleSubtask_done (Response 500 None) details_init = (details_init, AlertMsg m)) \<and>
   (\<exists>m. handleAddComment_done (Response 500 None) details_init = (details_init, AlertMsg m)) \<and>
   (\<exists>m. handleSaveEdit_done (Response 500 None) details_init = (details_init, AlertMsg m)) \<and>
   (\<exists>m. handleDelete_done (Response 500 None) details_init = (details_init, AlertMsg m))"
proof -
  have h: "\<not> (\<exists>c b. (Response 500 None :: payload response) = Response c b \<and> resp_ok c)"
    by (simp add: resp_ok_def)
  show ?thesis using h write_failure_alerts_and_keeps_state [OF h, where d = details_init] by blast
qed

text \<open>
  A 401 answer to the page's reload does not log the user out: the page only
  shows its "Task not found" view with the message \<open>Failed to fetch task\<close>, even
  when a task had been shown before.
\<close>

theorem unauthorized_reload_shows_not_found:
  "details_view (fetchTaskDetails_done (Response 401 b) d) = VNotFound (Some ''Failed to fetch task'')"
  by (simp add: details_view_def fetchTaskDetails_done_def page_settle_def)

text \<open>
  C24. The status change sends the page's whole copy of the task, so it is last write
  wins on every field: whatever the server holds when the \<open>PUT\<close> arrives (say, a title
  another client has since changed), the server and the reloaded page end with the
  page's copy, only the status changed; in particular the page's old title is restored.
\<close>

theorem stale_status_change_restores_old_title:
  assumes "find_task tid (srv_tasks srv) = Some cur" and "d_task d = Some t"
  shows "case run_action st tid srv (handleStatusChange st tid s d) handleStatusChange_done of
     (srv', d', a) \<Rightarrow>
       find_task tid (srv_tasks srv') =
         Some (t\<lparr>task_id := task_id cur, status := s, comments := comments cur\<rparr>) \<and>
       d_task d' = Some (t\<lparr>task_id := task_id cur, status := s, comments := comments cur\<rparr>) \<and>
       title (the (find_task tid (srv_tasks srv'))) = title t"
proof -
  let ?t' = "t\<lparr>task_id := task_id cur, status := s, comments := comments cur\<rparr>"
  have patched: "apply_patch (status_body (Some t) s) cur = ?t'"
    by (simp add: status_body_def apply_full_patch)
  have upd: "find_task tid (update_task tid (apply_patch (status_body (Some t) s)) (srv_tasks srv)) = Some ?t'"
    using assms(1) patched by (simp add: find_task_update_same)
  show ?thesis
    using assms upd
    by (simp add: run_action_def handleStatusChange_def handleStatusChange_done_def
        fetchTaskDetails_def fetchTaskDetails_done_def page_settle_def del: server_handle.simps,
        simp)
qed

theorem stale_status_change_restores_old_title_witness:
  "find_task 1 (srv_tasks \<lparr>srv_tasks = [\<lparr>task_id = 1, title = ''Renamed'', description = [], status = TODO,
      priority = LOW, dueDate = None, subtasks = [], comments = []\<rparr>], srv_next = 2, srv_clock = 0\<rparr>) =
     Some \<lparr>task_id = 1, title = ''Renamed'', description = [], status = TODO,
      priority = LOW, dueDate = None, subtasks = [], comments = []\<rparr> \<and>
   d_task (details_init\<lparr>d_task := Some \<lparr>task_id = 1, title = ''Old'', description = [], status = TODO,
      priority = LOW, dueDate = None, subtasks = [], comments = []\<rparr>, d_loading := False\<rparr>) =
     Some \<lparr>task_id = 1, title = ''Old'', description = [], status = TODO,
      priority = LOW, dueDate = None, subtasks = [], comments = []\<rparr> \<and>
   (case run_action Map.empty 1 \<lparr>srv_tasks = [\<lparr>task_id = 1, title = ''Renamed'', description = [], status = TODO,
      priority = LOW, dueDate = None, subtasks = [], comments = []\<rparr>], srv_next = 2, srv_clock = 0\<rparr>
      (handleStatusChange Map.empty 1 DONE (details_init\<lparr>d_task := Some \<lparr>task_id = 1, title = ''Old'',
         description = [], status = TODO, priority = LOW, dueDate = None, subtasks = [], comments = []\<rparr>,
         d_loading := False\<rparr>)) handleStatusChange_done of
    (srv', d', a) \<Rightarrow> title (the (find_task 1 (srv_tasks srv'))) = ''Old'')"
proof -
  have h: "find_task 1 (srv_tasks \<lparr>srv_tasks = [\<lparr>task_id = 1, title = ''Renamed'', description = [], status = TODO,
      priority = LOW, dueDate = None, subtasks = [], comments = []\<rparr>], srv_next = 2, srv_clock = 0\<rparr>) =
     Some \<lparr>task_id = 1, title = ''Renamed'', description = [], status = TODO,
      priority = LOW, dueDate = None, subtasks = [], comments = []\<rparr>"
    "d_task (details_init\<lparr>d_task := Some \<lparr>task_id = 1, title = ''Old'', description = [], status = TODO,
      priority = LOW, dueDate = None, subtasks = [], comments = []\<rparr>, d_loading := False\<rparr>) =
     Some \<lparr>task_id = 1, title = ''Old'', description = [], status = TODO,
      priority = LOW, dueDate = None, subtasks = [], comments = []\<rparr>"
    by (simp_all add: find_task_def)
  show ?thesis
    using h stale_status_change_restores_old_title [OF h, where st = Map.empty and s = DONE]
    by (simp split: prod.splits)
qed

end
