(* ===== verification/Analytics.thy ===== *)
theory Analytics
  imports Server
begin

text \<open>
  \<open>src/src/pages/Analytics.jsx\<close>: the analytics page. Its state is the last analytics
  object, a loading flag and an error message; \<open>fetchAnalytics\<close> is split at its
  \<open>await\<close> into the request and the continuation \<open>fetchAnalytics_done\<close>. The render
  is \<open>analytics_view\<close>: the loading and error screens, or the counts, the two rates
  (\<open>toFixed(1)\<close> of a percentage, or the number \<open>0\<close> when there are no tasks), whether
  the charts are drawn, and the insight cards. \<open>an_reach\<close> is every page state the
  mount, the refresh button, the retry button and the arrival of answers in any order
  can produce.
\<close>

record analytics_page =
  an_data :: "analytics option"
  an_loading :: bool
  an_error :: "string option"

definition analytics_init :: analytics_page where
  "analytics_init = \<lparr>an_data = None, an_loading = True, an_error = None\<rparr>"

definition fetchAnalytics :: "storage \<Rightarrow> analytics_page \<Rightarrow> analytics_page \<times> page_req" where
  "fetchAnalytics st p = (p\<lparr>an_loading := True\<rparr>, (GetAnalytics, bearer_headers st))"

definition fetchAnalytics_done :: "payload response \<Rightarrow> analytics_page \<Rightarrow> analytics_page" where
  "fetchAnalytics_done r p =
     (case page_settle ''Failed to fetch analytics'' r of
        Inr (PStats a) \<Rightarrow> p\<lparr>an_data := Some a, an_error := None, an_loading := False\<rparr>
      | Inr _ \<Rightarrow> p\<lparr>an_error := Some ''Unexpected response'', an_loading := False\<rparr>
      | Inl e \<Rightarrow> p\<lparr>an_error := Some (error_message e), an_loading := False\<rparr>)"

text \<open>
  \<open>x.toFixed(1)\<close> of the exact quotient \<open>a / b\<close>, as a number of tenths: the integer
  \<open>n\<close> nearest to \<open>10 a / b\<close>, the larger one on a tie.
\<close>

definition to_fixed1 :: "nat \<Rightarrow> nat \<Rightarrow> nat" where
  "to_fixed1 a b = js_round_div (10 * a) b"

text \<open>
  A rate of the page is the number \<open>0\<close> (no tasks) or the string \<open>toFixed(1)\<close>
  returns; \<open>rate_str\<close> is how it renders, \<open>rate_tenths\<close> ten times the number it
  coerces to in \<open>completionRate >= 70\<close>.
\<close>

datatype rate = RateZero | RateFixed nat

fun rate_str :: "rate \<Rightarrow> string" where
  "rate_str RateZero = ''0''"
| "rate_str (RateFixed n) = show_nat (n div 10) @ ''.'' @ show_nat (n mod 10)"

fun rate_tenths :: "rate \<Rightarrow> nat" where
  "rate_tenths RateZero = 0"
| "rate_tenths (RateFixed n) = n"

definition completionRate :: "analytics \<Rightarrow> rate" where
  "completionRate a =
     (if 0 < totalTasks a then RateFixed (to_fixed1 (done_count a * 100) (totalTasks a))
      else RateZero)"

definition inProgressRate :: "analytics \<Rightarrow> rate" where
  "inProgressRate a =
     (if 0 < totalTasks a then RateFixed (to_fixed1 (inProgress a * 100) (totalTasks a))
      else RateZero)"

datatype insight = GreatJob | TooManyInProgress | ManyPending | KeepGoing

definition insights :: "analytics \<Rightarrow> insight list" where
  "insights a =
     (if 0 < totalTasks a then
        (if 700 \<le> rate_tenths (completionRate a) then [GreatJob] else [])
        @ (if done_count a < inProgress a then [TooManyInProgress] else [])
        @ (if totalTasks a < 2 * toDo a then [ManyPending] else [])
        @ (if rate_tenths (completionRate a) < 300 \<and> 0 < totalTasks a then [KeepGoing] else [])
      else [])"

text \<open>
  What the page renders: the spinner, the error card, or the statistics (the data, the
  two rates, whether the charts and the progress bar are drawn, the insights).
  \<open>ACrash\<close> is the \<open>TypeError\<close> of reading \<open>analytics.toDo\<close> on \<open>null\<close>.
\<close>

datatype analytics_view =
    ALoading
  | AError string
  | AStats analytics rate rate bool "insight list"
  | ACrash

definition analytics_view :: "analytics_page \<Rightarrow> analytics_view" where
  "analytics_view p =
     (if an_loading p then ALoading
      else case an_error p of
             Some e \<Rightarrow> AError e
           | None \<Rightarrow>
               (case an_data p of
                  None \<Rightarrow> ACrash
                | Some a \<Rightarrow> AStats a (completionRate a) (inProgressRate a)
                              (0 < totalTasks a) (insights a)))"

inductive an_reach :: "analytics_page \<Rightarrow> bool" where
  mount: "an_reach analytics_init"
| refresh: "an_reach p \<Longrightarrow> an_reach (fst (fetchAnalytics st p))"
| answer: "an_reach p \<Longrightarrow> an_reach (fetchAnalytics_done r p)"

definition an_consistent :: "analytics_page \<Rightarrow> bool" where
  "an_consistent p \<longleftrightarrow> an_loading p \<or> an_error p \<noteq> None \<or> an_data p \<noteq> None"

section \<open>Lemmas\<close>

lemma count_status_sum:
  "count_status TODO ts + count_status IN_PROGRESS ts + count_status DONE ts = length ts"
  by (induction ts) (auto simp: count_status_def intro: status.exhaust)

lemma to_fixed1_le:
  assumes "0 < b" "a \<le> k * b"
  shows "to_fixed1 a b \<le> 10 * k"
  using js_round_div_le [of b "10 * a" "10 * k"] assms by (simp add: to_fixed1_def)

lemma to_fixed1_ge_iff:
  assumes "0 < b"
  shows "k \<le> to_fixed1 a b \<longleftrightarrow> 2 * b * k \<le> 20 * a + b"
  using js_round_div_ge_iff [OF assms] by (simp add: to_fixed1_def)

lemma rate_tenths_completion:
  "0 < totalTasks a \<Longrightarrow>
   rate_tenths (completionRate a) = to_fixed1 (done_count a * 100) (totalTasks a)"
  by (simp add: completionRate_def)

lemma an_consistent_fetch: "an_consistent (fst (fetchAnalytics st p))"
  by (simp add: an_consistent_def fetchAnalytics_def)

lemma an_consistent_done: "an_consistent (fetchAnalytics_done r p)"
  by (simp add: an_consistent_def fetchAnalytics_done_def split: sum.split payload.split)


lemma an_reach_consistent: "an_reach p \<Longrightarrow> an_consistent p"
  by (induction rule: an_reach.induct)
     (simp_all add: an_consistent_fetch an_consistent_done, simp add: an_consistent_def analytics_init_def)

lemma great_job_bound:
  assumes "GreatJob \<in> set (insights a)"
  shows "0 < totalTasks a" and "1399 * totalTasks a \<le> 2000 * done_count a"
proof -
  show pos: "0 < totalTasks a" using assms by (simp add: insights_def split: if_splits)
  have "700 \<le> to_fixed1 (done_count a * 100) (totalTasks a)"
    using assms pos by (simp add: insights_def completionRate_def split: if_splits)
  then show "1399 * totalTasks a \<le> 2000 * done_count a"
    using to_fixed1_ge_iff [OF pos] by simp
qed

subsection \<open>Properties\<close>

text \<open>
  C25. The specification's scenario: when the server holds two tasks, one \<open>TODO\<close> and
  one \<open>DONE\<close>, loading the analytics page shows the statistics with a completion rate of
  \<open>50.0\<close>%, an in-progress rate of \<open>0.0\<close>%, the charts, and no insight card.
\<close>

theorem analytics_fifty_percent_scenario:
  assumes "map status (srv_tasks srv) = [TODO, DONE]"
  shows "case analytics_view (fetchAnalytics_done
                 (snd (server_handle (fst (snd (fetchAnalytics st p))) srv))
                 (fst (fetchAnalytics st p))) of
           AStats a cr ipr charts ins \<Rightarrow>
             rate_str cr = ''50.0'' \<and> rate_str ipr = ''0.0'' \<and> charts \<and> ins = []
         | _ \<Rightarrow> False"
proof -
  obtain t1 t2 where ts: "srv_tasks srv = [t1, t2]" "status t1 = TODO" "status t2 = DONE"
    using assms by (auto simp: map_eq_Cons_conv)
  then show ?thesis
    by (simp add: fetchAnalytics_def fetchAnalytics_done_def page_settle_def resp_ok_def
        analytics_view_def server_analytics_def count_status_def completionRate_def
        inProgressRate_def insights_def to_fixed1_def js_round_div_def show_nat.simps)
qed

theorem analytics_fifty_percent_scenario_witness:
  "map status (srv_tasks \<lparr>srv_tasks = [\<lparr>task_id = 1, title = ''a'', description = [],
        status = TODO, priority = LOW, dueDate = None, subtasks = [], comments = []\<rparr>,
      \<lparr>task_id = 2, title = ''b'', description = [], status = DONE, priority = LOW,
        dueDate = None, subtasks = [], comments = []\<rparr>], srv_next = 3, srv_clock = 0\<rparr>)
     = [TODO, DONE] \<and>
   (case analytics_view (fetchAnalytics_done
          (snd (server_handle (fst (snd (fetchAnalytics Map.empty analytics_init)))
             \<lparr>srv_tasks = [\<lparr>task_id = 1, title = ''a'', description = [],
                status = TODO, priority = LOW, dueDate = None, subtasks = [], comments = []\<rparr>,
              \<lparr>task_id = 2, title = ''b'', description = [], status = DONE, priority = LOW,
                dueDate = None, subtasks = [], comments = []\<rparr>], srv_next = 3, srv_clock = 0\<rparr>))
          (fst (fetchAnalytics Map.empty analytics_init))) of
      AStats a cr ipr charts ins \<Rightarrow>
        rate_str cr = ''50.0'' \<and> rate_str ipr = ''0.0'' \<and> charts \<and> ins = []
    | _ \<Rightarrow> False)"
  using analytics_fifty_percent_scenario by simp

text \<open>
  C26. With at least one task and no more done tasks than tasks, the completion rate is
  at most \<open>100.0\<close>, and it reads exactly \<open>100.0\<close> as soon as at least 99.95% of the
  tasks are done: with 2000 tasks or more the page reports full completion while a task
  is still open.
\<close>

theorem completion_rate_bounds:
  assumes "0 < totalTasks a" "done_count a \<le> totalTasks a"
  shows "rate_tenths (completionRate a) \<le> 1000 \<and>
         (rate_tenths (completionRate a) = 1000 \<longleftrightarrow> 1999 * totalTasks a \<le> 2000 * done_count a)"
proof -
  have le: "to_fixed1 (done_count a * 100) (totalTasks a) \<le> 1000"
    using to_fixed1_le [OF assms(1), of "done_count a * 100" 100] assms(2) by simp
  have "1000 \<le> to_fixed1 (done_count a * 100) (totalTasks a) \<longleftrightarrow>
        1999 * totalTasks a \<le> 2000 * done_count a"
    using to_fixed1_ge_iff [OF assms(1)] by simp
  with le show ?thesis by (simp add: rate_tenths_completion [OF assms(1)])
qed

theorem completion_rate_bounds_witness:
  "0 < totalTasks \<lparr>totalTasks = 2000, toDo = 0, inProgress = 1, done_count = 1999\<rparr> \<and>
   done_count \<lparr>totalTasks = 2000, toDo = 0, inProgress = 1, done_count = 1999\<rparr>
     \<le> totalTasks \<lparr>totalTasks = 2000, toDo = 0, inProgress = 1, done_count = 1999\<rparr> \<and>
   rate_tenths (completionRate \<lparr>totalTasks = 2000, toDo = 0, inProgress = 1, done_count = 1999\<rparr>)
     = 1000"
  using completion_rate_bounds [of "\<lparr>totalTasks = 2000, toDo = 0, inProgress = 1, done_count = 1999\<rparr>"]
  by simp

text \<open>
  C27. On the counts the server derives from its tasks, the "Great job" card never
  appears together with any other insight: a completion rate of at least 70% leaves too
  few open tasks for the in-progress, pending or keep-going cards.
\<close>

theorem great_job_excludes_other_insights:
  assumes "GreatJob \<in> set (insights (server_analytics ts))"
  shows "insights (server_analytics ts) = [GreatJob]"
proof -
  let ?a = "server_analytics ts"
  have pos: "0 < totalTasks ?a" and g: "1399 * totalTasks ?a \<le> 2000 * done_count ?a"
    using great_job_bound [OF assms] by simp_all
  have sum: "toDo ?a + inProgress ?a + done_count ?a = totalTasks ?a"
    using count_status_sum [of ts] by (simp add: server_analytics_def)
  have "\<not> done_count ?a < inProgress ?a" "\<not> totalTasks ?a < 2 * toDo ?a"
    using g sum by linarith+
  moreover have "700 \<le> rate_tenths (completionRate ?a)"
    using assms pos by (simp add: insights_def split: if_splits)
  ultimately show ?thesis using pos by (simp add: insights_def)
qed

theorem great_job_excludes_other_insights_witness:
  "GreatJob \<in> set (insights (server_analytics [\<lparr>task_id = 1, title = ''a'', description = [],
      status = DONE, priority = LOW, dueDate = None, subtasks = [], comments = []\<rparr>])) \<and>
   insights (server_analytics [\<lparr>task_id = 1, title = ''a'', description = [],
      status = DONE, priority = LOW, dueDate = None, subtasks = [], comments = []\<rparr>]) = [GreatJob]"
proof -
  have "GreatJob \<in> set (insights (server_analytics [\<lparr>task_id = 1, title = ''a'', description = [],
      status = DONE, priority = LOW, dueDate = None, subtasks = [], comments = []\<rparr>]))"
    by (simp add: insights_def server_analytics_def count_status_def completionRate_def
        to_fixed1_def js_round_div_def)
  then show ?thesis using great_job_excludes_other_insights by simp
qed

text \<open>
  C28. No sequence of mounts, refreshes, retries and answers, in any order, leaves the
  page rendering the statistics of a \<open>null\<close> analytics object.
\<close>

theorem analytics_view_never_crashes:
  assumes "an_reach p"
  shows "analytics_view p \<noteq> ACrash"
  using an_reach_consistent [OF assms]
  by (auto simp: an_consistent_def analytics_view_def split: option.split)

theorem analytics_view_never_crashes_witness:
  "an_reach (fetchAnalytics_done (Response 200 None) (fst (fetchAnalytics Map.empty analytics_init))) \<and>
   analytics_view (fetchAnalytics_done (Response 200 None)
     (fst (fetchAnalytics Map.empty analytics_init))) \<noteq> ACrash"
proof -
  have r: "an_reach (fetchAnalytics_done (Response 200 None) (fst (fetchAnalytics Map.empty analytics_init)))"
    by (intro an_reach.answer an_reach.refresh an_reach.mount)
  then show ?thesis using analytics_view_never_crashes by simp
qed

text \<open>
  C29. A failed load (network failure, a non-2xx status including 401, or an unreadable
  body) shows the error card with the failure's message and keeps the last statistics
  in the state; the page never logs out. A 401 shows "Failed to fetch analytics".
\<close>

theorem analytics_failure_shows_error:
  assumes "page_settle ''Failed to fetch analytics'' r = Inl e"
  shows "analytics_view (fetchAnalytics_done r p) = AError (error_message e) \<and>
         an_data (fetchAnalytics_done r p) = an_data p"
  using assms by (simp add: fetchAnalytics_done_def analytics_view_def)

theorem analytics_failure_shows_error_witness:
  "page_settle ''Failed to fetch analytics'' (Response 401 None :: payload response)
     = Inl (HttpFailure ''Failed to fetch analytics'') \<and>
   analytics_view (fetchAnalytics_done (Response 401 None) analytics_init)
     = AError ''Failed to fetch analytics'' \<and>
   an_data (fetchAnalytics_done (Response 401 None) analytics_init) = an_data analytics_init"
proof -
  have h: "page_settle ''Failed to fetch analytics'' (Response 401 None :: payload response)
     = Inl (HttpFailure ''Failed to fetch analytics'')"
    by (simp add: page_settle_def)
  then show ?thesis using analytics_failure_shows_error [OF h, of analytics_init] by simp
qed

end
