(* ===== verification/Tasks.thy ===== *)
theory Tasks
  imports CreateTask Server
begin

text \<open>
  \<open>src/src/pages/Tasks.jsx\<close>: the task list page. Its state is the list of tasks, a
  loading flag and an error message; \<open>fetchTasks\<close> is split at its \<open>await\<close>. Each
  task is drawn as a card (\<open>task_card\<close>) with the overdue banner (\<open>isOverdue\<close>), the
  status badge text (\<open>status.replace('_', ' ')\<close>), the description or its placeholder,
  the due date as \<open>toLocaleDateString('en-US')\<close> renders it (\<open>formatDate\<close>), the
  completed/total subtask count and the link to the detail page.

  A due date \<open>"YYYY-MM-DD"\<close> is parsed by \<open>new Date\<close> as UTC midnight of that day;
  \<open>toLocaleDateString\<close> shows the calendar date of that instant in the browser's zone.
  \<open>civil_from_days\<close> is the proleptic Gregorian calendar of the JavaScript \<open>Date\<close>
  (day 0 is 1970-01-01).
\<close>

record tasks_page =
  tp_tasks :: "task list"
  tp_loading :: bool
  tp_error :: "string option"

definition tasks_init :: tasks_page where
  "tasks_init = \<lparr>tp_tasks = [], tp_loading = True, tp_error = None\<rparr>"

definition fetchTasks :: "storage \<Rightarrow> tasks_page \<Rightarrow> tasks_page \<times> page_req" where
  "fetchTasks st p = (p\<lparr>tp_loading := True\<rparr>, (GetTasks, bearer_headers st))"

definition fetchTasks_done :: "payload response \<Rightarrow> tasks_page \<Rightarrow> tasks_page" where
  "fetchTasks_done r p =
     (case page_settle ''Failed to fetch tasks'' r of
        Inr (PTasks ts) \<Rightarrow> p\<lparr>tp_tasks := ts, tp_error := None, tp_loading := False\<rparr>
      | Inr _ \<Rightarrow> p\<lparr>tp_error := Some ''Unexpected response'', tp_loading := False\<rparr>
      | Inl e \<Rightarrow> p\<lparr>tp_error := Some (error_message e), tp_loading := False\<rparr>)"

text \<open>\<open>s.replace('_', ' ')\<close>: only the first occurrence is replaced.\<close>

fun replace_first :: "char \<Rightarrow> char \<Rightarrow> string \<Rightarrow> string" where
  "replace_first a b [] = []"
| "replace_first a b (c # cs) = (if c = a then b # cs else c # replace_first a b cs)"

definition status_label :: "status \<Rightarrow> string" where
  "status_label s = replace_first (CHR ''_'') (CHR '' '') (status_str s)"

definition isOverdue :: "clock \<Rightarrow> day option \<Rightarrow> status \<Rightarrow> bool" where
  "isOverdue ck due s =
     (case due of None \<Rightarrow> False | Some d \<Rightarrow> s \<noteq> DONE \<and> date_ms d < now_ms ck)"

definition civil_from_days :: "int \<Rightarrow> int \<times> int \<times> int" where
  "civil_from_days z0 =
     (let z = z0 + 719468; era = z div 146097; doe = z - era * 146097;
          yoe = (doe - doe div 1460 + doe div 36524 - doe div 146096) div 365;
          doy = doe - (365 * yoe + yoe div 4 - yoe div 100);
          mp = (5 * doy + 2) div 153;
          d = doy - (153 * mp + 2) div 5 + 1;
          m = (if mp < 10 then mp + 3 else mp - 9)
      in (yoe + era * 400 + (if m \<le> 2 then 1 else 0), m, d))"

definition month_abbr :: "int \<Rightarrow> string" where
  "month_abbr m = [''Jan'', ''Feb'', ''Mar'', ''Apr'', ''May'', ''Jun'', ''Jul'', ''Aug'', ''Sep'',
                   ''Oct'', ''Nov'', ''Dec''] ! nat (m - 1)"

definition date_label :: "day \<Rightarrow> string" where
  "date_label d =
     (case civil_from_days d of (y, m, dd) \<Rightarrow>
        month_abbr m @ '' '' @ show_int dd @ '', '' @ show_int y)"

text \<open>The calendar day, in the browser's zone, of the instant \<open>t\<close> (UTC milliseconds).\<close>

definition local_day_of :: "clock \<Rightarrow> int \<Rightarrow> day" where
  "local_day_of ck t = (t + tz_min ck * 60000) div ms_per_day"

definition formatDate :: "clock \<Rightarrow> day option \<Rightarrow> string" where
  "formatDate ck due =
     (case due of None \<Rightarrow> ''No due date''
      | Some d \<Rightarrow> date_label (local_day_of ck (date_ms d)))"

record task_card =
  card_title :: string
  card_status :: string
  card_priority :: string
  card_description :: string
  card_date :: string
  card_subtasks :: "string option"
  card_overdue :: bool
  card_link :: string

definition task_card :: "clock \<Rightarrow> task \<Rightarrow> task_card" where
  "task_card ck t =
     \<lparr>card_title = title t, card_status = status_label (status t),
      card_priority = priority_str (priority t),
      card_description = (if description t = [] then ''No description provided'' else description t),
      card_date = formatDate ck (dueDate t),
      card_subtasks = (if subtasks t = [] then None
                       else Some (show_nat (count_if completed (subtasks t)) @ ''/'' @
                                  show_nat (length (subtasks t)) @ '' subtasks'')),
      card_overdue = isOverdue ck (dueDate t) (status t),
      card_link = ''/task/'' @ show_int (task_id t)\<rparr>"

datatype tasks_view = TLoading | TError string | TEmpty | TGrid "task_card list"

definition tasks_view :: "clock \<Rightarrow> tasks_page \<Rightarrow> tasks_view" where
  "tasks_view ck p =
     (if tp_loading p then TLoading
      else case tp_error p of
             Some e \<Rightarrow> TError e
           | None \<Rightarrow> if tp_tasks p = [] then TEmpty else TGrid (map (task_card ck) (tp_tasks p)))"


text \<open>
  Specification of a full-refresh list: the tasks of the last successful answer, if
  any answer succeeded.
\<close>

definition loaded_list :: "payload response \<Rightarrow> task list option" where
  "loaded_list r =
     (case r of Response c (Some (PTasks ts)) \<Rightarrow> if resp_ok c then Some ts else None | _ \<Rightarrow> None)"

definition last_loaded :: "payload response list \<Rightarrow> task list option" where
  "last_loaded rs =
     (let xs = filter (\<lambda>r. loaded_list r \<noteq> None) rs in
      if xs = [] then None else loaded_list (last xs))"

definition local_time_of_day :: "clock \<Rightarrow> int" where
  "local_time_of_day ck = (now_ms ck + tz_min ck * 60000) mod ms_per_day"

section \<open>Lemmas\<close>

lemma fetchTasks_done_tasks:
  "tp_tasks (fetchTasks_done r p) = (case loaded_list r of Some ts \<Rightarrow> ts | None \<Rightarrow> tp_tasks p)"
  by (simp add: fetchTasks_done_def loaded_list_def page_settle_def
      split: response.split option.split payload.split sum.split)

lemma last_loaded_snoc:
  "last_loaded (rs @ [r]) = (case loaded_list r of None \<Rightarrow> last_loaded rs | Some ts \<Rightarrow> Some ts)"
  by (cases "loaded_list r") (simp_all add: last_loaded_def Let_def)

lemma div_offset:
  fixes d off D :: int
  assumes "0 < D" "- D < off" "off < D"
  shows "(d * D + off) div D = (if off < 0 then d - 1 else d)"
proof -
  have e: "(d * D + off) div D = off div D + d"
    using assms(1) by (simp add: add.commute)
  show ?thesis
  proof (cases "off < 0")
    case True
    have "off div D < 0" using True assms(1) by (simp add: div_neg_pos_less0)
    moreover have "(- D) div D \<le> off div D" using assms by (intro zdiv_mono1) simp_all
    moreover have "(- D) div D = -1" using assms(1) by (simp add: zdiv_zminus1_eq_if)
    ultimately have "off div D = -1" using assms(1) by simp
    with e True show ?thesis by simp
  next
    case False
    then have "off div D = 0" using assms by (simp add: div_pos_pos_trivial)
    with e False show ?thesis by simp
  qed
qed

lemma overdue_today_iff:
  "isOverdue ck (Some (local_day ck)) s \<longleftrightarrow> s \<noteq> DONE \<and> tz_min ck * 60000 < local_time_of_day ck"
proof -
  have e: "(now_ms ck + tz_min ck * 60000) div ms_per_day * ms_per_day
          + (now_ms ck + tz_min ck * 60000) mod ms_per_day = now_ms ck + tz_min ck * 60000"
    by (rule div_mult_mod_eq)
  have "date_ms (local_day ck) < now_ms ck \<longleftrightarrow> tz_min ck * 60000 < local_time_of_day ck"
    unfolding date_ms_def local_day_def local_time_of_day_def using e by linarith
  then show ?thesis by (simp add: isOverdue_def)
qed

lemma formatDate_day:
  assumes "- 1440 < tz_min ck" "tz_min ck < 1440"
  shows "formatDate ck (Some d) = date_label (if tz_min ck < 0 then d - 1 else d)"
proof -
  have "local_day_of ck (date_ms d) = (if tz_min ck * 60000 < 0 then d - 1 else d)"
    unfolding local_day_of_def date_ms_def
    using assms by (intro div_offset) (simp_all add: ms_per_day_def)
  then show ?thesis by (simp add: formatDate_def)
qed


subsection \<open>Properties\<close>

text \<open>
  C30. The list is a full refresh with last-arrival-wins: after the answers \<open>rs\<close> to
  any number of concurrent loads have arrived, in any order, the page holds the tasks of
  the last successful answer, or its previous tasks if none succeeded.
\<close>

theorem tasks_last_answer_wins:
  "tp_tasks (foldl (\<lambda>p r. fetchTasks_done r p) p rs) =
     (case last_loaded rs of Some ts \<Rightarrow> ts | None \<Rightarrow> tp_tasks p)"
proof (induction rs rule: rev_induct)
  case Nil
  then show ?case by (simp add: last_loaded_def)
next
  case (snoc r rs)
  then show ?case
    by (simp add: fetchTasks_done_tasks last_loaded_snoc split: option.split)
qed

text \<open>
  C31. A failed load (network failure, any non-2xx status including 401, an unreadable
  body) keeps the previous tasks and shows the error card with the failure's message
  and the retry button; no logout follows a 401.
\<close>

theorem tasks_failure_retains_and_shows_error:
  assumes "page_settle ''Failed to fetch tasks'' r = Inl e"
  shows "tp_tasks (fetchTasks_done r p) = tp_tasks p \<and>
         tasks_view ck (fetchTasks_done r p) = TError (error_message e)"
  using assms by (simp add: fetchTasks_done_def tasks_view_def)

theorem tasks_failure_retains_and_shows_error_witness:
  "page_settle ''Failed to fetch tasks'' (Response 401 None :: payload response)
     = Inl (HttpFailure ''Failed to fetch tasks'') \<and>
   tp_tasks (fetchTasks_done (Response 401 None) tasks_init) = tp_tasks tasks_init \<and>
   tasks_view \<lparr>now_ms = 0, tz_min = 0\<rparr> (fetchTasks_done (Response 401 None) tasks_init)
     = TError ''Failed to fetch tasks''"
proof -
  have h: "page_settle ''Failed to fetch tasks'' (Response 401 None :: payload response)
     = Inl (HttpFailure ''Failed to fetch tasks'')"
    by (simp add: page_settle_def)
  show ?thesis
    using tasks_failure_retains_and_shows_error [OF h, of tasks_init "\<lparr>now_ms = 0, tz_min = 0\<rparr>"] h
    by simp
qed

text \<open>
  C32. A task that is not done and is due today (in the browser's zone) is flagged
  overdue as soon as the local time of day exceeds the zone's offset east of UTC: all
  day west of UTC and at UTC, and from the offset's hour on east of it. The code
  compares the due date's UTC midnight with the current instant.
\<close>

theorem due_today_card_overdue_iff:
  assumes "dueDate t = Some (local_day ck)"
  shows "card_overdue (task_card ck t) \<longleftrightarrow>
           status t \<noteq> DONE \<and> tz_min ck * 60000 < local_time_of_day ck"
  using overdue_today_iff [of ck "status t"] assms by (simp add: task_card_def)

theorem due_today_card_overdue_iff_witness:
  "dueDate \<lparr>task_id = 1, title = ''a'', description = [], status = TODO, priority = LOW,
      dueDate = Some (local_day \<lparr>now_ms = 3600000, tz_min = -300\<rparr>), subtasks = [], comments = []\<rparr>
     = Some (local_day \<lparr>now_ms = 3600000, tz_min = -300\<rparr>) \<and>
   card_overdue (task_card \<lparr>now_ms = 3600000, tz_min = -300\<rparr>
     \<lparr>task_id = 1, title = ''a'', description = [], status = TODO, priority = LOW,
      dueDate = Some (local_day \<lparr>now_ms = 3600000, tz_min = -300\<rparr>), subtasks = [], comments = []\<rparr>)"
  using due_today_card_overdue_iff [of "\<lparr>task_id = 1, title = ''a'', description = [], status = TODO,
      priority = LOW, dueDate = Some (local_day \<lparr>now_ms = 3600000, tz_min = -300\<rparr>), subtasks = [],
      comments = []\<rparr>" "\<lparr>now_ms = 3600000, tz_min = -300\<rparr>"]
  by (simp add: local_time_of_day_def ms_per_day_def)

text \<open>
  C33. West of UTC the card shows the day before the due date: the due date is read as
  UTC midnight and rendered in local time. East of UTC, and at UTC, it shows the due
  date itself.
\<close>

theorem format_date_shifts_west:
  assumes "- 1440 < tz_min ck" "tz_min ck < 1440" "dueDate t = Some d"
  shows "card_date (task_card ck t) = date_label (if tz_min ck < 0 then d - 1 else d)"
  using formatDate_day [OF assms(1,2)] assms(3) by (simp add: task_card_def)

theorem format_date_shifts_west_witness:
  "- 1440 < tz_min \<lparr>now_ms = 0, tz_min = -300\<rparr> \<and> tz_min \<lparr>now_ms = 0, tz_min = -300\<rparr> < 1440 \<and>
   dueDate \<lparr>task_id = 1, title = ''a'', description = [], status = TODO, priority = LOW,
      dueDate = Some 19853, subtasks = [], comments = []\<rparr> = Some 19853 \<and>
   card_date (task_card \<lparr>now_ms = 0, tz_min = -300\<rparr>
     \<lparr>task_id = 1, title = ''a'', description = [], status = TODO, priority = LOW,
      dueDate = Some 19853, subtasks = [], comments = []\<rparr>) = ''May 9, 2024'' \<and>
   date_label 19853 = ''May 10, 2024''"
proof -
  have "card_date (task_card \<lparr>now_ms = 0, tz_min = -300\<rparr>
     \<lparr>task_id = 1, title = ''a'', description = [], status = TODO, priority = LOW,
      dueDate = Some 19853, subtasks = [], comments = []\<rparr>) = date_label 19852"
    using format_date_shifts_west [of "\<lparr>now_ms = 0, tz_min = -300\<rparr>"
        "\<lparr>task_id = 1, title = ''a'', description = [], status = TODO, priority = LOW,
          dueDate = Some 19853, subtasks = [], comments = []\<rparr>" 19853]
    by simp
  moreover have "date_label 19852 = ''May 9, 2024''" "date_label 19853 = ''May 10, 2024''"
    by code_simp+
  ultimately show ?thesis by simp
qed

end
