(* ===== verification/Helpers.thy ===== *)
theory Helpers
  imports Server
begin

text \<open>
  The helper functions \<open>getTasks\<close>, \<open>getTask\<close>, \<open>updateTask\<close>, \<open>deleteTask\<close> and
  \<open>addSubtask\<close>, which \<open>KanbanBoard\<close>, \<open>TaskModal\<close>, \<open>Board\<close>, \<open>TasksTable\<close>,
  \<open>TaskList\<close>, \<open>Dashboard\<close>, \<open>EditTask\<close>, \<open>DeleteTask\<close> and \<open>TaskCard\<close> import
  from \<open>services/api.js\<close>. That module exports only \<open>api\<close> and its default
  (\<open>api_exports\<close>); a named import it does not export is bound to \<open>undefined\<close>,
  and calling it throws a \<open>TypeError\<close> before any request is made.
  What the helpers are meant to do is taken from the specification (section 4.3 and the
  endpoint table): \<open>getTasks()\<close> is \<open>GET /tasks\<close>, \<open>getTask(id)\<close> is \<open>GET /tasks/{id}\<close>,
  \<open>updateTask(id, patch)\<close> is \<open>PUT /tasks/{id}\<close>, \<open>deleteTask(id)\<close> is
  \<open>DELETE /tasks/{id}\<close>, \<open>addSubtask(id, {title})\<close> is
  \<open>POST /tasks/{id}/subtasks\<close>, each through \<open>api.js\<close>, so with the token header
  of \<open>getAuthHeader\<close>. \<open>intended_exports\<close> is the module these pages were written against.

  The id in a path is whatever \<open>${id}\<close> renders: the pages pass numbers or strings
  (\<open>draggableId\<close> is \<open>String(task.id)\<close>); the server reads the path segment back with
  \<open>parse_int\<close>.
\<close>

definition imported :: "string list \<Rightarrow> string \<Rightarrow> bool" where
  "imported exports name \<longleftrightarrow> name \<in> set exports"

definition intended_exports :: "string list" where
  "intended_exports = api_exports @ [''getTasks'', ''getTask'', ''updateTask'', ''deleteTask'', ''addSubtask'']"

definition not_a_function :: "string \<Rightarrow> js_error" where
  "not_a_function name = TypeError (name @ '' is not a function'')"

definition is_digit :: "char \<Rightarrow> bool" where
  "is_digit c \<longleftrightarrow> (48::nat) \<le> of_char c \<and> of_char c \<le> (57::nat)"

fun parse_digits :: "nat \<Rightarrow> string \<Rightarrow> nat option" where
  "parse_digits acc [] = Some acc"
| "parse_digits acc (c # cs) =
     (if is_digit c then parse_digits (10 * acc + (of_char c - 48)) cs else None)"

definition parse_nat :: "string \<Rightarrow> nat option" where
  "parse_nat s = (if s = [] then None else parse_digits 0 s)"

definition parse_int :: "string \<Rightarrow> int option" where
  "parse_int s =
     (case s of
        c # cs \<Rightarrow> if c = CHR ''-'' then map_option (\<lambda>n. - int n) (parse_nat cs)
                 else map_option int (parse_nat s)
      | [] \<Rightarrow> None)"

definition task_path :: "string \<Rightarrow> (int \<Rightarrow> api_call) \<Rightarrow> api_call" where
  "task_path ids k = (case parse_int ids of Some i \<Rightarrow> k i | None \<Rightarrow> BadPath ids)"

definition api_headers :: "storage \<Rightarrow> (string \<times> string) list" where
  "api_headers st = (''Content-Type'', ''application/json'') # getAuthHeader st"

definition getTasks :: "string list \<Rightarrow> storage \<Rightarrow> js_error + page_req" where
  "getTasks ex st =
     (if imported ex ''getTasks'' then Inr (GetTasks, api_headers st)
      else Inl (not_a_function ''getTasks''))"

definition updateTask :: "string list \<Rightarrow> storage \<Rightarrow> string \<Rightarrow> task_patch \<Rightarrow> js_error + page_req" where
  "updateTask ex st ids p =
     (if imported ex ''updateTask'' then Inr (task_path ids (\<lambda>i. PutTask i p), api_headers st)
      else Inl (not_a_function ''updateTask''))"

definition deleteTask :: "string list \<Rightarrow> storage \<Rightarrow> string \<Rightarrow> js_error + page_req" where
  "deleteTask ex st ids =
     (if imported ex ''deleteTask'' then Inr (task_path ids DeleteTask, api_headers st)
      else Inl (not_a_function ''deleteTask''))"

definition getTask :: "string list \<Rightarrow> storage \<Rightarrow> string \<Rightarrow> js_error + page_req" where
  "getTask ex st ids =
     (if imported ex ''getTask'' then Inr (task_path ids GetTask, api_headers st)
      else Inl (not_a_function ''getTask''))"

definition addSubtask :: "string list \<Rightarrow> storage \<Rightarrow> string \<Rightarrow> string \<Rightarrow> js_error + page_req" where
  "addSubtask ex st ids ttl =
     (if imported ex ''addSubtask'' then Inr (task_path ids (\<lambda>i. PostSubtask i ttl), api_headers st)
      else Inl (not_a_function ''addSubtask''))"

text \<open>
  What an \<open>await\<close> of a helper yields: \<open>api.js\<close> throws on a network failure and on
  401 (after the forced logout), and returns the response otherwise; \<open>getTasks\<close>
  yields the task list of a successful answer.
\<close>

definition helper_settled :: "payload response \<Rightarrow> bool" where
  "helper_settled r = (case r of NetworkError \<Rightarrow> False | Response c _ \<Rightarrow> c \<noteq> 401)"

definition tasks_of :: "payload response \<Rightarrow> task list option" where
  "tasks_of r =
     (case r of Response c (Some (PTasks ts)) \<Rightarrow> if resp_ok c then Some ts else None | _ \<Rightarrow> None)"

section \<open>Lemmas\<close>

lemma imported_simps [simp]:
  "imported intended_exports ''getTasks''" "imported intended_exports ''updateTask''"
  "imported intended_exports ''deleteTask''" "imported intended_exports ''getTask''"
  "imported intended_exports ''addSubtask''"
  "\<not> imported api_exports ''getTasks''" "\<not> imported api_exports ''getTask''"
  "\<not> imported api_exports ''addSubtask''" "\<not> imported api_exports ''updateTask''"
  "\<not> imported api_exports ''deleteTask''"
  by (simp_all add: imported_def intended_exports_def api_exports_def)

lemma parse_digits_append:
  "parse_digits acc (xs @ [c]) =
     (case parse_digits acc xs of
        None \<Rightarrow> None
      | Some m \<Rightarrow> if is_digit c then Some (10 * m + (of_char c - 48)) else None)"
  by (induction acc xs rule: parse_digits.induct) simp_all

lemma digit_char_ok:
  fixes n :: nat
  shows "n < 10 \<Longrightarrow> is_digit (char_of (48 + n)) \<and> of_char (char_of (48 + n)) - 48 = n"
  by (simp add: is_digit_def)

lemma parse_show_nat: "parse_digits 0 (show_nat n) = Some n"
proof (induction n rule: show_nat.induct)
  case (1 n)
  show ?case
  proof (cases "n < 10")
    case True
    then show ?thesis using digit_char_ok [OF True] by (simp add: show_nat.simps)
  next
    case False
    then have "parse_digits 0 (show_nat (n div 10)) = Some (n div 10)" using 1 by simp
    then show ?thesis using False digit_char_ok [of "n mod 10"]
      by (simp add: show_nat.simps [of n] parse_digits_append)
  qed
qed

lemma show_nat_Cons: "\<exists>c cs. show_nat n = c # cs \<and> is_digit c"
proof (induction n rule: show_nat.induct)
  case (1 n)
  then show ?case
    using digit_char_ok [of n] by (cases "n < 10") (auto simp: show_nat.simps [of n])
qed

lemma show_nat_digits: "c \<in> set (show_nat n) \<Longrightarrow> is_digit c"
proof (induction n rule: show_nat.induct)
  case (1 n)
  then show ?case
    using digit_char_ok [of n] digit_char_ok [of "n mod 10"]
    by (cases "n < 10") (auto simp: show_nat.simps [of n])
qed

lemma parse_show_int [simp]: "parse_int (show_int i) = Some i"
proof -
  obtain c cs where n: "show_nat (nat \<bar>i\<bar>) = c # cs" "is_digit c" using show_nat_Cons by blast
  have "c \<noteq> CHR ''-''" using n(2) by (auto simp: is_digit_def)
  with n show ?thesis using parse_show_nat [of "nat \<bar>i\<bar>"]
    by (auto simp: parse_int_def show_int_def parse_nat_def)
qed

lemma task_path_show [simp]: "task_path (show_int i) k = k i"
  by (simp add: task_path_def)

lemma updateTask_intended [simp]:
  "updateTask intended_exports st (show_int i) p = Inr (PutTask i p, api_headers st)"
  by (simp add: updateTask_def)

lemma deleteTask_intended [simp]:
  "deleteTask intended_exports st (show_int i) = Inr (DeleteTask i, api_headers st)"
  by (simp add: deleteTask_def)

lemma getTask_intended [simp]:
  "getTask intended_exports st (show_int i) = Inr (GetTask i, api_headers st)"
  by (simp add: getTask_def)

lemma addSubtask_intended [simp]:
  "addSubtask intended_exports st (show_int i) ttl = Inr (PostSubtask i ttl, api_headers st)"
  by (simp add: addSubtask_def)

end
