(* ===== verification/Kanban.thy ===== *)
theory Kanban
  imports Helpers TaskDetails
begin

text \<open>
  \<open>src/src/pages/KanbanBoard.jsx\<close> and \<open>src/src/components/TaskModal.jsx\<close>. The board
  keeps the loaded task objects; the modal receives one of them (\<open>selectedTask\<close>) and
  mutates its subtask array in place, so the board's copy changes with it. The page's
  objects are therefore a heap \<open>kb_heap\<close> (addresses are positions, a load allocates
  fresh objects at the end); \<open>kb_tasks\<close> is the \<open>tasks\<close> state (addresses) and
  \<open>kb_selected\<close> the modal's object. Each handler is split at its \<open>await\<close>; the
  helpers are those of \<open>Helpers\<close>, resolved against an export list \<open>ex\<close>.
  \<open>kanban_drop\<close> and \<open>modal_run\<close> run a handler against the server and perform the
  \<open>load()\<close>/\<open>reload()\<close> it makes once the write has settled.
\<close>

record kanban =
  kb_heap :: "task list"
  kb_tasks :: "nat list"
  kb_selected :: "nat option"

definition kanban_init :: kanban where
  "kanban_init = \<lparr>kb_heap = [], kb_tasks = [], kb_selected = None\<rparr>"

definition kb_list :: "kanban \<Rightarrow> task list" where
  "kb_list k = map (\<lambda>a. kb_heap k ! a) (kb_tasks k)"

definition kanban_columns :: "(status \<times> string) list" where
  "kanban_columns = [(TODO, ''To Do''), (IN_PROGRESS, ''In Progress''), (DONE, ''Done'')]"

definition kb_column :: "kanban \<Rightarrow> status \<Rightarrow> task list" where
  "kb_column k s = filter (\<lambda>t. status t = s) (kb_list k)"

definition kb_load_done :: "payload response \<Rightarrow> kanban \<Rightarrow> kanban" where
  "kb_load_done r k =
     (case tasks_of r of
        Some ts \<Rightarrow> k\<lparr>kb_heap := kb_heap k @ ts,
                     kb_tasks := [length (kb_heap k)..<length (kb_heap k) + length ts]\<rparr>
      | None \<Rightarrow> k)"

definition calcProgress :: "subtask list \<Rightarrow> nat" where
  "calcProgress sts =
     (if sts = [] then 0 else js_round_div (count_if completed sts * 100) (length sts))"

definition card_draggableId :: "task \<Rightarrow> string" where
  "card_draggableId t = show_int (task_id t)"

text \<open>A drop: the dragged card's id and the column it was dropped on, if any.\<close>

record drop_result =
  draggableId :: string
  destination :: "status option"

definition onDragEnd ::
  "string list \<Rightarrow> storage \<Rightarrow> drop_result \<Rightarrow> js_error + page_req option" where
  "onDragEnd ex st res =
     (case destination res of
        None \<Rightarrow> Inr None
      | Some s \<Rightarrow> map_sum id Some (updateTask ex st (draggableId res) (no_patch\<lparr>p_status := Some s\<rparr>)))"

definition selectTask :: "nat \<Rightarrow> kanban \<Rightarrow> kanban" where
  "selectTask a k = k\<lparr>kb_selected := Some a\<rparr>"

definition closeModal :: "kanban \<Rightarrow> kanban" where
  "closeModal k = k\<lparr>kb_selected := None\<rparr>"

text \<open>
  \<open>TaskModal.toggleSubtask(index)\<close>: \<open>{ ...task }\<close> copies the task object but not its
  subtask array, so the assignment to \<open>completed\<close> mutates the board's object at
  address \<open>a\<close>; the whole object is then sent by \<open>updateTask\<close>. Reading
  \<open>subtasks[index]\<close> out of range throws before anything is sent.
\<close>

definition toggle_at :: "nat \<Rightarrow> task \<Rightarrow> task" where
  "toggle_at i t =
     t\<lparr>subtasks := (subtasks t)[i := (subtasks t ! i)\<lparr>completed := \<not> completed (subtasks t ! i)\<rparr>]\<rparr>"

definition modal_toggleSubtask ::
  "string list \<Rightarrow> storage \<Rightarrow> nat \<Rightarrow> nat \<Rightarrow> kanban \<Rightarrow> kanban \<times> (js_error + page_req)" where
  "modal_toggleSubtask ex st a i k =
     (let t = kb_heap k ! a in
      if i < length (subtasks t) then
        (let t' = toggle_at i t in
         (k\<lparr>kb_heap := (kb_heap k)[a := t']\<rparr>, updateTask ex st (show_int (task_id t')) (full_patch t')))
      else (k, Inl (TypeError ''Cannot read properties of undefined'')))"

definition modal_changeStatus ::
  "string list \<Rightarrow> storage \<Rightarrow> nat \<Rightarrow> status \<Rightarrow> kanban \<Rightarrow> js_error + page_req" where
  "modal_changeStatus ex st a s k =
     (let t = kb_heap k ! a in updateTask ex st (show_int (task_id t)) (full_patch (t\<lparr>status := s\<rparr>)))"

definition kb_reload :: "string list \<Rightarrow> storage \<Rightarrow> server \<Rightarrow> kanban \<Rightarrow> server \<times> kanban" where
  "kb_reload ex st srv k =
     (case getTasks ex st of
        Inl e \<Rightarrow> (srv, k)
      | Inr q \<Rightarrow> (case server_handle (fst q) srv of (srv1, r) \<Rightarrow> (srv1, kb_load_done r k)))"

definition write_then_reload ::
  "string list \<Rightarrow> storage \<Rightarrow> server \<Rightarrow> kanban \<Rightarrow> js_error + page_req option \<Rightarrow> server \<times> kanban" where
  "write_then_reload ex st srv k w =
     (case w of
        Inr (Some q) \<Rightarrow>
          (case server_handle (fst q) srv of
             (srv1, r) \<Rightarrow> if helper_settled r then kb_reload ex st srv1 k else (srv1, k))
      | _ \<Rightarrow> (srv, k))"

definition kanban_drop ::
  "string list \<Rightarrow> storage \<Rightarrow> server \<Rightarrow> drop_result \<Rightarrow> kanban \<Rightarrow> server \<times> kanban" where
  "kanban_drop ex st srv res k = write_then_reload ex st srv k (onDragEnd ex st res)"

definition modal_toggle_run ::
  "string list \<Rightarrow> storage \<Rightarrow> server \<Rightarrow> nat \<Rightarrow> nat \<Rightarrow> kanban \<Rightarrow> server \<times> kanban" where
  "modal_toggle_run ex st srv a i k =
     (case modal_toggleSubtask ex st a i k of
        (k1, w) \<Rightarrow> write_then_reload ex st srv k1 (map_sum id Some w))"


section \<open>Lemmas\<close>

lemma map_nth_appended: "map (\<lambda>a. (h @ ts) ! a) [length h..<length h + length ts] = ts"
  by (rule nth_equalityI) (simp_all add: nth_append)

lemma kb_list_load:
  "tasks_of r = Some ts \<Longrightarrow> kb_list (kb_load_done r k) = ts"
  by (simp add: kb_load_done_def kb_list_def map_nth_appended)

lemma tasks_of_get [simp]: "tasks_of (snd (server_handle GetTasks srv)) = Some (srv_tasks srv)"
  by (simp add: tasks_of_def resp_ok_def)

lemma tasks_of_200 [simp]: "tasks_of (Response 200 (Some (PTasks ts))) = Some ts"
  by (simp add: tasks_of_def resp_ok_def)

lemma kb_reload_intended:
  "fst (kb_reload intended_exports st srv k) = srv \<and>
   kb_list (snd (kb_reload intended_exports st srv k)) = srv_tasks srv"
  by (simp add: kb_reload_def getTasks_def kb_list_load)

lemma put_found:
  assumes "t \<in> set (srv_tasks srv)"
  shows "server_handle (PutTask (task_id t) p) srv =
           (srv\<lparr>srv_tasks := update_task (task_id t) (apply_patch p) (srv_tasks srv)\<rparr>,
            Response 200 (Some (PTask (apply_patch p (the (find_task (task_id t) (srv_tasks srv)))))))"
  using find_task_exists [OF assms] by auto

lemma helper_settled_200 [simp]: "helper_settled (Response 200 b)"
  by (simp add: helper_settled_def)

lemma toggle_at_set_completed:
  assumes "j < length (subtasks t)" "distinct (map subtask_id (subtasks t))"
  shows "toggle_at j t = set_completed (subtask_id (subtasks t ! j)) (\<not> completed (subtasks t ! j)) t"
  using set_completed_list_nth [OF assms(2,1)] by (simp add: toggle_at_def set_completed_def)

text \<open>
  C18. As the repository stands, a subtask toggled in the kanban modal is shown as
  toggled although nothing is saved: \<open>api.js\<close> exports no \<open>updateTask\<close>, so the
  write throws before any request and no \<open>reload()\<close> follows, while the modal has
  already flipped the flag on the task object the board shares with it. The server is
  unchanged and the board's list holds the toggled task.
\<close>

theorem modal_toggle_failure_mutates_board:
  assumes "a \<in> set (kb_tasks k)" "a < length (kb_heap k)" "j < length (subtasks (kb_heap k ! a))"
  shows "modal_toggle_run api_exports st srv a j k =
           (srv, k\<lparr>kb_heap := (kb_heap k)[a := toggle_at j (kb_heap k ! a)]\<rparr>) \<and>
         toggle_at j (kb_heap k ! a) \<in> set (kb_list (k\<lparr>kb_heap := (kb_heap k)[a := toggle_at j (kb_heap k ! a)]\<rparr>)) \<and>
         completed (subtasks (toggle_at j (kb_heap k ! a)) ! j) = (\<not> completed (subtasks (kb_heap k ! a) ! j))"
proof -
  let ?h = "(kb_heap k)[a := toggle_at j (kb_heap k ! a)]"
  have "toggle_at j (kb_heap k ! a) \<in> (\<lambda>b. ?h ! b) ` set (kb_tasks k)"
    using assms(1,2) by (intro image_eqI [where x = a]) simp_all
  then show ?thesis
    using assms(3)
    by (simp add: modal_toggle_run_def modal_toggleSubtask_def write_then_reload_def updateTask_def
        Let_def kb_list_def toggle_at_def)
qed

theorem modal_toggle_failure_mutates_board_witness:
  "(0::nat) \<in> set (kb_tasks \<lparr>kb_heap = [\<lparr>task_id = 1, title = ''t'', description = [], status = TODO,
      priority = LOW, dueDate = None, subtasks = [\<lparr>subtask_id = 3, subtask_title = ''s'', completed = False\<rparr>],
      comments = []\<rparr>], kb_tasks = [0], kb_selected = Some 0\<rparr>) \<and>
   0 < length (kb_heap \<lparr>kb_heap = [\<lparr>task_id = 1, title = ''t'', description = [], status = TODO,
      priority = LOW, dueDate = None, subtasks = [\<lparr>subtask_id = 3, subtask_title = ''s'', completed = False\<rparr>],
      comments = []\<rparr>], kb_tasks = [0], kb_selected = Some 0\<rparr>) \<and>
   modal_toggle_run api_exports Map.empty \<lparr>srv_tasks = [], srv_next = 1, srv_clock = 0\<rparr> 0 0
     \<lparr>kb_heap = [\<lparr>task_id = 1, title = ''t'', description = [], status = TODO,
      priority = LOW, dueDate = None, subtasks = [\<lparr>subtask_id = 3, subtask_title = ''s'', completed = False\<rparr>],
      comments = []\<rparr>], kb_tasks = [0], kb_selected = Some 0\<rparr> =
   (\<lparr>srv_tasks = [], srv_next = 1, srv_clock = 0\<rparr>,
    \<lparr>kb_heap = [\<lparr>task_id = 1, title = ''t'', description = [], status = TODO,
      priority = LOW, dueDate = None, subtasks = [\<lparr>subtask_id = 3, subtask_title = ''s'', completed = True\<rparr>],
      comments = []\<rparr>], kb_tasks = [0], kb_selected = Some 0\<rparr>)"
proof -
  have h: "(0::nat) \<in> set (kb_tasks \<lparr>kb_heap = [\<lparr>task_id = 1, title = ''t'', description = [], status = TODO,
      priority = LOW, dueDate = None, subtasks = [\<lparr>subtask_id = 3, subtask_title = ''s'', completed = False\<rparr>],
      comments = []\<rparr>], kb_tasks = [0], kb_selected = Some 0\<rparr>)"
    "0 < length (kb_heap \<lparr>kb_heap = [\<lparr>task_id = 1, title = ''t'', description = [], status = TODO,
      priority = LOW, dueDate = None, subtasks = [\<lparr>subtask_id = 3, subtask_title = ''s'', completed = False\<rparr>],
      comments = []\<rparr>], kb_tasks = [0], kb_selected = Some 0\<rparr>)"
    "0 < length (subtasks (kb_heap \<lparr>kb_heap = [\<lparr>task_id = 1, title = ''t'', description = [], status = TODO,
      priority = LOW, dueDate = None, subtasks = [\<lparr>subtask_id = 3, subtask_title = ''s'', completed = False\<rparr>],
      comments = []\<rparr>], kb_tasks = [0], kb_selected = Some 0\<rparr> ! 0))"
    by simp_all
  show ?thesis
    using h modal_toggle_failure_mutates_board [OF h, where st = Map.empty and srv = "\<lparr>srv_tasks = [], srv_next = 1, srv_clock = 0\<rparr>"]
    by (simp add: toggle_at_def)
qed

lemma task_id_toggle_at [simp]:
  "task_id (toggle_at j t) = task_id t" "comments (toggle_at j t) = comments t"
  by (simp_all add: toggle_at_def)

lemma kanban_drop_put:
  assumes "t \<in> set (srv_tasks srv)"
  shows "kanban_drop intended_exports st srv \<lparr>draggableId = card_draggableId t, destination = Some s\<rparr> k =
         kb_reload intended_exports st
           (srv\<lparr>srv_tasks := update_task (task_id t) (apply_patch (no_patch\<lparr>p_status := Some s\<rparr>))
                               (srv_tasks srv)\<rparr>) k"
proof -
  obtain t' where "find_task (task_id t) (srv_tasks srv) = Some t'"
    using find_task_exists [OF assms] by blast
  then show ?thesis
    by (simp add: kanban_drop_def onDragEnd_def card_draggableId_def write_then_reload_def)
qed

subsection \<open>Properties\<close>

text \<open>
  C35. The specification's \<open>moveTask(id, "DONE")\<close> on the kanban board, with the
  helpers the page imports as the specification describes them: dropping the card of an
  \<open>IN_PROGRESS\<close> task on the Done column and the reload after it leave the board
  showing the server's tasks, with that task in the Done column and not in In Progress.
\<close>

theorem kanban_move_to_done_then_reload:
  assumes "t \<in> set (srv_tasks srv)" "status t = IN_PROGRESS"
  shows "case kanban_drop intended_exports st srv
                \<lparr>draggableId = card_draggableId t, destination = Some DONE\<rparr> k of
           (srv', k') \<Rightarrow> kb_list k' = srv_tasks srv' \<and>
                        task_id t \<in> task_id ` set (kb_column k' DONE) \<and>
                        task_id t \<notin> task_id ` set (kb_column k' IN_PROGRESS)"
proof -
  let ?p = "no_patch\<lparr>p_status := Some DONE\<rparr>"
  let ?ts = "update_task (task_id t) (apply_patch ?p) (srv_tasks srv)"
  have st: "\<And>x. status (apply_patch ?p x) = DONE" by (simp add: apply_patch_def no_patch_def)
  have moved: "apply_patch ?p t \<in> set ?ts" using update_task_mem [OF assms(1)] .
  have none: "\<And>y. y \<in> set ?ts \<Longrightarrow> task_id y = task_id t \<Longrightarrow> status y = DONE"
    by (erule update_task_memE) (simp_all add: st)
  let ?s1 = "srv\<lparr>srv_tasks := ?ts\<rparr>"
  obtain srv' k' where r: "kanban_drop intended_exports st srv
      \<lparr>draggableId = card_draggableId t, destination = Some DONE\<rparr> k = (srv', k')"
    by (metis surj_pair)
  then have e: "(srv', k') = kb_reload intended_exports st ?s1 k"
    using kanban_drop_put [OF assms(1), of st DONE k] by simp
  have "srv' = ?s1" "kb_list k' = ?ts"
    using kb_reload_intended [of st ?s1 k] unfolding e [symmetric] by simp_all
  moreover have "task_id t \<in> task_id ` set (filter (\<lambda>t. status t = DONE) ?ts)"
    by (intro image_eqI [where x = "apply_patch ?p t"]) (simp_all add: moved st)
  moreover have "task_id t \<notin> task_id ` set (filter (\<lambda>t. status t = IN_PROGRESS) ?ts)"
    using none by force
  ultimately show ?thesis using r by (simp add: kb_column_def)
qed

theorem kanban_move_to_done_then_reload_witness:
  "\<lparr>task_id = 4, title = ''Ship'', description = [], status = IN_PROGRESS, priority = HIGH,
     dueDate = None, subtasks = [], comments = []\<rparr>
     \<in> set (srv_tasks \<lparr>srv_tasks = [\<lparr>task_id = 4, title = ''Ship'', description = [],
        status = IN_PROGRESS, priority = HIGH, dueDate = None, subtasks = [], comments = []\<rparr>],
        srv_next = 5, srv_clock = 0\<rparr>) \<and>
   status \<lparr>task_id = 4, title = ''Ship'', description = [], status = IN_PROGRESS, priority = HIGH,
     dueDate = None, subtasks = [], comments = []\<rparr> = IN_PROGRESS \<and>
   (case kanban_drop intended_exports Map.empty
      \<lparr>srv_tasks = [\<lparr>task_id = 4, title = ''Ship'', description = [], status = IN_PROGRESS,
         priority = HIGH, dueDate = None, subtasks = [], comments = []\<rparr>], srv_next = 5, srv_clock = 0\<rparr>
      \<lparr>draggableId = card_draggableId \<lparr>task_id = 4, title = ''Ship'', description = [],
         status = IN_PROGRESS, priority = HIGH, dueDate = None, subtasks = [], comments = []\<rparr>,
       destination = Some DONE\<rparr> kanban_init of
    (srv', k') \<Rightarrow> kb_list k' = srv_tasks srv' \<and>
      task_id \<lparr>task_id = 4, title = ''Ship'', description = [], status = IN_PROGRESS, priority = HIGH,
        dueDate = None, subtasks = [], comments = []\<rparr> \<in> task_id ` set (kb_column k' DONE) \<and>
      task_id \<lparr>task_id = 4, title = ''Ship'', description = [], status = IN_PROGRESS, priority = HIGH,
        dueDate = None, subtasks = [], comments = []\<rparr> \<notin> task_id ` set (kb_column k' IN_PROGRESS))"
  using kanban_move_to_done_then_reload [of "\<lparr>task_id = 4, title = ''Ship'', description = [],
      status = IN_PROGRESS, priority = HIGH, dueDate = None, subtasks = [], comments = []\<rparr>"
      "\<lparr>srv_tasks = [\<lparr>task_id = 4, title = ''Ship'', description = [], status = IN_PROGRESS,
         priority = HIGH, dueDate = None, subtasks = [], comments = []\<rparr>], srv_next = 5, srv_clock = 0\<rparr>"
      "Map.empty" kanban_init]
  by simp


lemma modal_toggle_run_put:
  assumes "find_task (task_id t) (srv_tasks srv) = Some cur" "kb_heap k ! a = t" "j < length (subtasks t)"
  shows "fst (modal_toggle_run intended_exports st srv a j k) =
       srv\<lparr>srv_tasks := update_task (task_id t) (apply_patch (full_patch (toggle_at j t))) (srv_tasks srv)\<rparr>"
proof -
  have "modal_toggleSubtask intended_exports st a j k =
          (k\<lparr>kb_heap := (kb_heap k)[a := toggle_at j t]\<rparr>,
           Inr (PutTask (task_id t) (full_patch (toggle_at j t)), api_headers st))"
    using assms(2,3) by (simp add: modal_toggleSubtask_def Let_def)
  then show ?thesis using assms(1) kb_reload_intended
    by (simp add: modal_toggle_run_def write_then_reload_def)
qed

lemma detail_toggle_run_put:
  assumes "find_task (task_id t) (srv_tasks srv) = Some t" "sid \<in> set (map subtask_id (subtasks t))"
  shows "fst (run_action st (task_id t) srv (toggleSubtask st (task_id t) sid c d) toggleSubtask_done) =
         srv\<lparr>srv_tasks := update_task (task_id t) (set_completed sid (\<not> c)) (srv_tasks srv)\<rparr>"
  using assms
  by (simp add: run_action_def toggleSubtask_def toggleSubtask_done_def fetchTaskDetails_def
      split: option.split)

text \<open>
  C37. With the helpers the page imports as the specification describes them
  (\<open>intended_exports\<close>; the repository's \<open>api.js\<close> exports none of them, and there the
  modal's toggle saves nothing, C18), the two ways of completing a subtask converge, as
  the specification requires: toggling subtask \<open>j\<close> in the kanban modal (whole-task \<open>PUT\<close> of the mutated object,
  then \<open>reload()\<close>) leaves the server exactly as toggling the same subtask on the detail
  page (\<open>PUT /tasks/{id}/subtasks/{subtaskId}\<close>, then the refetch), when the modal's
  object is the server's current task and subtask ids are distinct.
\<close>

theorem modal_toggle_equiv_detail_toggle:
  assumes "wf_server srv" "t \<in> set (srv_tasks srv)" "kb_heap k ! a = t"
    and "j < length (subtasks t)" "distinct (map subtask_id (subtasks t))"
  shows "fst (modal_toggle_run intended_exports st srv a j k) =
         fst (run_action st (task_id t) srv
                (toggleSubtask st (task_id t) (subtask_id (subtasks t ! j))
                   (completed (subtasks t ! j)) d) toggleSubtask_done)"
proof -
  let ?sid = "subtask_id (subtasks t ! j)" and ?b = "\<not> completed (subtasks t ! j)"
  have dist: "distinct (map task_id (srv_tasks srv))" using assms(1) by (simp add: wf_server_def)
  have f: "find_task (task_id t) (srv_tasks srv) = Some t" using find_task_unique [OF dist assms(2)] .
  have sid: "?sid \<in> set (map subtask_id (subtasks t))" using assms(4) by simp
  have same: "update_task (task_id t) (apply_patch (full_patch (toggle_at j t))) (srv_tasks srv) =
              update_task (task_id t) (set_completed ?sid ?b) (srv_tasks srv)"
  proof (rule update_task_cong_unique [OF dist assms(2)])
    have "apply_patch (full_patch (toggle_at j t)) t = toggle_at j t"
      by (simp add: apply_full_patch toggle_at_def)
    then show "apply_patch (full_patch (toggle_at j t)) t = set_completed ?sid ?b t"
      using toggle_at_set_completed [OF assms(4,5)] by simp
  qed
  show ?thesis
    using modal_toggle_run_put [OF f assms(3,4)] detail_toggle_run_put [OF f sid] same by simp
qed


theorem modal_toggle_equiv_detail_toggle_witness:
  "wf_server (\<lparr>srv_tasks = [\<lparr>task_id = 1, title = ''t'', description = [], status = TODO, priority = LOW, dueDate = None, subtasks = [\<lparr>subtask_id = 3, subtask_title = ''s'', completed = False\<rparr>], comments = []\<rparr>], srv_next = 2, srv_clock = 0\<rparr>) \<and>
   (\<lparr>task_id = 1, title = ''t'', description = [], status = TODO, priority = LOW, dueDate = None, subtasks = [\<lparr>subtask_id = 3, subtask_title = ''s'', completed = False\<rparr>], comments = []\<rparr>) \<in> set (srv_tasks (\<lparr>srv_tasks = [\<lparr>task_id = 1, title = ''t'', description = [], status = TODO, priority = LOW, dueDate = None, subtasks = [\<lparr>subtask_id = 3, subtask_title = ''s'', completed = False\<rparr>], comments = []\<rparr>], srv_next = 2, srv_clock = 0\<rparr>)) \<and>
   kb_heap (\<lparr>kb_heap = [\<lparr>task_id = 1, title = ''t'', description = [], status = TODO, priority = LOW, dueDate = None, subtasks = [\<lparr>subtask_id = 3, subtask_title = ''s'', completed = False\<rparr>], comments = []\<rparr>], kb_tasks = [0], kb_selected = Some 0\<rparr>) ! 0 = (\<lparr>task_id = 1, title = ''t'', description = [], status = TODO, priority = LOW, dueDate = None, subtasks = [\<lparr>subtask_id = 3, subtask_title = ''s'', completed = False\<rparr>], comments = []\<rparr>) \<and>
   0 < length (subtasks (\<lparr>task_id = 1, title = ''t'', description = [], status = TODO, priority = LOW, dueDate = None, subtasks = [\<lparr>subtask_id = 3, subtask_title = ''s'', completed = False\<rparr>], comments = []\<rparr>)) \<and>
   distinct (map subtask_id (subtasks (\<lparr>task_id = 1, title = ''t'', description = [], status = TODO, priority = LOW, dueDate = None, subtasks = [\<lparr>subtask_id = 3, subtask_title = ''s'', completed = False\<rparr>], comments = []\<rparr>))) \<and>
   fst (modal_toggle_run intended_exports Map.empty (\<lparr>srv_tasks = [\<lparr>task_id = 1, title = ''t'', description = [], status = TODO, priority = LOW, dueDate = None, subtasks = [\<lparr>subtask_id = 3, subtask_title = ''s'', completed = False\<rparr>], comments = []\<rparr>], srv_next = 2, srv_clock = 0\<rparr>) 0 0 (\<lparr>kb_heap = [\<lparr>task_id = 1, title = ''t'', description = [], status = TODO, priority = LOW, dueDate = None, subtasks = [\<lparr>subtask_id = 3, subtask_title = ''s'', completed = False\<rparr>], comments = []\<rparr>], kb_tasks = [0], kb_selected = Some 0\<rparr>)) =
     fst (run_action Map.empty (task_id (\<lparr>task_id = 1, title = ''t'', description = [], status = TODO, priority = LOW, dueDate = None, subtasks = [\<lparr>subtask_id = 3, subtask_title = ''s'', completed = False\<rparr>], comments = []\<rparr>)) (\<lparr>srv_tasks = [\<lparr>task_id = 1, title = ''t'', description = [], status = TODO, priority = LOW, dueDate = None, subtasks = [\<lparr>subtask_id = 3, subtask_title = ''s'', completed = False\<rparr>], comments = []\<rparr>], srv_next = 2, srv_clock = 0\<rparr>)
       (toggleSubtask Map.empty (task_id (\<lparr>task_id = 1, title = ''t'', description = [], status = TODO, priority = LOW, dueDate = None, subtasks = [\<lparr>subtask_id = 3, subtask_title = ''s'', completed = False\<rparr>], comments = []\<rparr>)) (subtask_id (subtasks (\<lparr>task_id = 1, title = ''t'', description = [], status = TODO, priority = LOW, dueDate = None, subtasks = [\<lparr>subtask_id = 3, subtask_title = ''s'', completed = False\<rparr>], comments = []\<rparr>) ! 0))
          (completed (subtasks (\<lparr>task_id = 1, title = ''t'', description = [], status = TODO, priority = LOW, dueDate = None, subtasks = [\<lparr>subtask_id = 3, subtask_title = ''s'', completed = False\<rparr>], comments = []\<rparr>) ! 0)) details_init) toggleSubtask_done)"
proof -
  have h: "wf_server (\<lparr>srv_tasks = [\<lparr>task_id = 1, title = ''t'', description = [], status = TODO, priority = LOW, dueDate = None, subtasks = [\<lparr>subtask_id = 3, subtask_title = ''s'', completed = False\<rparr>], comments = []\<rparr>], srv_next = 2, srv_clock = 0\<rparr>)" "(\<lparr>task_id = 1, title = ''t'', description = [], status = TODO, priority = LOW, dueDate = None, subtasks = [\<lparr>subtask_id = 3, subtask_title = ''s'', completed = False\<rparr>], comments = []\<rparr>) \<in> set (srv_tasks (\<lparr>srv_tasks = [\<lparr>task_id = 1, title = ''t'', description = [], status = TODO, priority = LOW, dueDate = None, subtasks = [\<lparr>subtask_id = 3, subtask_title = ''s'', completed = False\<rparr>], comments = []\<rparr>], srv_next = 2, srv_clock = 0\<rparr>))" "kb_heap (\<lparr>kb_heap = [\<lparr>task_id = 1, title = ''t'', description = [], status = TODO, priority = LOW, dueDate = None, subtasks = [\<lparr>subtask_id = 3, subtask_title = ''s'', completed = False\<rparr>], comments = []\<rparr>], kb_tasks = [0], kb_selected = Some 0\<rparr>) ! 0 = (\<lparr>task_id = 1, title = ''t'', description = [], status = TODO, priority = LOW, dueDate = None, subtasks = [\<lparr>subtask_id = 3, subtask_title = ''s'', completed = False\<rparr>], comments = []\<rparr>)" "0 < length (subtasks (\<lparr>task_id = 1, title = ''t'', description = [], status = TODO, priority = LOW, dueDate = None, subtasks = [\<lparr>subtask_id = 3, subtask_title = ''s'', completed = False\<rparr>], comments = []\<rparr>))" "distinct (map subtask_id (subtasks (\<lparr>task_id = 1, title = ''t'', description = [], status = TODO, priority = LOW, dueDate = None, subtasks = [\<lparr>subtask_id = 3, subtask_title = ''s'', completed = False\<rparr>], comments = []\<rparr>)))"
    by (simp_all add: wf_server_def)
  show ?thesis
    by (intro conjI h modal_toggle_equiv_detail_toggle [OF h])
qed

end
