(* ===== verification/Board.thy ===== *)
theory Board
  imports Helpers
begin

text \<open>
  \<open>src/src/pages/Board.jsx\<close>: a three-column board with move buttons. \<open>load\<close> awaits
  \<open>getTasks()\<close> and catches any failure; \<open>moveTask\<close> awaits
  \<open>updateTaskStatus(taskId, newStatus)\<close>, a name the module neither imports nor
  defines, so the call throws a \<open>ReferenceError\<close>, which the \<open>catch\<close> logs, and the
  reload after it is never reached. \<open>board_scope\<close> is the module's top-level scope.
\<close>

record board =
  bd_tasks :: "task list"

definition board_init :: board where
  "board_init = \<lparr>bd_tasks = []\<rparr>"

definition board_scope :: "string list" where
  "board_scope = [''useEffect'', ''useState'', ''getTasks'', ''updateTask'', ''Board'']"

definition board_load_done :: "payload response \<Rightarrow> board \<Rightarrow> board" where
  "board_load_done r b = (case tasks_of r of Some ts \<Rightarrow> b\<lparr>bd_tasks := ts\<rparr> | None \<Rightarrow> b)"

definition board_moveTask ::
  "string list \<Rightarrow> storage \<Rightarrow> int \<Rightarrow> status \<Rightarrow> js_error + page_req" where
  "board_moveTask ex st tid s =
     (if ''updateTaskStatus'' \<in> set board_scope
      then updateTask ex st (show_int tid) (no_patch\<lparr>p_status := Some s\<rparr>)
      else Inl (ReferenceError ''updateTaskStatus is not defined''))"

definition board_columns :: "(status \<times> string) list" where
  "board_columns = [(TODO, ''To Do''), (IN_PROGRESS, ''In Progress''), (DONE, ''Done'')]"

definition board_column :: "board \<Rightarrow> status \<Rightarrow> task list" where
  "board_column b s = filter (\<lambda>t. status t = s) (bd_tasks b)"

text \<open>The move buttons of a card in column \<open>s\<close>: every other status, in column order.\<close>

definition board_buttons :: "status \<Rightarrow> status list" where
  "board_buttons s = filter (\<lambda>s'. s' \<noteq> s) (map fst board_columns)"

definition board_move_run ::
  "string list \<Rightarrow> storage \<Rightarrow> server \<Rightarrow> int \<Rightarrow> status \<Rightarrow> board \<Rightarrow> server \<times> board" where
  "board_move_run ex st srv tid s b =
     (case board_moveTask ex st tid s of
        Inl e \<Rightarrow> (srv, b)
      | Inr q \<Rightarrow>
          (case server_handle (fst q) srv of
             (srv1, r) \<Rightarrow>
               if helper_settled r then
                 (case getTasks ex st of
                    Inl e \<Rightarrow> (srv1, b)
                  | Inr q2 \<Rightarrow> (case server_handle (fst q2) srv1 of
                                (srv2, r2) \<Rightarrow> (srv2, board_load_done r2 b)))
               else (srv1, b)))"

text \<open>
  The render: per column its title and, per task of that column, the title, the
  description and the move buttons to the other columns.
\<close>

definition board_view :: "board \<Rightarrow> (string \<times> (string \<times> string \<times> status list) list) list" where
  "board_view b =
     map (\<lambda>(s, ttl). (ttl, map (\<lambda>t. (title t, description t, board_buttons s)) (board_column b s)))
       board_columns"

section \<open>Lemmas\<close>

lemma board_moveTask_fails:
  "board_moveTask ex st tid s = Inl (ReferenceError ''updateTaskStatus is not defined'')"
  by (simp add: board_moveTask_def board_scope_def)

text \<open>Every card offers exactly the two columns it is not in.\<close>

lemma board_buttons_two: "length (board_buttons s) = 2"
  by (cases s) (simp_all add: board_buttons_def board_columns_def)

lemma board_buttons_other: "s' \<in> set (board_buttons s) \<longleftrightarrow> s' \<noteq> s"
  by (cases s; cases s') (simp_all add: board_buttons_def board_columns_def)

end
