(* ===== verification/Tables.thy ===== *)
theory Tables
  imports Helpers Tasks "HOL-Library.Sublist" "HOL-Library.Multiset"
begin

text \<open>
  The three table views, none of them routed by \<open>App.jsx\<close>:
  \<^item> \<open>src/src/pages/TasksTable.jsx\<close>: search, status filter and sort over the loaded
    tasks (\<open>table_rows\<close>), the due-date label (\<open>formatDueDate\<close>) and the progress text;
  \<^item> \<open>src/src/pages/TaskList.jsx\<close>: the list with a delete button whose continuation
    filters the list captured when the button was clicked;
  \<^item> \<open>src/src/pages/Dashboard.jsx\<close>: counts by status and by priority.
  \<open>toLowerCase\<close> is modelled on ASCII letters. \<open>Array.prototype.sort\<close> is stable; with
  a consistent comparator its result is the stable sort by the comparator's key
  (\<open>sort_key\<close>). The due-date comparator \<open>new Date(a.dueDate) - new Date(b.dueDate)\<close>
  is \<open>NaN\<close> when a task has no due date, which \<open>sort\<close> reads as "equal": the
  comparator is then inconsistent and the order implementation-defined, which
  \<open>table_rows\<close> returns as \<open>None\<close>. \<open>localeCompare\<close> on the upper-case priority names
  is their alphabetical order.
\<close>

subsection \<open>TasksTable\<close>

datatype sort_by = ByDueDate | ByPriority

record tasks_table =
  tt_tasks :: "task list"
  tt_search :: string
  tt_filter :: "status option"  \<comment> \<open>\<open>None\<close> is the option \<open>"ALL"\<close>\<close>
  tt_sortBy :: sort_by

definition table_init :: tasks_table where
  "table_init = \<lparr>tt_tasks = [], tt_search = [], tt_filter = None, tt_sortBy = ByDueDate\<rparr>"

definition table_load_done :: "payload response \<Rightarrow> tasks_table \<Rightarrow> tasks_table" where
  "table_load_done r s = (case tasks_of r of Some ts \<Rightarrow> s\<lparr>tt_tasks := ts\<rparr> | None \<Rightarrow> s)"

definition setSearch :: "string \<Rightarrow> tasks_table \<Rightarrow> tasks_table" where
  "setSearch q s = s\<lparr>tt_search := q\<rparr>"

definition setFilterStatus :: "status option \<Rightarrow> tasks_table \<Rightarrow> tasks_table" where
  "setFilterStatus f s = s\<lparr>tt_filter := f\<rparr>"

definition setSortBy :: "sort_by \<Rightarrow> tasks_table \<Rightarrow> tasks_table" where
  "setSortBy b s = s\<lparr>tt_sortBy := b\<rparr>"

definition js_lower :: "char \<Rightarrow> char" where
  "js_lower c = (if CHR ''A'' \<le> c \<and> c \<le> CHR ''Z'' then char_of (of_char c + (32::nat)) else c)"

definition table_shown :: "tasks_table \<Rightarrow> task \<Rightarrow> bool" where
  "table_shown s t \<longleftrightarrow>
     sublist (map js_lower (tt_search s)) (map js_lower (title t)) \<and>
     (case tt_filter s of None \<Rightarrow> True | Some st \<Rightarrow> status t = st)"

definition due_key :: "task \<Rightarrow> int" where
  "due_key t = (case dueDate t of Some d \<Rightarrow> d | None \<Rightarrow> 0)"

definition priority_key :: "task \<Rightarrow> string" where
  "priority_key t = priority_str (priority t)"

definition table_rows :: "tasks_table \<Rightarrow> task list option" where
  "table_rows s =
     (let xs = filter (table_shown s) (tt_tasks s) in
      case tt_sortBy s of
        ByPriority \<Rightarrow> Some (sort_key priority_key xs)
      | ByDueDate \<Rightarrow>
          if length xs \<le> 1 \<or> list_all (\<lambda>t. dueDate t \<noteq> None) xs
          then Some (sort_key due_key xs) else None)"

datatype due_label = LNoDate | LOverdue | LToday | LDaysLeft int | LDate string

definition iso_date :: "day \<Rightarrow> string" where
  "iso_date d =
     (case civil_from_days d of (y, m, dd) \<Rightarrow>
        show_int y @ ''-'' @ pad2 (show_int m) @ ''-'' @ pad2 (show_int dd))"

definition formatDueDate :: "clock \<Rightarrow> day option \<Rightarrow> due_label" where
  "formatDueDate ck due =
     (case due of
        None \<Rightarrow> LNoDate
      | Some d \<Rightarrow>
          (let diffDays = ceil_div (date_ms d - now_ms ck) ms_per_day in
           if diffDays < 0 then LOverdue
           else if diffDays = 0 then LToday
           else if diffDays \<le> 3 then LDaysLeft diffDays
           else LDate (iso_date d)))"

definition table_progress :: "task \<Rightarrow> string" where
  "table_progress t =
     (if subtasks t = [] then ''0%''
      else show_nat (js_round_div (count_if completed (subtasks t) * 100) (length (subtasks t))) @ ''%'')"

record table_row =
  row_title :: string
  row_priority :: string
  row_status :: string
  row_due :: due_label
  row_progress :: string
  row_edit :: string
  row_delete :: string

definition table_row :: "clock \<Rightarrow> task \<Rightarrow> table_row" where
  "table_row ck t =
     \<lparr>row_title = title t, row_priority = priority_str (priority t), row_status = status_str (status t),
      row_due = formatDueDate ck (dueDate t), row_progress = table_progress t,
      row_edit = ''/edit/'' @ show_int (task_id t), row_delete = ''/delete/'' @ show_int (task_id t)\<rparr>"

subsection \<open>TaskList\<close>

record task_list =
  tl_tasks :: "task list"
  tl_loading :: bool

definition task_list_init :: task_list where
  "task_list_init = \<lparr>tl_tasks = [], tl_loading = True\<rparr>"

text \<open>The mount effect: a failed \<open>getTasks\<close> call is caught and ends the loading.\<close>

definition tl_load :: "string list \<Rightarrow> storage \<Rightarrow> task_list \<Rightarrow> task_list \<times> page_req option" where
  "tl_load ex st s =
     (case getTasks ex st of Inl e \<Rightarrow> (s\<lparr>tl_loading := False\<rparr>, None) | Inr q \<Rightarrow> (s, Some q))"

definition tl_load_done :: "payload response \<Rightarrow> task_list \<Rightarrow> task_list" where
  "tl_load_done r s =
     (case tasks_of r of
        Some ts \<Rightarrow> s\<lparr>tl_tasks := ts, tl_loading := False\<rparr>
      | None \<Rightarrow> s\<lparr>tl_loading := False\<rparr>)"

text \<open>
  \<open>handleDelete(id)\<close>: after the confirmation the request is sent; the continuation
  keeps the \<open>tasks\<close> array of the render in which the button was clicked.
\<close>

definition tl_handleDelete ::
  "string list \<Rightarrow> storage \<Rightarrow> bool \<Rightarrow> int \<Rightarrow> task_list \<Rightarrow> (page_req \<times> task list) option" where
  "tl_handleDelete ex st confirmed i s =
     (if \<not> confirmed then None
      else case deleteTask ex st (show_int i) of Inl e \<Rightarrow> None | Inr q \<Rightarrow> Some (q, tl_tasks s))"

definition tl_handleDelete_done ::
  "task list \<Rightarrow> int \<Rightarrow> payload response \<Rightarrow> task_list \<Rightarrow> task_list" where
  "tl_handleDelete_done captured i r s =
     (if helper_settled r then s\<lparr>tl_tasks := filter (\<lambda>t. task_id t \<noteq> i) captured\<rparr> else s)"

datatype task_list_view = TLSpinner | TLEmpty | TLRows "(string \<times> string \<times> string \<times> string option) list"

definition task_list_view :: "task_list \<Rightarrow> task_list_view" where
  "task_list_view s =
     (if tl_loading s then TLSpinner
      else if tl_tasks s = [] then TLEmpty
      else TLRows (map (\<lambda>t. (title t, status_str (status t), priority_str (priority t),
                            map_option iso_date (dueDate t))) (tl_tasks s)))"

subsection \<open>Dashboard\<close>

definition statusData :: "task list \<Rightarrow> (string \<times> nat) list" where
  "statusData ts = map (\<lambda>s. (status_str s, count_if (\<lambda>t. status t = s) ts)) [TODO, IN_PROGRESS, DONE]"

definition priorityData :: "task list \<Rightarrow> (string \<times> nat) list" where
  "priorityData ts = map (\<lambda>p. (priority_str p, count_if (\<lambda>t. priority t = p) ts)) [HIGH, MEDIUM, LOW]"


section \<open>Lemmas\<close>

lemma delete_found:
  assumes "t \<in> set (srv_tasks srv)"
  shows "server_handle (DeleteTask (task_id t)) srv =
           (srv\<lparr>srv_tasks := filter (\<lambda>x. task_id x \<noteq> task_id t) (srv_tasks srv)\<rparr>, Response 204 None)"
proof -
  obtain t' where "find_task (task_id t) (srv_tasks srv) = Some t'"
    using find_task_exists [OF assms] by blast
  then show ?thesis by simp
qed

lemma priority_names_order: "priority_str HIGH < priority_str LOW \<and> priority_str LOW < priority_str MEDIUM"
  by code_simp

lemma insort_key_skip:
  "\<forall>y \<in> set ys. f y < f x \<Longrightarrow> insort_key f x (ys @ zs) = ys @ insort_key f x zs"
  by (induction ys) auto

text \<open>
  The stable sort on the priority's name puts the HIGH tasks first, then the LOW ones,
  then the MEDIUM ones, each group in its original order.
\<close>

lemma sort_priority_blocks:
  "sort_key priority_key xs =
     filter (\<lambda>t. priority t = HIGH) xs @ filter (\<lambda>t. priority t = LOW) xs @
     filter (\<lambda>t. priority t = MEDIUM) xs"
proof (induction xs)
  case (Cons a xs)
  have hl: "priority_str HIGH < priority_str LOW" and lm: "priority_str LOW < priority_str MEDIUM"
    using priority_names_order by auto
  show ?case
  proof (cases "priority a")
    case HIGH
    have "\<forall>y \<in> set (sort_key priority_key xs). priority_key a \<le> priority_key y"
      using hl lm HIGH by (auto simp: Cons.IH priority_key_def)
    with HIGH Cons.IH show ?thesis by (simp add: insort_is_Cons)
  next
    case LOW
    have "\<forall>y \<in> set (filter (\<lambda>t. priority t = HIGH) xs). priority_key y < priority_key a"
      using hl LOW by (auto simp: priority_key_def)
    moreover have "\<forall>y \<in> set (filter (\<lambda>t. priority t = LOW) xs @ filter (\<lambda>t. priority t = MEDIUM) xs).
        priority_key a \<le> priority_key y"
      using lm LOW by (auto simp: priority_key_def)
    ultimately show ?thesis using LOW Cons.IH by (simp add: insort_key_skip insort_is_Cons)
  next
    case MEDIUM
    have "\<forall>y \<in> set (filter (\<lambda>t. priority t = HIGH) xs @ filter (\<lambda>t. priority t = LOW) xs).
        priority_key y < priority_key a"
      using hl lm MEDIUM by (auto simp: priority_key_def)
    moreover have "\<forall>y \<in> set (filter (\<lambda>t. priority t = MEDIUM) xs). priority_key a \<le> priority_key y"
      using MEDIUM by (auto simp: priority_key_def)
    ultimately have "insort_key priority_key a (sort_key priority_key xs) =
        (filter (\<lambda>t. priority t = HIGH) xs @ filter (\<lambda>t. priority t = LOW) xs) @
        a # filter (\<lambda>t. priority t = MEDIUM) xs"
      using insort_key_skip [of "filter (\<lambda>t. priority t = HIGH) xs @ filter (\<lambda>t. priority t = LOW) xs"
          priority_key a "filter (\<lambda>t. priority t = MEDIUM) xs"]
      by (simp add: Cons.IH insort_is_Cons del: filter_append)
    with MEDIUM show ?thesis by simp
  qed
qed simp

subsection \<open>Properties\<close>

text \<open>
  C38. Sorting the table by priority shows exactly the tasks whose title contains the
  search text (ASCII case-insensitively) and whose status matches the filter (\<open>"ALL"\<close>
  matches every status), grouped as all HIGH tasks, then all LOW tasks, then all MEDIUM
  tasks (\<open>localeCompare\<close> on the names), each group in the loaded order.
\<close>

theorem table_priority_sort:
  assumes "tt_sortBy s = ByPriority"
  shows "table_rows s = Some (concat (map (\<lambda>p. filter (\<lambda>t. priority t = p \<and>
            sublist (map js_lower (tt_search s)) (map js_lower (title t)) \<and>
            (case tt_filter s of None \<Rightarrow> True | Some st \<Rightarrow> status t = st)) (tt_tasks s))
          [HIGH, LOW, MEDIUM]))"
  using assms by (simp add: table_rows_def sort_priority_blocks table_shown_def conj_ac)

theorem table_priority_sort_witness:
  "tt_sortBy \<lparr>tt_tasks = [\<lparr>task_id = 1, title = ''Medium job'', description = [], status = TODO,
      priority = MEDIUM, dueDate = None, subtasks = [], comments = []\<rparr>,
     \<lparr>task_id = 2, title = ''Low job'', description = [], status = TODO,
      priority = LOW, dueDate = None, subtasks = [], comments = []\<rparr>,
     \<lparr>task_id = 3, title = ''High job'', description = [], status = TODO,
      priority = HIGH, dueDate = None, subtasks = [], comments = []\<rparr>],
     tt_search = ''JOB'', tt_filter = None, tt_sortBy = ByPriority\<rparr> = ByPriority \<and>
   map task_id (the (table_rows \<lparr>tt_tasks = [\<lparr>task_id = 1, title = ''Medium job'', description = [], status = TODO,
      priority = MEDIUM, dueDate = None, subtasks = [], comments = []\<rparr>,
     \<lparr>task_id = 2, title = ''Low job'', description = [], status = TODO,
      priority = LOW, dueDate = None, subtasks = [], comments = []\<rparr>,
     \<lparr>task_id = 3, title = ''High job'', description = [], status = TODO,
      priority = HIGH, dueDate = None, subtasks = [], comments = []\<rparr>],
     tt_search = ''JOB'', tt_filter = None, tt_sortBy = ByPriority\<rparr>)) = [3, 2, 1]"
proof -
  have h: "tt_sortBy \<lparr>tt_tasks = [\<lparr>task_id = 1, title = ''Medium job'', description = [], status = TODO,
      priority = MEDIUM, dueDate = None, subtasks = [], comments = []\<rparr>,
     \<lparr>task_id = 2, title = ''Low job'', description = [], status = TODO,
      priority = LOW, dueDate = None, subtasks = [], comments = []\<rparr>,
     \<lparr>task_id = 3, title = ''High job'', description = [], status = TODO,
      priority = HIGH, dueDate = None, subtasks = [], comments = []\<rparr>],
     tt_search = ''JOB'', tt_filter = None, tt_sortBy = ByPriority\<rparr> = ByPriority" by simp
  show ?thesis
    using table_priority_sort [OF h] by (simp add: js_lower_def) code_simp
qed

text \<open>
  C40. With the helpers the page imports as the specification describes them
  (\<open>intended_exports\<close>; the repository's \<open>api.js\<close> exports no \<open>deleteTask\<close>, so there
  no delete is ever sent), two deletions clicked on the task list before the first
  answer arrives (both continuations hold the same captured list) resurrect the first
  task: the server has
  deleted it, yet after both answers the list shows it again.
\<close>

theorem concurrent_deletes_resurrect:
  assumes "ta \<in> set (srv_tasks srv)" "tb \<in> set (srv_tasks srv)" "task_id ta \<noteq> task_id tb"
    and "ta \<in> set (tl_tasks s)"
  shows "case (tl_handleDelete intended_exports st True (task_id ta) s,
               tl_handleDelete intended_exports st True (task_id tb) s) of
           (Some (qa, ca), Some (qb, cb)) \<Rightarrow>
             (case server_handle (fst qa) srv of
                (srv1, ra) \<Rightarrow>
                  (case server_handle (fst qb) srv1 of
                     (srv2, rb) \<Rightarrow>
                       task_id ta \<notin> task_id ` set (srv_tasks srv2) \<and>
                       ta \<in> set (tl_tasks (tl_handleDelete_done cb (task_id tb) rb
                                            (tl_handleDelete_done ca (task_id ta) ra s)))))
         | _ \<Rightarrow> False"
proof -
  let ?srv1 = "srv\<lparr>srv_tasks := filter (\<lambda>x. task_id x \<noteq> task_id ta) (srv_tasks srv)\<rparr>"
  have b1: "tb \<in> set (srv_tasks ?srv1)" using assms(2,3) by simp
  note d = delete_found [OF assms(1)] delete_found [OF b1]
  show ?thesis
    using assms(3,4)
    by (simp add: tl_handleDelete_def tl_handleDelete_done_def helper_settled_def d
        del: server_handle.simps) auto
qed


theorem concurrent_deletes_resurrect_witness:
  "(\<lparr>task_id = 1, title = ''a'', description = [], status = TODO, priority = LOW, dueDate = None, subtasks = [], comments = []\<rparr>) \<in> set (srv_tasks (\<lparr>srv_tasks = [\<lparr>task_id = 1, title = ''a'', description = [], status = TODO, priority = LOW, dueDate = None, subtasks = [], comments = []\<rparr>, \<lparr>task_id = 2, title = ''b'', description = [], status = TODO, priority = LOW, dueDate = None, subtasks = [], comments = []\<rparr>], srv_next = 3, srv_clock = 0\<rparr>)) \<and>
   (\<lparr>task_id = 2, title = ''b'', description = [], status = TODO, priority = LOW, dueDate = None, subtasks = [], comments = []\<rparr>) \<in> set (srv_tasks (\<lparr>srv_tasks = [\<lparr>task_id = 1, title = ''a'', description = [], status = TODO, priority = LOW, dueDate = None, subtasks = [], comments = []\<rparr>, \<lparr>task_id = 2, title = ''b'', description = [], status = TODO, priority = LOW, dueDate = None, subtasks = [], comments = []\<rparr>], srv_next = 3, srv_clock = 0\<rparr>)) \<and>
   task_id (\<lparr>task_id = 1, title = ''a'', description = [], status = TODO, priority = LOW, dueDate = None, subtasks = [], comments = []\<rparr>) \<noteq> task_id (\<lparr>task_id = 2, title = ''b'', description = [], status = TODO, priority = LOW, dueDate = None, subtasks = [], comments = []\<rparr>) \<and>
   (\<lparr>task_id = 1, title = ''a'', description = [], status = TODO, priority = LOW, dueDate = None, subtasks = [], comments = []\<rparr>) \<in> set (tl_tasks (\<lparr>tl_tasks = [\<lparr>task_id = 1, title = ''a'', description = [], status = TODO, priority = LOW, dueDate = None, subtasks = [], comments = []\<rparr>, \<lparr>task_id = 2, title = ''b'', description = [], status = TODO, priority = LOW, dueDate = None, subtasks = [], comments = []\<rparr>], tl_loading = False\<rparr>)) \<and>
   (case (tl_handleDelete intended_exports Map.empty True (task_id (\<lparr>task_id = 1, title = ''a'', description = [], status = TODO, priority = LOW, dueDate = None, subtasks = [], comments = []\<rparr>)) (\<lparr>tl_tasks = [\<lparr>task_id = 1, title = ''a'', description = [], status = TODO, priority = LOW, dueDate = None, subtasks = [], comments = []\<rparr>, \<lparr>task_id = 2, title = ''b'', description = [], status = TODO, priority = LOW, dueDate = None, subtasks = [], comments = []\<rparr>], tl_loading = False\<rparr>),
          tl_handleDelete intended_exports Map.empty True (task_id (\<lparr>task_id = 2, title = ''b'', description = [], status = TODO, priority = LOW, dueDate = None, subtasks = [], comments = []\<rparr>)) (\<lparr>tl_tasks = [\<lparr>task_id = 1, title = ''a'', description = [], status = TODO, priority = LOW, dueDate = None, subtasks = [], comments = []\<rparr>, \<lparr>task_id = 2, title = ''b'', description = [], status = TODO, priority = LOW, dueDate = None, subtasks = [], comments = []\<rparr>], tl_loading = False\<rparr>)) of
      (Some (qa, ca), Some (qb, cb)) \<Rightarrow>
        (case server_handle (fst qa) (\<lparr>srv_tasks = [\<lparr>task_id = 1, title = ''a'', description = [], status = TODO, priority = LOW, dueDate = None, subtasks = [], comments = []\<rparr>, \<lparr>task_id = 2, title = ''b'', description = [], status = TODO, priority = LOW, dueDate = None, subtasks = [], comments = []\<rparr>], srv_next = 3, srv_clock = 0\<rparr>) of
           (srv1, ra) \<Rightarrow>
             (case server_handle (fst qb) srv1 of
                (srv2, rb) \<Rightarrow>
                  task_id (\<lparr>task_id = 1, title = ''a'', description = [], status = TODO, priority = LOW, dueDate = None, subtasks = [], comments = []\<rparr>) \<notin> task_id ` set (srv_tasks srv2) \<and>
                  (\<lparr>task_id = 1, title = ''a'', description = [], status = TODO, priority = LOW, dueDate = None, subtasks = [], comments = []\<rparr>) \<in> set (tl_tasks (tl_handleDelete_done cb (task_id (\<lparr>task_id = 2, title = ''b'', description = [], status = TODO, priority = LOW, dueDate = None, subtasks = [], comments = []\<rparr>)) rb
                                       (tl_handleDelete_done ca (task_id (\<lparr>task_id = 1, title = ''a'', description = [], status = TODO, priority = LOW, dueDate = None, subtasks = [], comments = []\<rparr>)) ra (\<lparr>tl_tasks = [\<lparr>task_id = 1, title = ''a'', description = [], status = TODO, priority = LOW, dueDate = None, subtasks = [], comments = []\<rparr>, \<lparr>task_id = 2, title = ''b'', description = [], status = TODO, priority = LOW, dueDate = None, subtasks = [], comments = []\<rparr>], tl_loading = False\<rparr>))))))
    | _ \<Rightarrow> False)"
proof -
  have h: "(\<lparr>task_id = 1, title = ''a'', description = [], status = TODO, priority = LOW, dueDate = None, subtasks = [], comments = []\<rparr>) \<in> set (srv_tasks (\<lparr>srv_tasks = [\<lparr>task_id = 1, title = ''a'', description = [], status = TODO, priority = LOW, dueDate = None, subtasks = [], comments = []\<rparr>, \<lparr>task_id = 2, title = ''b'', description = [], status = TODO, priority = LOW, dueDate = None, subtasks = [], comments = []\<rparr>], srv_next = 3, srv_clock = 0\<rparr>))" "(\<lparr>task_id = 2, title = ''b'', description = [], status = TODO, priority = LOW, dueDate = None, subtasks = [], comments = []\<rparr>) \<in> set (srv_tasks (\<lparr>srv_tasks = [\<lparr>task_id = 1, title = ''a'', description = [], status = TODO, priority = LOW, dueDate = None, subtasks = [], comments = []\<rparr>, \<lparr>task_id = 2, title = ''b'', description = [], status = TODO, priority = LOW, dueDate = None, subtasks = [], comments = []\<rparr>], srv_next = 3, srv_clock = 0\<rparr>))" "task_id (\<lparr>task_id = 1, title = ''a'', description = [], status = TODO, priority = LOW, dueDate = None, subtasks = [], comments = []\<rparr>) \<noteq> task_id (\<lparr>task_id = 2, title = ''b'', description = [], status = TODO, priority = LOW, dueDate = None, subtasks = [], comments = []\<rparr>)" "(\<lparr>task_id = 1, title = ''a'', description = [], status = TODO, priority = LOW, dueDate = None, subtasks = [], comments = []\<rparr>) \<in> set (tl_tasks (\<lparr>tl_tasks = [\<lparr>task_id = 1, title = ''a'', description = [], status = TODO, priority = LOW, dueDate = None, subtasks = [], comments = []\<rparr>, \<lparr>task_id = 2, title = ''b'', description = [], status = TODO, priority = LOW, dueDate = None, subtasks = [], comments = []\<rparr>], tl_loading = False\<rparr>))"
    by simp_all
  show ?thesis
    by (intro conjI h concurrent_deletes_resurrect [OF h])
qed

end
