(* ===== verification/DetailsTimer.thy ===== *)
theory DetailsTimer
  imports TaskDetails Helpers Tasks
begin

text \<open>
  The timer and the formatting helpers of \<open>src/src/pages/TaskDetails.jsx\<close>.
  \<open>formatTime\<close> renders a number of seconds as \<open>HH:MM:SS\<close>; \<open>parse_time\<close> reads
  such a string back and is the reference the round trip is stated against.

  The timer effect runs whenever \<open>timerRunning\<close> changes: React first runs the
  previous run's cleanup, which clears the interval id captured in that run's
  \<open>timerInterval\<close>, then the body, which starts an interval (storing its id with
  \<open>setTimerInterval\<close>) or clears the stored one. The record \<open>timer\<close> holds the
  component's state, the set of live interval ids, the id the pending cleanup will
  clear, and whether the component is mounted; \<open>timer_step\<close> applies one event.
\<close>

definition formatTime :: "nat \<Rightarrow> string" where
  "formatTime secs =
     pad2 (show_nat (secs div 3600)) @ '':'' @ pad2 (show_nat (secs mod 3600 div 60)) @ '':'' @
     pad2 (show_nat (secs mod 60))"

fun split_on :: "char \<Rightarrow> string \<Rightarrow> string list" where
  "split_on c [] = [[]]"
| "split_on c (x # xs) =
     (if x = c then [] # split_on c xs
      else (case split_on c xs of w # ws \<Rightarrow> (x # w) # ws | [] \<Rightarrow> [[x]]))"

definition parse_time :: "string \<Rightarrow> nat option" where
  "parse_time s =
     (case split_on (CHR '':'') s of
        [h, m, sec] \<Rightarrow>
          (case (parse_nat h, parse_nat m, parse_nat sec) of
             (Some a, Some b, Some c) \<Rightarrow> if b < 60 \<and> c < 60 then Some (a * 3600 + b * 60 + c) else None
           | _ \<Rightarrow> None)
      | _ \<Rightarrow> None)"

definition month_long :: "int \<Rightarrow> string" where
  "month_long m = [''January'', ''February'', ''March'', ''April'', ''May'', ''June'', ''July'',
                   ''August'', ''September'', ''October'', ''November'', ''December''] ! nat (m - 1)"

definition details_formatDate :: "clock \<Rightarrow> day option \<Rightarrow> string" where
  "details_formatDate ck due =
     (case due of
        None \<Rightarrow> ''No due date''
      | Some d \<Rightarrow> (case civil_from_days (local_day_of ck (date_ms d)) of
                    (y, m, dd) \<Rightarrow> month_long m @ '' '' @ show_int dd @ '', '' @ show_int y))"

record timer =
  running :: bool
  spent :: nat
  timerInterval :: "nat option"
  live :: "nat set"
  cleanup :: "nat option"
  next_id :: nat
  mounted :: bool

definition timer_init :: timer where
  "timer_init = \<lparr>running = False, spent = 0, timerInterval = None, live = {}, cleanup = None,
                 next_id = 1, mounted = True\<rparr>"

definition clear :: "nat option \<Rightarrow> nat set \<Rightarrow> nat set" where
  "clear h L = (case h of None \<Rightarrow> L | Some i \<Rightarrow> L - {i})"

text \<open>The effect after a change of \<open>timerRunning\<close>: the old cleanup, then the body.\<close>

definition timer_effect :: "timer \<Rightarrow> timer" where
  "timer_effect t =
     (let L = clear (cleanup t) (live t); captured = timerInterval t in
      if running t then
        t\<lparr>live := insert (next_id t) L, timerInterval := Some (next_id t),
          next_id := next_id t + 1, cleanup := captured\<rparr>
      else t\<lparr>live := clear captured L, cleanup := captured\<rparr>)"

datatype timer_event = StartPause | Reset | Tick nat | Unmount

fun timer_step :: "timer_event \<Rightarrow> timer \<Rightarrow> timer" where
  "timer_step StartPause t = (if mounted t then timer_effect (t\<lparr>running := \<not> running t\<rparr>) else t)"
| "timer_step Reset t =
     (if \<not> mounted t then t
      else if running t then timer_effect (t\<lparr>spent := 0, running := False\<rparr>)
      else t\<lparr>spent := 0\<rparr>)"
| "timer_step (Tick i) t = (if i \<in> live t \<and> mounted t then t\<lparr>spent := spent t + 1\<rparr> else t)"
| "timer_step Unmount t =
     (if mounted t then t\<lparr>live := clear (cleanup t) (live t), mounted := False\<rparr> else t)"

inductive timer_reach :: "timer \<Rightarrow> bool" where
  init: "timer_reach timer_init"
| step: "timer_reach t \<Longrightarrow> timer_reach (timer_step e t)"


definition timer_ok :: "timer \<Rightarrow> bool" where
  "timer_ok t \<longleftrightarrow>
     (case timerInterval t of Some h \<Rightarrow> h < next_id t | None \<Rightarrow> True) \<and>
     (mounted t \<longrightarrow>
        (if running t then (case timerInterval t of
                              Some h \<Rightarrow> live t = {h} \<and> cleanup t \<noteq> Some h
                            | None \<Rightarrow> False)
         else live t = {}))"

section \<open>Lemmas\<close>

lemma parse_digits_zeros: "parse_digits 0 (replicate k (CHR ''0'') @ xs) = parse_digits 0 xs"
  by (induction k) (simp_all add: is_digit_def)

lemma parse_pad2: "parse_nat (pad2 (show_nat n)) = Some n"
  using show_nat_Cons [of n] parse_show_nat [of n]
  by (auto simp: parse_nat_def pad2_def parse_digits_zeros)

lemma colon_not_in_pad2: "CHR '':'' \<notin> set (pad2 (show_nat n))"
  using show_nat_digits [of "CHR '':''" n] by (auto simp: pad2_def is_digit_def)

lemma split_on_none: "c \<notin> set xs \<Longrightarrow> split_on c xs = [xs]"
  by (induction xs) auto

lemma split_on_app: "c \<notin> set xs \<Longrightarrow> split_on c (xs @ c # ys) = xs # split_on c ys"
proof (induction xs)
  case (Cons x xs)
  then show ?case by (cases "split_on c (xs @ c # ys)") auto
qed simp

lemma hms_decompose:
  fixes n :: nat
  shows "n div 3600 * 3600 + n mod 3600 div 60 * 60 + n mod 60 = n"
proof -
  have "n mod 3600 mod 60 = n mod 60" by (simp add: mod_mod_cancel)
  moreover have "n mod 3600 div 60 * 60 + n mod 3600 mod 60 = n mod 3600" by simp
  moreover have "n div 3600 * 3600 + n mod 3600 = n" by simp
  ultimately show ?thesis by linarith
qed

lemma timer_ok_init: "timer_ok timer_init"
  by (simp add: timer_ok_def timer_init_def)

lemma timer_ok_effect:
  "timer_ok t \<Longrightarrow> timer_ok (timer_effect (t\<lparr>running := \<not> running t\<rparr>))"
  by (cases "running t")
     (auto simp: timer_ok_def timer_effect_def clear_def Let_def split: option.splits)

lemma timer_ok_spent: "timer_ok (t\<lparr>spent := k\<rparr>) = timer_ok t"
  by (simp add: timer_ok_def split: option.split)

lemma timer_ok_step: "timer_ok t \<Longrightarrow> timer_ok (timer_step e t)"
proof (cases e)
  case Reset
  assume ok: "timer_ok t"
  then have "timer_ok (timer_effect ((t\<lparr>spent := 0\<rparr>)\<lparr>running := \<not> running (t\<lparr>spent := 0\<rparr>)\<rparr>))"
    by (intro timer_ok_effect) (simp add: timer_ok_spent)
  with ok Reset show ?thesis by (auto simp: timer_ok_spent)
qed (auto simp: timer_ok_effect, auto simp: timer_ok_def clear_def split: option.splits)

lemma timer_reach_ok: "timer_reach t \<Longrightarrow> timer_ok t"
  by (induction rule: timer_reach.induct) (simp_all add: timer_ok_init timer_ok_step)

text \<open>
  While the page is mounted exactly one interval is live when the timer runs and none
  when it is paused, so \<open>timeSpent\<close> grows by one per second exactly while running.
\<close>

lemma timer_one_interval:
  "timer_reach t \<Longrightarrow> mounted t \<Longrightarrow> (running t \<longleftrightarrow> (\<exists>h. live t = {h})) \<and> (\<not> running t \<longrightarrow> live t = {})"
  using timer_reach_ok [of t] by (auto simp: timer_ok_def split: option.splits if_splits)

lemma unmounted_steps: "\<not> mounted t \<Longrightarrow> fold timer_step es t = t"
proof (induction es)
  case (Cons e es)
  have "timer_step e t = t" using Cons.prems by (cases e) simp_all
  with Cons show ?case by simp
qed simp

subsection \<open>Properties\<close>

text \<open>
  C14. Leaving the detail page while the timer runs leaks the interval for good: the
  cleanup React runs on unmount clears the id captured before the interval was started,
  so the running interval stays live, and no later event removes it.
\<close>

theorem timer_unmount_leaks:
  assumes "timer_reach t" "mounted t" "running t"
  shows "live (fold timer_step es (timer_step Unmount t)) = live t \<and> live t \<noteq> {}"
proof -
  have "live (timer_step Unmount t) = live t \<and> live t \<noteq> {}"
    using timer_reach_ok [OF assms(1)] assms(2,3)
    by (auto simp: timer_ok_def clear_def split: option.splits)
  moreover have "\<not> mounted (timer_step Unmount t)" using assms(2) by simp
  ultimately show ?thesis by (simp add: unmounted_steps)
qed

theorem timer_unmount_leaks_witness:
  "timer_reach (timer_step StartPause timer_init) \<and> mounted (timer_step StartPause timer_init) \<and>
   running (timer_step StartPause timer_init) \<and>
   live (fold timer_step [Tick 1, StartPause] (timer_step Unmount (timer_step StartPause timer_init))) =
     live (timer_step StartPause timer_init) \<and>
   live (timer_step StartPause timer_init) \<noteq> {}"
proof -
  have h: "timer_reach (timer_step StartPause timer_init)" "mounted (timer_step StartPause timer_init)"
    "running (timer_step StartPause timer_init)"
    by (intro timer_reach.step timer_reach.init)
       (simp_all add: timer_init_def timer_effect_def Let_def clear_def)
  show ?thesis using h timer_unmount_leaks [OF h] by blast
qed

text \<open>
  C39. The timer display is a faithful rendering: reading \<open>HH:MM:SS\<close> back gives the
  number of seconds \<open>formatTime\<close> was called with, for every count, also beyond 99
  hours, where the hours field simply grows.
\<close>

theorem formatTime_roundtrip: "parse_time (formatTime n) = Some n"
proof -
  let ?h = "pad2 (show_nat (n div 3600))" and ?m = "pad2 (show_nat (n mod 3600 div 60))"
    and ?s = "pad2 (show_nat (n mod 60))"
  have "split_on (CHR '':'') (formatTime n) = [?h, ?m, ?s]"
    by (simp add: formatTime_def split_on_app split_on_none colon_not_in_pad2)
  then show ?thesis by (simp add: parse_time_def parse_pad2 hms_decompose)
qed

end
