(* ===== verification/TaskPages.thy ===== *)
theory TaskPages
  imports Tables
begin

text \<open>
  The small task components that no routed page renders: \<open>src/src/pages/EditTask.jsx\<close>
  (rename and add a subtask, then the parent's \<open>onRefresh\<close>),
  \<open>src/src/pages/DeleteTask.jsx\<close> (load one task, confirm, delete, go to \<open>/tasks\<close>) and
  \<open>src/src/components/TaskCard.jsx\<close> (cycle the status, delete). Each handler is split
  at its \<open>await\<close> (or \<open>.then\<close>); its continuation runs only if the helper's promise
  is fulfilled (\<open>helper_settled\<close>), since none of them catches.
\<close>

subsection \<open>EditTask\<close>

record edit_task =
  et_title :: string
  et_newSubtask :: string

definition editTask_init :: "task \<Rightarrow> edit_task" where
  "editTask_init t = \<lparr>et_title = title t, et_newSubtask = []\<rparr>"

definition et_setTitle :: "string \<Rightarrow> edit_task \<Rightarrow> edit_task" where
  "et_setTitle v s = s\<lparr>et_title := v\<rparr>"

definition et_setNewSubtask :: "string \<Rightarrow> edit_task \<Rightarrow> edit_task" where
  "et_setNewSubtask v s = s\<lparr>et_newSubtask := v\<rparr>"

definition et_handleSave :: "string list \<Rightarrow> storage \<Rightarrow> task \<Rightarrow> edit_task \<Rightarrow> js_error + page_req" where
  "et_handleSave ex st t s =
     updateTask ex st (show_int (task_id t)) (full_patch (t\<lparr>title := et_title s\<rparr>))"

text \<open>Whether the continuation calls \<open>onRefresh()\<close>.\<close>

definition et_handleSave_done :: "payload response \<Rightarrow> bool" where
  "et_handleSave_done r = helper_settled r"

definition et_handleAddSubtask ::
  "string list \<Rightarrow> storage \<Rightarrow> task \<Rightarrow> edit_task \<Rightarrow> js_error + page_req option" where
  "et_handleAddSubtask ex st t s =
     (if js_trim (et_newSubtask s) = [] then Inr None
      else map_sum id Some (addSubtask ex st (show_int (task_id t)) (et_newSubtask s)))"

definition et_handleAddSubtask_done :: "payload response \<Rightarrow> edit_task \<Rightarrow> edit_task \<times> bool" where
  "et_handleAddSubtask_done r s =
     (if helper_settled r then (s\<lparr>et_newSubtask := []\<rparr>, True) else (s, False))"

subsection \<open>DeleteTask\<close>

record delete_page =
  dp_task :: "task option"

definition deletePage_init :: delete_page where
  "deletePage_init = \<lparr>dp_task = None\<rparr>"

definition task_of :: "payload response \<Rightarrow> task option" where
  "task_of r =
     (case r of Response c (Some (PTask t)) \<Rightarrow> if resp_ok c then Some t else None | _ \<Rightarrow> None)"

definition dp_load :: "string list \<Rightarrow> storage \<Rightarrow> string \<Rightarrow> js_error + page_req" where
  "dp_load ex st ids = getTask ex st ids"

definition dp_load_done :: "payload response \<Rightarrow> delete_page \<Rightarrow> delete_page" where
  "dp_load_done r p = (case task_of r of Some t \<Rightarrow> p\<lparr>dp_task := Some t\<rparr> | None \<Rightarrow> p)"

definition dp_handleDelete :: "string list \<Rightarrow> storage \<Rightarrow> string \<Rightarrow> js_error + page_req" where
  "dp_handleDelete ex st ids = deleteTask ex st ids"

text \<open>Where the window goes after the delete's answer, if anywhere.\<close>

definition dp_handleDelete_done :: "payload response \<Rightarrow> string option" where
  "dp_handleDelete_done r = (if helper_settled r then Some ''/tasks'' else None)"

datatype delete_view = DPLoading | DPConfirm string

definition delete_view :: "delete_page \<Rightarrow> delete_view" where
  "delete_view p = (case dp_task p of None \<Rightarrow> DPLoading | Some t \<Rightarrow> DPConfirm (title t))"

subsection \<open>TaskCard\<close>

fun next_status :: "status \<Rightarrow> status" where
  "next_status TODO = IN_PROGRESS"
| "next_status IN_PROGRESS = DONE"
| "next_status DONE = TODO"

definition card_toggleStatus :: "string list \<Rightarrow> storage \<Rightarrow> task \<Rightarrow> js_error + page_req" where
  "card_toggleStatus ex st t =
     updateTask ex st (show_int (task_id t)) (full_patch (t\<lparr>status := next_status (status t)\<rparr>))"

definition card_delete :: "string list \<Rightarrow> storage \<Rightarrow> task \<Rightarrow> js_error + page_req" where
  "card_delete ex st t = deleteTask ex st (show_int (task_id t))"

definition card_class :: "task \<Rightarrow> string" where
  "card_class t = ''task-card '' @ map js_lower (status_str (status t))"

section \<open>Lemmas\<close>

lemma next_status_cycle: "next_status (next_status (next_status s)) = s"
  by (cases s) simp_all

lemma next_status_visits_all: "{s, next_status s, next_status (next_status s)} = UNIV"
  by (cases s) (auto intro: status.exhaust)

lemma next_status_moves: "next_status s \<noteq> s"
  by (cases s) simp_all

lemma et_blank_subtask_sends_nothing:
  "js_trim (et_newSubtask s) = [] \<Longrightarrow> et_handleAddSubtask ex st t s = Inr None"
  by (simp add: et_handleAddSubtask_def)

text \<open>
  With the intended helpers, cycling a card's status sends the whole card with only the
  status advanced; on a server holding the same task this changes nothing but the status.
\<close>

lemma card_toggle_server:
  assumes "wf_server srv" "t \<in> set (srv_tasks srv)"
  shows "fst (server_handle (fst (projr (card_toggleStatus intended_exports st t))) srv) =
         srv\<lparr>srv_tasks := update_task (task_id t) (\<lambda>x. x\<lparr>status := next_status (status t)\<rparr>) (srv_tasks srv)\<rparr>"
proof -
  have dist: "distinct (map task_id (srv_tasks srv))" using assms(1) by (simp add: wf_server_def)
  have f: "find_task (task_id t) (srv_tasks srv) = Some t" using find_task_unique [OF dist assms(2)] .
  have "update_task (task_id t) (apply_patch (full_patch (t\<lparr>status := next_status (status t)\<rparr>))) (srv_tasks srv)
        = update_task (task_id t) (\<lambda>x. x\<lparr>status := next_status (status t)\<rparr>) (srv_tasks srv)"
    by (rule update_task_cong_unique [OF dist assms(2)]) (simp add: apply_full_patch)
  with f show ?thesis by (simp add: card_toggleStatus_def)
qed

end
