(* ===== verification/Theme.thy ===== *)
theory Theme
  imports Prelude
begin

text \<open>
  The dark-mode state. \<open>App.jsx\<close> keeps \<open>darkMode\<close>, stored under the key
  \<open>darkMode\<close> as the string \<open>String(darkMode)\<close> and shown as the body class
  \<open>dark-mode\<close>; \<open>Navbar\<close>'s button toggles it. Three components that no routed page
  renders keep a second, independent theme under the key \<open>theme\<close> and the \<open>dark\<close>
  class of the \<open>html\<close> element: \<open>context/ThemeContext.jsx\<close> (\<open>ThemeProvider\<close>,
  read by \<open>ThemeToggle\<close>), \<open>components/ThemeButton.jsx\<close> and
  \<open>components/TopHeader.jsx\<close>. The browser state they share is \<open>dom\<close>.
\<close>

record dom =
  dom_storage :: storage
  html_dark :: bool
  body_dark_mode :: bool

subsection \<open>App\<close>

definition app_darkMode_init :: "storage \<Rightarrow> bool" where
  "app_darkMode_init st \<longleftrightarrow> st ''darkMode'' = Some ''true''"

definition js_bool_str :: "bool \<Rightarrow> string" where
  "js_bool_str b = (if b then ''true'' else ''false'')"

definition app_darkMode_effect :: "bool \<Rightarrow> dom \<Rightarrow> dom" where
  "app_darkMode_effect d w =
     w\<lparr>dom_storage := (dom_storage w)(''darkMode'' \<mapsto> js_bool_str d), body_dark_mode := d\<rparr>"

definition toggleDarkMode :: "bool \<Rightarrow> bool" where
  "toggleDarkMode d = (\<not> d)"

definition app_class :: "bool \<Rightarrow> string" where
  "app_class d = ''app '' @ (if d then ''dark'' else ''light'')"

subsection \<open>ThemeProvider\<close>

definition apply_theme :: "string \<Rightarrow> dom \<Rightarrow> dom" where
  "apply_theme th w =
     w\<lparr>html_dark := (th = ''dark''), dom_storage := (dom_storage w)(''theme'' \<mapsto> th)\<rparr>"

text \<open>
  Mounting runs both effects in order with the initial \<open>"light"\<close>: the first reads the
  stored theme and, if it is truthy, schedules it; the second stores \<open>"light"\<close>; the
  re-render with the stored theme runs the second effect again.
\<close>

definition theme_mount :: "dom \<Rightarrow> string \<times> dom" where
  "theme_mount w =
     (let saved = dom_storage w ''theme''; w1 = apply_theme ''light'' w in
      case saved of
        Some th \<Rightarrow> if th \<noteq> [] \<and> th \<noteq> ''light'' then (th, apply_theme th w1) else (''light'', w1)
      | None \<Rightarrow> (''light'', w1))"

definition toggleTheme :: "string \<Rightarrow> string" where
  "toggleTheme th = (if th = ''light'' then ''dark'' else ''light'')"

definition themeToggle_label :: "string \<Rightarrow> string" where
  "themeToggle_label th = (if th = ''dark'' then ''Light Mode'' else ''Dark Mode'')"

subsection \<open>ThemeButton\<close>

definition themeButton_init :: "storage \<Rightarrow> string" where
  "themeButton_init st = js_or (st ''theme'') ''light''"

definition themeButton_effect :: "string \<Rightarrow> dom \<Rightarrow> dom" where
  "themeButton_effect th w =
     (if th = ''dark'' then w\<lparr>html_dark := True, dom_storage := (dom_storage w)(''theme'' \<mapsto> ''dark'')\<rparr>
      else w\<lparr>html_dark := False, dom_storage := (dom_storage w)(''theme'' \<mapsto> ''light'')\<rparr>)"

definition themeButton_click :: "string \<Rightarrow> string" where
  "themeButton_click th = (if th = ''dark'' then ''light'' else ''dark'')"

subsection \<open>TopHeader\<close>

record top_header =
  th_dark :: bool
  th_open :: bool

definition topHeader_init :: "storage \<Rightarrow> top_header" where
  "topHeader_init st = \<lparr>th_dark = (st ''theme'' = Some ''dark''), th_open = False\<rparr>"

definition topHeader_toggleTheme :: "top_header \<Rightarrow> dom \<Rightarrow> top_header \<times> dom" where
  "topHeader_toggleTheme h w =
     (let newMode = (if th_dark h then ''light'' else ''dark'') in
      (h\<lparr>th_dark := \<not> th_dark h\<rparr>,
       w\<lparr>html_dark := \<not> th_dark h, dom_storage := (dom_storage w)(''theme'' \<mapsto> newMode)\<rparr>))"

definition topHeader_setOpen :: "bool \<Rightarrow> top_header \<Rightarrow> top_header" where
  "topHeader_setOpen b h = h\<lparr>th_open := b\<rparr>"

section \<open>Lemmas\<close>

text \<open>The dark mode survives a reload: the stored string reads back as the same mode.\<close>

lemma app_darkMode_reload: "app_darkMode_init (dom_storage (app_darkMode_effect d w)) = d"
  by (simp add: app_darkMode_init_def app_darkMode_effect_def js_bool_str_def)

lemma theme_reload:
  "th \<in> {''light'', ''dark''} \<Longrightarrow> fst (theme_mount (apply_theme th w)) = th"
  by (auto simp: theme_mount_def apply_theme_def Let_def)

lemma theme_mount_consistent:
  "html_dark (snd (theme_mount w)) \<longleftrightarrow> fst (theme_mount w) = ''dark''"
  "dom_storage (snd (theme_mount w)) ''theme'' = Some (fst (theme_mount w))"
  by (simp_all add: theme_mount_def apply_theme_def Let_def split: option.split)

lemma toggleTheme_involutive:
  "th \<in> {''light'', ''dark''} \<Longrightarrow> toggleTheme (toggleTheme th) = th"
  by (auto simp: toggleTheme_def)

text \<open>
  The header's toggle keeps its flag, the \<open>html\<close> class and the stored key in step,
  and another component mounted afterwards reads the same mode from storage.
\<close>

lemma topHeader_toggle_consistent:
  assumes "topHeader_toggleTheme h w = (h', w')"
  shows "html_dark w' = th_dark h' \<and> th_dark (topHeader_init (dom_storage w')) = th_dark h' \<and>
         (themeButton_init (dom_storage w') = ''dark'') = th_dark h'"
  using assms by (auto simp: topHeader_toggleTheme_def topHeader_init_def themeButton_init_def Let_def)

end
