(* ===== verification/Nav.thy ===== *)
theory Nav
  imports Helpers
begin

text \<open>
  Navigation. \<open>src/src/App.jsx\<close> declares the routes (\<open>app_routes\<close>); a path matches a
  pattern segment by segment, a \<open>:param\<close> segment matching any non-empty segment.
  \<open>components/Navbar.jsx\<close> (rendered by \<open>App\<close>) and \<open>components/Sidebar.jsx\<close> (in the
  unused \<open>Layout\<close>) link to fixed paths and highlight the current one; the pages link
  to \<open>/task/{id}\<close>, \<open>/edit/{id}\<close>, \<open>/delete/{id}\<close> and \<open>/tasks/edit/{id}\<close>.
\<close>

datatype route_kind = Public | Protected | RedirectTo string

definition app_routes :: "(string \<times> route_kind) list" where
  "app_routes =
     [(''/login'', Public), (''/register'', Public), (''/'', RedirectTo ''/tasks''),
      (''/tasks'', Protected), (''/analytics'', Protected), (''/create-task'', Protected),
      (''/task/:id'', Protected)]"

fun path_segments :: "string \<Rightarrow> string list" where
  "path_segments [] = []"
| "path_segments (c # cs) =
     (if c = CHR ''/'' then [] # path_segments cs
      else (case path_segments cs of [] \<Rightarrow> [[c]] | w # ws \<Rightarrow> (c # w) # ws))"

fun seg_match :: "string \<Rightarrow> string \<Rightarrow> bool" where
  "seg_match [] s = (s = [])"
| "seg_match (p # ps) s = (if p = CHR '':'' then s \<noteq> [] else p # ps = s)"

definition route_matches :: "string \<Rightarrow> string \<Rightarrow> bool" where
  "route_matches pat path \<longleftrightarrow>
     length (path_segments pat) = length (path_segments path) \<and>
     list_all2 seg_match (path_segments pat) (path_segments path)"

definition routed :: "string \<Rightarrow> route_kind option" where
  "routed path = map_option snd (find (\<lambda>r. route_matches (fst r) path) app_routes)"

definition navbar_links :: "string list" where
  "navbar_links = [''/tasks'', ''/tasks'', ''/analytics'', ''/create-task'']"

definition isActive :: "string \<Rightarrow> string \<Rightarrow> bool" where
  "isActive pathname p \<longleftrightarrow> pathname = p"

definition sidebar_links :: "string list" where
  "sidebar_links = [''/tasks'', ''/create'', ''/board'', ''/dashboard'']"

section \<open>Lemmas\<close>

lemma navbar_links_routed: "\<forall>p \<in> set navbar_links. routed p = Some Protected"
  by code_simp

lemma sidebar_links_unrouted:
  "routed ''/create'' = None" "routed ''/board'' = None" "routed ''/dashboard'' = None"
  by code_simp+

lemma table_links_unrouted:
  "routed ''/edit/1'' = None" "routed ''/delete/1'' = None" "routed ''/tasks/edit/1'' = None"
  by code_simp+

lemma path_segments_plain: "CHR ''/'' \<notin> set s \<Longrightarrow> s \<noteq> [] \<Longrightarrow> path_segments s = [s]"
proof (induction s)
  case (Cons c cs)
  then show ?case by (cases "cs = []") auto
qed simp

lemma show_int_plain: "CHR ''/'' \<notin> set (show_int i) \<and> show_int i \<noteq> []"
  using show_nat_digits [of "CHR ''/''"] show_nat_Cons [of "nat \<bar>i\<bar>"]
  by (auto simp: show_int_def is_digit_def)

text \<open>Every task's detail link, \<open>/task/${task.id}\<close>, reaches the protected detail route.\<close>

lemma detail_link_routed: "routed (''/task/'' @ show_int i) = Some Protected"
proof -
  have "path_segments (''/task/'' @ show_int i) = [[], ''task'', show_int i]"
    using path_segments_plain [of "show_int i"] show_int_plain [of i] by simp
  then show ?thesis
    using show_int_plain [of i] by (simp add: routed_def app_routes_def route_matches_def)
qed

end
