(* ===== verification/CreateTaskView.thy ===== *)
theory CreateTaskView
  imports Tables
begin

text \<open>
  The render of \<open>src/src/pages/CreateTask.jsx\<close>. The inputs carry \<open>maxLength\<close>
  attributes (100 for the title, 500 for the description), so the value a change event
  delivers is cut to that length (\<open>typed\<close>); the date input's \<open>min\<close> is today's
  date in UTC (\<open>toISOString().split('T')[0]\<close>). \<open>create_view\<close> is what the form shows:
  the field errors that are truthy, the character counts, the preview card (whose date
  is \<open>toLocaleDateString()\<close>, here the \<open>en-US\<close> numeric form) and the submit button.
  \<open>form_reach\<close> is every form state typing and submitting can produce.
\<close>

definition field_maxLength :: "form_field \<Rightarrow> nat option" where
  "field_maxLength f = (case f of Title \<Rightarrow> Some 100 | Description \<Rightarrow> Some 500 | _ \<Rightarrow> None)"

fun typed :: "field_input \<Rightarrow> field_input" where
  "typed (InTitle v) = InTitle (take 100 v)"
| "typed (InDescription v) = InDescription (take 500 v)"
| "typed inp = inp"

definition min_date :: "clock \<Rightarrow> string" where
  "min_date ck = iso_date (now_ms ck div ms_per_day)"

definition numeric_date :: "clock \<Rightarrow> int \<Rightarrow> string" where
  "numeric_date ck t =
     (case civil_from_days (local_day_of ck t) of
        (y, m, dd) \<Rightarrow> show_int m @ ''/'' @ show_int dd @ ''/'' @ show_int y)"

definition field_error :: "form_state \<Rightarrow> form_field \<Rightarrow> string option" where
  "field_error s f = (if js_truthy (errors s f) then errors s f else None)"

record create_view =
  cv_title_error :: "string option"
  cv_title_count :: string
  cv_description_error :: "string option"
  cv_description_count :: string
  cv_due_error :: "string option"
  cv_due_min :: string
  cv_preview_title :: string
  cv_preview_badges :: "string \<times> string"
  cv_preview_description :: string
  cv_preview_due :: string
  cv_submit_label :: string
  cv_buttons_disabled :: bool

definition create_view :: "clock \<Rightarrow> form_state \<Rightarrow> create_view" where
  "create_view ck s =
     (let f = formData s in
      \<lparr>cv_title_error = field_error s Title,
       cv_title_count = show_nat (length (form_title f)) @ ''/100'',
       cv_description_error = field_error s Description,
       cv_description_count = show_nat (length (form_description f)) @ ''/500'',
       cv_due_error = field_error s DueDate,
       cv_due_min = min_date ck,
       cv_preview_title = (if form_title f = [] then ''Task Title'' else form_title f),
       cv_preview_badges = (priority_str (form_priority f), status_label (form_status f)),
       cv_preview_description =
         (if form_description f = [] then ''No description provided'' else form_description f),
       cv_preview_due = (case form_dueDate f of None \<Rightarrow> ''No due date''
                         | Some d \<Rightarrow> numeric_date ck (date_ms d)),
       cv_submit_label = (if loading_form s then ''Creating...'' else ''Create Task''),
       cv_buttons_disabled = loading_form s\<rparr>)"

inductive form_reach :: "form_state \<Rightarrow> bool" where
  init: "form_reach initial_form"
| type: "form_reach s \<Longrightarrow> form_reach (handleChange (typed inp) s)"
| submit: "form_reach s \<Longrightarrow> form_reach (fst (handleSubmit ck st base s))"
| answer: "form_reach s \<Longrightarrow> form_reach (fst (handleSubmit_done r s))"

section \<open>Lemmas\<close>

lemma form_reach_lengths:
  "form_reach s \<Longrightarrow> length (form_title (formData s)) \<le> 100 \<and> length (form_description (formData s)) \<le> 500"
proof (induction rule: form_reach.induct)
  case (type s inp)
  then show ?case by (cases inp) (simp_all add: handleChange_def)
qed (simp_all add: initial_form_def handleSubmit_def handleSubmit_done_def Let_def)

text \<open>
  The description check can never fire on a form filled in through its inputs: the
  browser stops the description at 500 characters, which the check accepts.
\<close>

lemma description_error_unreachable:
  "form_reach s \<Longrightarrow> validateForm ck (formData s) Description = None"
  using form_reach_lengths [of s] by (simp add: validateForm_Description)

text \<open>
  The date picker's lower bound is the UTC date: east of UTC, early in the local day, it
  still offers yesterday, which the check then rejects (Tokyo at 05:00 local time).
\<close>

lemma min_date_behind_local_day:
  "min_date \<lparr>now_ms = 1715284800000, tz_min = 540\<rparr> = ''2024-05-09'' \<and>
   local_day \<lparr>now_ms = 1715284800000, tz_min = 540\<rparr> = 19853 \<and> iso_date 19853 = ''2024-05-10''"
proof -
  have "min_date \<lparr>now_ms = 1715284800000, tz_min = 540\<rparr> = iso_date 19852"
    by (simp add: min_date_def ms_per_day_def)
  moreover have "iso_date 19852 = ''2024-05-09''" "iso_date 19853 = ''2024-05-10''" by code_simp+
  moreover have "local_day \<lparr>now_ms = 1715284800000, tz_min = 540\<rparr> = 19853"
    by (simp add: local_day_def ms_per_day_def)
  ultimately show ?thesis by simp
qed

lemma create_view_submit:
  "cv_buttons_disabled (create_view ck s) \<longleftrightarrow> loading_form s"
  "cv_submit_label (create_view ck s) = (if loading_form s then ''Creating...'' else ''Create Task'')"
  by (simp_all add: create_view_def Let_def)

end
