(* ===== verification/DetailsView.thy ===== *)
theory DetailsView
  imports DetailsTimer CreateTaskView
begin

text \<open>
  The body of \<open>src/src/pages/TaskDetails.jsx\<close> once a task is loaded, and the edit
  mode's state changes. The edit form edits \<open>editedTask\<close>, the copy taken at the
  last fetch; \<open>Cancel\<close> only leaves the edit mode. The subtask and comment sections
  are rendered in both modes, so their handlers (and the refetch after them) can run
  while the user is editing.
\<close>

definition toggleEditing :: "details \<Rightarrow> details" where
  "toggleEditing d = d\<lparr>isEditing := \<not> isEditing d\<rparr>"

datatype edit_input =
    EditTitle string | EditDescription string | EditDueDate "day option" | EditPriority priority

fun edit_field :: "edit_input \<Rightarrow> task \<Rightarrow> task" where
  "edit_field (EditTitle v) t = t\<lparr>title := v\<rparr>"
| "edit_field (EditDescription v) t = t\<lparr>description := v\<rparr>"
| "edit_field (EditDueDate v) t = t\<lparr>dueDate := v\<rparr>"
| "edit_field (EditPriority v) t = t\<lparr>priority := v\<rparr>"

definition setEditedTask :: "edit_input \<Rightarrow> details \<Rightarrow> details" where
  "setEditedTask inp d = d\<lparr>editedTask := map_option (edit_field inp) (editedTask d)\<rparr>"

definition setNewSubtask :: "string \<Rightarrow> details \<Rightarrow> details" where
  "setNewSubtask v d = d\<lparr>newSubtask := v\<rparr>"

definition setNewComment :: "string \<Rightarrow> details \<Rightarrow> details" where
  "setNewComment v d = d\<lparr>newComment := v\<rparr>"

datatype main_info =
    EditForm task
  | ShowInfo string string string string status

record details_body =
  db_edit_button :: string
  db_main :: main_info
  db_timer :: string
  db_timer_button :: string
  db_subtask_header :: string
  db_subtasks :: "(string \<times> bool) list"
  db_no_subtasks :: bool
  db_comments :: "(string \<times> string) list"
  db_no_comments :: bool

definition details_body :: "clock \<Rightarrow> details \<Rightarrow> task \<Rightarrow> details_body" where
  "details_body ck d t =
     \<lparr>db_edit_button = (if isEditing d then ''Cancel'' else ''Edit''),
      db_main = (if isEditing d then EditForm (case editedTask d of Some e \<Rightarrow> e | None \<Rightarrow> t)
                 else ShowInfo (title t)
                        (if description t = [] then ''No description provided'' else description t)
                        (details_formatDate ck (dueDate t)) (priority_str (priority t)) (status t)),
      db_timer = formatTime (timeSpent d),
      db_timer_button = (if timerRunning d then ''Pause'' else ''Start''),
      db_subtask_header = ''Subtasks ('' @ show_nat (count_if completed (subtasks t)) @ ''/'' @
                          show_nat (length (subtasks t)) @ '')'',
      db_subtasks = map (\<lambda>st. (subtask_title st, completed st)) (subtasks t),
      db_no_subtasks = (subtasks t = []),
      db_comments = map (\<lambda>c. (comment_text c, numeric_date ck (createdAt c))) (comments t),
      db_no_comments = (comments t = [])\<rparr>"

section \<open>Lemmas\<close>

text \<open>
  C34. Toggling a subtask while the edit form is open throws away the unsaved edits:
  the refetch after the toggle replaces \<open>editedTask\<close> by the server's task, whatever
  had been typed, and the page stays in edit mode showing it.
\<close>

theorem toggle_while_editing_discards_edits:
  assumes "find_task tid (srv_tasks srv) = Some t" "sid \<in> set (map subtask_id (subtasks t))"
    and "isEditing d"
  shows "case run_action st tid srv (toggleSubtask st tid sid c d) toggleSubtask_done of
           (srv', d', a) \<Rightarrow> isEditing d' \<and>
             editedTask d' = Some (set_completed sid (\<not> c) t) \<and>
             find_task tid (srv_tasks srv') = Some (set_completed sid (\<not> c) t)"
  using assms
  by (simp add: run_action_def toggleSubtask_def toggleSubtask_done_def fetchTaskDetails_def
      fetchTaskDetails_done_def page_settle_def find_task_update_same)

theorem toggle_while_editing_discards_edits_witness:
  "find_task 1 (srv_tasks \<lparr>srv_tasks = [\<lparr>task_id = 1, title = ''Report'', description = [], status = TODO,
      priority = LOW, dueDate = None, subtasks = [\<lparr>subtask_id = 7, subtask_title = ''draft'', completed = False\<rparr>],
      comments = []\<rparr>], srv_next = 2, srv_clock = 0\<rparr>) =
     Some \<lparr>task_id = 1, title = ''Report'', description = [], status = TODO,
      priority = LOW, dueDate = None, subtasks = [\<lparr>subtask_id = 7, subtask_title = ''draft'', completed = False\<rparr>],
      comments = []\<rparr> \<and>
   (7::int) \<in> set (map subtask_id (subtasks \<lparr>task_id = 1, title = ''Report'', description = [], status = TODO,
      priority = LOW, dueDate = None, subtasks = [\<lparr>subtask_id = 7, subtask_title = ''draft'', completed = False\<rparr>],
      comments = []\<rparr>)) \<and>
   isEditing (details_init\<lparr>isEditing := True\<rparr>) \<and>
   (case run_action Map.empty 1 \<lparr>srv_tasks = [\<lparr>task_id = 1, title = ''Report'', description = [], status = TODO,
      priority = LOW, dueDate = None, subtasks = [\<lparr>subtask_id = 7, subtask_title = ''draft'', completed = False\<rparr>],
      comments = []\<rparr>], srv_next = 2, srv_clock = 0\<rparr>
      (toggleSubtask Map.empty 1 7 False (details_init\<lparr>isEditing := True\<rparr>)) toggleSubtask_done of
    (srv', d', a) \<Rightarrow> isEditing d' \<and>
      editedTask d' = Some (set_completed 7 (\<not> False) \<lparr>task_id = 1, title = ''Report'', description = [], status = TODO,
      priority = LOW, dueDate = None, subtasks = [\<lparr>subtask_id = 7, subtask_title = ''draft'', completed = False\<rparr>],
      comments = []\<rparr>) \<and>
      find_task 1 (srv_tasks srv') = Some (set_completed 7 (\<not> False) \<lparr>task_id = 1, title = ''Report'', description = [], status = TODO,
      priority = LOW, dueDate = None, subtasks = [\<lparr>subtask_id = 7, subtask_title = ''draft'', completed = False\<rparr>],
      comments = []\<rparr>))"
proof -
  have h: "find_task 1 (srv_tasks \<lparr>srv_tasks = [\<lparr>task_id = 1, title = ''Report'', description = [], status = TODO,
      priority = LOW, dueDate = None, subtasks = [\<lparr>subtask_id = 7, subtask_title = ''draft'', completed = False\<rparr>],
      comments = []\<rparr>], srv_next = 2, srv_clock = 0\<rparr>) =
     Some \<lparr>task_id = 1, title = ''Report'', description = [], status = TODO,
      priority = LOW, dueDate = None, subtasks = [\<lparr>subtask_id = 7, subtask_title = ''draft'', completed = False\<rparr>],
      comments = []\<rparr>"
    "(7::int) \<in> set (map subtask_id (subtasks \<lparr>task_id = 1, title = ''Report'', description = [], status = TODO,
      priority = LOW, dueDate = None, subtasks = [\<lparr>subtask_id = 7, subtask_title = ''draft'', completed = False\<rparr>],
      comments = []\<rparr>))"
    "isEditing (details_init\<lparr>isEditing := True\<rparr>)"
    by (simp_all add: find_task_def)
  show ?thesis by (intro conjI h toggle_while_editing_discards_edits [OF h])
qed

end
