(* ===== verification/KanbanView.thy ===== *)
theory KanbanView
  imports Kanban Tables
begin

text \<open>
  What the kanban board and its modal draw (\<open>src/src/pages/KanbanBoard.jsx\<close>,
  \<open>src/src/components/TaskModal.jsx\<close>): per column its title and count, and per card
  the title, the first 80 characters of the description followed by \<open>...\<close>, the
  progress bar when the task has subtasks, the priority and the raw due date; the modal
  shows the task the board handed it, with its subtask checkboxes and status buttons.
\<close>

record kanban_card =
  kc_title :: string
  kc_description :: "string option"
  kc_progress :: "nat option"
  kc_priority :: string
  kc_due :: string
  kc_draggable :: string

definition kanban_card :: "task \<Rightarrow> kanban_card" where
  "kanban_card t =
     \<lparr>kc_title = title t,
      kc_description = (if description t = [] then None else Some (take 80 (description t) @ ''...'')),
      kc_progress = (if subtasks t = [] then None else Some (calcProgress (subtasks t))),
      kc_priority = priority_str (priority t),
      kc_due = (case dueDate t of None \<Rightarrow> ''No date'' | Some d \<Rightarrow> iso_date d),
      kc_draggable = card_draggableId t\<rparr>"

definition kanban_view :: "kanban \<Rightarrow> (string \<times> nat \<times> kanban_card list) list" where
  "kanban_view k =
     map (\<lambda>(s, ttl). (ttl, length (kb_column k s), map kanban_card (kb_column k s))) kanban_columns"

record modal_view =
  mv_title :: string
  mv_description :: "string option"
  mv_priority :: string
  mv_due :: string
  mv_subtasks :: "(string \<times> bool) list"
  mv_status_buttons :: "status list"

definition modal_view :: "kanban \<Rightarrow> modal_view option" where
  "modal_view k =
     (case kb_selected k of
        None \<Rightarrow> None
      | Some a \<Rightarrow>
          (let t = kb_heap k ! a in
           Some \<lparr>mv_title = title t,
                 mv_description = (if description t = [] then None else Some (description t)),
                 mv_priority = ''Priority: '' @ priority_str (priority t),
                 mv_due = ''Due: '' @ (case dueDate t of None \<Rightarrow> ''No date'' | Some d \<Rightarrow> iso_date d),
                 mv_subtasks = map (\<lambda>st. (subtask_title st, completed st)) (subtasks t),
                 mv_status_buttons = [TODO, IN_PROGRESS, DONE]\<rparr>))"

text \<open>The whole page: the three columns, and the modal while a card is selected.\<close>

definition kanban_page :: "kanban \<Rightarrow> (string \<times> nat \<times> kanban_card list) list \<times> modal_view option" where
  "kanban_page k = (kanban_view k, modal_view k)"

section \<open>Lemmas\<close>

text \<open>The card's progress is at most 100%, and reads 100% from 99.5% of done subtasks on.\<close>

lemma calcProgress_bounds:
  assumes "sts \<noteq> []"
  shows "calcProgress sts \<le> 100 \<and>
         (calcProgress sts = 100 \<longleftrightarrow> 199 * length sts \<le> 200 * count_if completed sts)"
proof -
  have pos: "0 < length sts" using assms by simp
  have le: "js_round_div (count_if completed sts * 100) (length sts) \<le> 100"
    using js_round_div_le [OF pos, of "count_if completed sts * 100" 100] count_if_le_length [of completed sts]
    by simp
  have "100 \<le> js_round_div (count_if completed sts * 100) (length sts) \<longleftrightarrow>
        199 * length sts \<le> 200 * count_if completed sts"
    using js_round_div_ge_iff [OF pos] by simp
  with le assms show ?thesis by (simp add: calcProgress_def)
qed

text \<open>
  The board's column counts add up to the number of loaded tasks: every task is in
  exactly one column.
\<close>

lemma status_filters_sum:
  "length (filter (\<lambda>t. status t = TODO) ts) + length (filter (\<lambda>t. status t = IN_PROGRESS) ts) +
   length (filter (\<lambda>t. status t = DONE) ts) = length ts"
  by (induction ts) (auto intro: status.exhaust)

lemma kanban_counts_sum:
  "sum_list (map (\<lambda>(ttl, n, cs). n) (kanban_view k)) = length (kb_list k)"
  using status_filters_sum [of "kb_list k"] by (simp add: kanban_view_def kanban_columns_def kb_column_def)

text \<open>After a failed modal toggle the modal itself shows the toggled subtask.\<close>

lemma modal_shows_failed_toggle:
  assumes "kb_selected k = Some a" "a < length (kb_heap k)" "j < length (subtasks (kb_heap k ! a))"
  shows "snd (modal_toggleSubtask api_exports st a j k) = Inl (not_a_function ''updateTask'') \<and>
         map_option mv_subtasks (modal_view (fst (modal_toggleSubtask api_exports st a j k))) =
           Some (map (\<lambda>st. (subtask_title st, completed st)) (subtasks (toggle_at j (kb_heap k ! a))))"
  using assms
  by (simp add: modal_toggleSubtask_def modal_view_def updateTask_def Let_def)

end
