(* ===== verification/AnalyticsView.thy ===== *)
theory AnalyticsView
  imports Analytics
begin

text \<open>
  The statistics part of \<open>src/src/pages/Analytics.jsx\<close> once data is loaded: the four
  stat cards, the data handed to the pie and bar charts, the pie's slice labels (recharts
  passes each slice's share of the sum of the values, rendered with \<open>toFixed(0)\<close>),
  the "no data" message, and the completion progress bar.
\<close>

definition stat_cards :: "analytics \<Rightarrow> (string \<times> string \<times> string option) list" where
  "stat_cards a =
     [(''Total Tasks'', show_nat (totalTasks a), None),
      (''To Do'', show_nat (toDo a), None),
      (''In Progress'', show_nat (inProgress a), Some (rate_str (inProgressRate a) @ ''%'')),
      (''Completed'', show_nat (done_count a), Some (rate_str (completionRate a) @ ''%''))]"

definition status_chart :: "analytics \<Rightarrow> (string \<times> nat) list" where
  "status_chart a = [(''To Do'', toDo a), (''In Progress'', inProgress a), (''Done'', done_count a)]"

definition pie_label :: "string \<Rightarrow> nat \<Rightarrow> nat \<Rightarrow> string" where
  "pie_label name v tot = name @ '' '' @ show_nat (js_round_div (100 * v) tot) @ ''%''"

definition pie_labels :: "analytics \<Rightarrow> string list" where
  "pie_labels a =
     (let xs = status_chart a; tot = sum_list (map snd xs) in
      map (\<lambda>(n, v). pie_label n v tot) xs)"

definition charts_or_no_data :: "analytics \<Rightarrow> (string \<times> nat) list option" where
  "charts_or_no_data a = (if 0 < totalTasks a then Some (status_chart a) else None)"

definition progress_section :: "analytics \<Rightarrow> (string \<times> string) option" where
  "progress_section a =
     (if 0 < totalTasks a then
        Some (rate_str (completionRate a) @ ''%'',
              show_nat (done_count a) @ '' out of '' @ show_nat (totalTasks a) @ '' tasks completed'')
      else None)"

section \<open>Lemmas\<close>

text \<open>Each slice label is at most 100%.\<close>

lemma pie_share_le:
  assumes "v \<le> tot" "0 < tot"
  shows "js_round_div (100 * v) tot \<le> 100"
  using js_round_div_le [OF assms(2), of "100 * v" 100] assms(1) by simp

text \<open>The rounded slice labels need not add up to 100%: three equal slices show 33% each.\<close>

lemma pie_labels_thirds:
  "pie_labels \<lparr>totalTasks = 3, toDo = 1, inProgress = 1, done_count = 1\<rparr> =
     [''To Do 33%'', ''In Progress 33%'', ''Done 33%'']"
  by (simp add: pie_labels_def status_chart_def pie_label_def js_round_div_def show_nat.simps)

text \<open>On the server's counts the slices cover all tasks.\<close>

lemma status_chart_total:
  "sum_list (map snd (status_chart (server_analytics ts))) = totalTasks (server_analytics ts)"
  using count_status_sum [of ts] by (simp add: status_chart_def server_analytics_def)

end
