(* ===== verification/TasksView.thy ===== *)
theory TasksView
  imports Tasks Nav
begin

text \<open>
  The rest of the render of \<open>src/src/pages/Tasks.jsx\<close>: the badge classes, chosen by
  looking the status or priority string up in a table with a fallback class; the card's
  overdue class; and the two buttons that open the create form.
\<close>

definition getStatusBadgeClass :: "string \<Rightarrow> string" where
  "getStatusBadgeClass s =
     (case map_of [(''TODO'', ''status-badge status-todo''),
                   (''IN_PROGRESS'', ''status-badge status-progress''),
                   (''DONE'', ''status-badge status-done'')] s of
        Some c \<Rightarrow> c | None \<Rightarrow> ''status-badge'')"

definition getPriorityBadgeClass :: "string \<Rightarrow> string" where
  "getPriorityBadgeClass p =
     (case map_of [(''HIGH'', ''priority-badge priority-high''),
                   (''MEDIUM'', ''priority-badge priority-medium''),
                   (''LOW'', ''priority-badge priority-low'')] p of
        Some c \<Rightarrow> c | None \<Rightarrow> ''priority-badge'')"

definition card_css :: "clock \<Rightarrow> task \<Rightarrow> string" where
  "card_css ck t = ''task-card '' @ (if isOverdue ck (dueDate t) (status t) then ''overdue'' else [])"

definition create_task_target :: string where
  "create_task_target = ''/create-task''"

section \<open>Lemmas\<close>

text \<open>
  Every status and priority a task can have hits its table entry: the fallback classes
  are only reached by strings outside the enumerations.
\<close>

lemma badge_classes_total:
  "getStatusBadgeClass (status_str s) \<noteq> ''status-badge''"
  "getPriorityBadgeClass (priority_str p) \<noteq> ''priority-badge''"
  by (cases s; simp add: getStatusBadgeClass_def)
     (cases p; simp add: getPriorityBadgeClass_def)

lemma create_task_target_routed: "routed create_task_target = Some Protected"
  by (simp add: create_task_target_def) code_simp

end
