(* ===== verification/TablesView.thy ===== *)
theory TablesView
  imports Tables
begin

text \<open>
  The controls and render of \<open>src/src/pages/TasksTable.jsx\<close> and
  \<open>src/src/pages/Dashboard.jsx\<close>. The two selects deliver option values as strings,
  which the page keeps and compares with the task's status (\<open>"ALL"\<close> disables the
  filter) or uses to choose the comparator; \<open>parse_filter\<close> and \<open>parse_sort\<close> read
  them into the model's \<open>tt_filter\<close> and \<open>tt_sortBy\<close>. The dashboard loads through
  \<open>getTasks\<close> without a \<open>catch\<close> and draws the status and priority counts.
\<close>

definition filter_options :: "(string \<times> string) list" where
  "filter_options = [(''ALL'', ''All''), (''TODO'', ''To Do''), (''IN_PROGRESS'', ''In Progress''),
                     (''DONE'', ''Done'')]"

definition sort_options :: "(string \<times> string) list" where
  "sort_options = [(''dueDate'', ''Sort by Due Date''), (''priority'', ''Sort by Priority'')]"

definition parse_filter :: "string \<Rightarrow> status option" where
  "parse_filter v = find (\<lambda>s. status_str s = v) [TODO, IN_PROGRESS, DONE]"

definition parse_sort :: "string \<Rightarrow> sort_by" where
  "parse_sort v = (if v = ''priority'' then ByPriority else ByDueDate)"

definition priority_color :: "priority \<Rightarrow> string" where
  "priority_color p = (case p of
     HIGH \<Rightarrow> ''bg-red-100 text-red-700 border border-red-300''
   | MEDIUM \<Rightarrow> ''bg-yellow-100 text-yellow-700 border border-yellow-300''
   | LOW \<Rightarrow> ''bg-green-100 text-green-700 border border-green-300'')"

definition status_color :: "status \<Rightarrow> string" where
  "status_color s = (case s of
     TODO \<Rightarrow> ''bg-gray-200 text-gray-700''
   | IN_PROGRESS \<Rightarrow> ''bg-blue-200 text-blue-700''
   | DONE \<Rightarrow> ''bg-green-200 text-green-700'')"

datatype table_view = TNoTasks | TRows "table_row list" | TOrderUnspecified

definition table_view :: "clock \<Rightarrow> tasks_table \<Rightarrow> table_view" where
  "table_view ck s =
     (case table_rows s of
        None \<Rightarrow> TOrderUnspecified
      | Some rows \<Rightarrow> if rows = [] then TNoTasks else TRows (map (table_row ck) rows))"

record dashboard =
  dash_tasks :: "task list"

definition dash_load :: "string list \<Rightarrow> storage \<Rightarrow> js_error + page_req" where
  "dash_load ex st = getTasks ex st"

definition dash_load_done :: "payload response \<Rightarrow> dashboard \<Rightarrow> dashboard" where
  "dash_load_done r d = (case tasks_of r of Some ts \<Rightarrow> d\<lparr>dash_tasks := ts\<rparr> | None \<Rightarrow> d)"

definition dashboard_view ::
  "dashboard \<Rightarrow> (string \<times> (string \<times> nat) list) \<times> (string \<times> (string \<times> nat) list)" where
  "dashboard_view d =
     ((''Tasks by Status'', statusData (dash_tasks d)), (''Tasks by Priority'', priorityData (dash_tasks d)))"

section \<open>Lemmas\<close>

text \<open>Each option of the status select filters for the status it names.\<close>

lemma parse_filter_options:
  "map (parse_filter \<circ> fst) filter_options = [None, Some TODO, Some IN_PROGRESS, Some DONE]"
  by code_simp

lemma parse_filter_status [simp]: "parse_filter (status_str s) = Some s"
  by (cases s) (simp_all add: parse_filter_def)

lemma parse_sort_options: "map (parse_sort \<circ> fst) sort_options = [ByDueDate, ByPriority]"
  by (simp add: sort_options_def parse_sort_def)

text \<open>
  The dashboard's status counts and its priority counts each add up to the number of
  loaded tasks.
\<close>

lemma dashboard_counts_sum:
  "sum_list (map snd (statusData ts)) = length ts \<and> sum_list (map snd (priorityData ts)) = length ts"
proof -
  have "count_if (\<lambda>t. status t = TODO) ts + (count_if (\<lambda>t. status t = IN_PROGRESS) ts +
        count_if (\<lambda>t. status t = DONE) ts) = length ts"
    by (induction ts) (auto intro: status.exhaust)
  moreover have "count_if (\<lambda>t. priority t = HIGH) ts + (count_if (\<lambda>t. priority t = MEDIUM) ts +
        count_if (\<lambda>t. priority t = LOW) ts) = length ts"
    by (induction ts) (auto intro: priority.exhaust)
  ultimately show ?thesis by (simp add: statusData_def priorityData_def)
qed

text \<open>With the repository's \<open>api.js\<close> the dashboard never loads and shows only zeros.\<close>

lemma dashboard_never_loads:
  "dash_load api_exports st = Inl (not_a_function ''getTasks'') \<and>
   map snd (statusData (dash_tasks \<lparr>dash_tasks = []\<rparr>)) = [0, 0, 0]"
  by (simp add: dash_load_def getTasks_def statusData_def)

end
