(* ===== verification/Chrome.thy ===== *)
theory Chrome
  imports Nav Theme Session
begin

text \<open>
  The frame around the pages. \<open>components/Navbar.jsx\<close>, rendered by \<open>App\<close> above the
  routes, shows the brand link, the three links with the active one marked, the
  dark-mode button of \<open>App\<close>, the user's name (\<open>user?.username\<close>) and the logout
  button, which is the session's \<open>logout\<close>. The unused \<open>components/Layout.jsx\<close>
  places \<open>Sidebar\<close> and \<open>TopHeader\<close> around its children; \<open>TopHeader\<close> opens a
  profile modal with fixed text, and \<open>components/ProfilePanel.jsx\<close> shows fixed text and
  a "Log Out" button without a handler. \<open>pages/Home.jsx\<close> wraps the task list.
\<close>

definition user_name :: "string option option \<Rightarrow> string" where
  "user_name u = (case u of Some (Some n) \<Rightarrow> n | _ \<Rightarrow> [])"

record navbar_view =
  nv_links :: "(string \<times> bool) list"
  nv_theme_icon :: string
  nv_user :: string

definition navbar_view :: "string \<Rightarrow> bool \<Rightarrow> session \<Rightarrow> navbar_view" where
  "navbar_view pathname darkMode s =
     \<lparr>nv_links = [(''/tasks'', isActive pathname ''/tasks''), (''/analytics'', isActive pathname ''/analytics''),
                  (''/create-task'', False)],
      nv_theme_icon = (if darkMode then ''sun'' else ''moon''),
      nv_user = user_name (user s)\<rparr>"

text \<open>The navbar's two buttons: the theme toggle of \<open>App\<close> and the session's \<open>logout\<close>.\<close>

datatype navbar_button = NavToggleDark | NavLogout

fun navbar_click :: "navbar_button \<Rightarrow> bool \<times> session \<Rightarrow> bool \<times> session" where
  "navbar_click NavToggleDark (d, s) = (toggleDarkMode d, s)"
| "navbar_click NavLogout (d, s) = (d, logout s)"

definition linkStyle_active :: "string \<Rightarrow> string \<Rightarrow> bool" where
  "linkStyle_active pathname p \<longleftrightarrow> pathname = p"

definition sidebar_view :: "string \<Rightarrow> (string \<times> bool) list" where
  "sidebar_view pathname = map (\<lambda>p. (p, linkStyle_active pathname p)) sidebar_links"

definition profile_fields :: "(string \<times> string) list" where
  "profile_fields = [(''Name'', ''Farahnoz''), (''Email'', ''user@example.com''), (''Role'', ''Student / Developer'')]"

record top_header_view =
  thv_theme_label :: string
  thv_profile :: "(string \<times> string) list option"

definition top_header_view :: "top_header \<Rightarrow> top_header_view" where
  "top_header_view h =
     \<lparr>thv_theme_label = (if th_dark h then ''Light'' else ''Dark''),
      thv_profile = (if th_open h then Some profile_fields else None)\<rparr>"

text \<open>The profile panel's "Log Out" button has no \<open>onClick\<close>: clicking it changes nothing.\<close>

definition profilePanel_logout :: "session \<Rightarrow> session" where
  "profilePanel_logout s = s"

definition profilePanel_fields :: "(string \<times> string) list" where
  "profilePanel_fields = [(''Username'', ''Farahnoz''), (''Email'', ''farahnoz@example.com'')]"

definition layout_view :: "string \<Rightarrow> top_header \<Rightarrow> 'c \<Rightarrow> ((string \<times> bool) list \<times> top_header_view \<times> 'c)" where
  "layout_view pathname h children = (sidebar_view pathname, top_header_view h, children)"

definition home_view :: "'v \<Rightarrow> string \<times> string \<times> 'v" where
  "home_view tasks = (''My Tasks'', ''Manage your tasks efficiently'', tasks)"

section \<open>Lemmas\<close>

text \<open>On every routed page at most one navbar link is marked active.\<close>

lemma navbar_one_active:
  "length (filter snd (nv_links (navbar_view pathname d s))) \<le> 1"
  by (simp add: navbar_view_def isActive_def)

text \<open>
  The navbar's name follows the session: it is the stored user's name after a successful
  login, and empty after logout.
\<close>

lemma navbar_user_after_logout:
  "navbar_click NavLogout (d, s) = (d', s') \<Longrightarrow> nv_user (navbar_view p d' s') = [] \<and> token s' = None"
  by (auto simp: navbar_view_def user_name_def)

text \<open>The theme button flips the icon and leaves the session alone.\<close>

lemma navbar_toggle_icon:
  "navbar_click NavToggleDark (d, s) = (d', s') \<Longrightarrow>
   s' = s \<and> nv_theme_icon (navbar_view p d' s') \<noteq> nv_theme_icon (navbar_view p d s)"
  by (auto simp: navbar_view_def toggleDarkMode_def)

text \<open>
  The profile views show fixed text whoever is signed in, and the panel's logout leaves
  the session signed in.
\<close>

lemma profile_ignores_session:
  "token (profilePanel_logout s) = token s \<and> storage (profilePanel_logout s) = storage s \<and>
   thv_profile (top_header_view (topHeader_setOpen True h)) = Some profile_fields"
  by (simp add: profilePanel_logout_def top_header_view_def topHeader_setOpen_def)

end
