(* ===== verification/UI.thy ===== *)
theory UI
  imports Prelude "HOL-Library.Sublist"
begin

text \<open>
  The class names of the primitives under \<open>components/ui/\<close>, which no page imports.
  \<open>Badge\<close> looks its \<open>variant\<close> up in a two-entry table and falls back to the
  \<open>primary\<close> style when the lookup is falsy (an absent or unknown variant);
  \<open>Button\<close>, \<open>Card\<close>, \<open>Select\<close> and \<open>Textarea\<close> append the caller's \<open>className\<close>
  (default \<open>""\<close>) to fixed classes. The whitespace of the template literals is kept as
  single spaces. Inherited property names of the style object (\<open>toString\<close>, ...) are
  not modelled: a variant is an own key or absent.
\<close>

definition badge_styles :: "(string \<times> string) list" where
  "badge_styles =
     [(''primary'', ''bg-brand text-white''),
      (''secondary'', ''bg-gray-200 text-gray-800 dark:bg-gray-700 dark:text-gray-200'')]"

definition badge_class :: "string option \<Rightarrow> string" where
  "badge_class variant =
     ''px-3 py-1 rounded-full text-sm font-medium '' @
     (case Option.bind variant (map_of badge_styles) of
        Some c \<Rightarrow> (if c = [] then the (map_of badge_styles ''primary'') else c)
      | None \<Rightarrow> the (map_of badge_styles ''primary''))"

definition with_class :: "string \<Rightarrow> string option \<Rightarrow> string" where
  "with_class base className = base @ '' '' @ (case className of Some c \<Rightarrow> c | None \<Rightarrow> [])"

definition button_class :: "string option \<Rightarrow> string" where
  "button_class =
     with_class ''px-4 py-2 rounded-xl font-semibold bg-purple-500 text-white transition-all duration-200 hover:opacity-90 active:scale-95''"

definition card_ui_class :: "string option \<Rightarrow> string" where
  "card_ui_class =
     with_class ''rounded-xl bg-white dark:bg-gray-800 border border-gray-200 dark:border-gray-700''"

definition field_ui_base :: string where
  "field_ui_base =
     ''border rounded-xl px-4 py-2 w-full transition-all duration-200 focus:ring-2 focus:ring-purple-400 dark:focus:ring-purple-300 focus:border-transparent''"

definition select_class :: "string option \<Rightarrow> string" where
  "select_class = with_class field_ui_base"

definition textarea_class :: "string option \<Rightarrow> string" where
  "textarea_class = with_class field_ui_base"

section \<open>Lemmas\<close>

text \<open>
  A badge always gets one of the two styles: the variant's own when it names one, the
  primary one otherwise.
\<close>

lemma badge_class_cases:
  "badge_class v =
     ''px-3 py-1 rounded-full text-sm font-medium '' @
     (if v = Some ''secondary'' then ''bg-gray-200 text-gray-800 dark:bg-gray-700 dark:text-gray-200''
      else ''bg-brand text-white'')"
  by (cases v) (auto simp: badge_class_def badge_styles_def)

text \<open>The caller's class comes last, so it overrides the defaults in CSS order.\<close>

lemma with_class_suffix: "suffix c (with_class base (Some c)) \<and> prefix base (with_class base v)"
  by (cases v) (auto simp: with_class_def suffix_def prefix_def)

end
