(* ===== verification/Delivery.thy ===== *)
theory Delivery
  imports Session
begin

text \<open>
  The settling of the requests in flight (\<open>context/AuthContext.jsx\<close> and
  \<open>services/api.js\<close>, as composed by \<open>Session.client_step\<close>). Every answer
  removes its request, and the only answer that starts anything new is a 401 to an
  \<open>api.js\<close> request, whose reload finds no stored token and so issues no validation.
  Hence delivering answers, in any order the network chooses, terminates;
  \<open>drain\<close> is that process for a scheduler \<open>pick\<close> that names, in each state, the
  request answered next and its answer. When it ends nothing is in flight and the
  start-up spinner (\<open>loading\<close>) is gone.
\<close>

function drain :: "(client \<Rightarrow> nat \<times> auth_response) \<Rightarrow> client \<Rightarrow> client" where
  "drain pick c =
     (if pending c = [] then c
      else (case pick c of (i, r) \<Rightarrow> drain pick (client_step c (Deliver (i mod length (pending c)) r))))"
  by pat_completeness auto

text \<open>A sequence of answers the network can give: each answers a request then in flight.\<close>

fun answers :: "client \<Rightarrow> event list \<Rightarrow> bool" where
  "answers c [] = True"
| "answers c (Deliver i r # es) = (i < length (pending c) \<and> answers (client_step c (Deliver i r)) es)"
| "answers c (_ # es) = False"

section \<open>Lemmas\<close>

lemma in_remove_nth:
  assumes "x \<in> set xs" "i < length xs" "xs ! i \<noteq> x"
  shows "x \<in> set (remove_nth i xs)"
proof -
  have "xs = take i xs @ xs ! i # drop (Suc i) xs"
    using assms(2) by (simp add: id_take_nth_drop)
  then have "x \<in> set (take i xs) \<or> x \<in> set (drop (Suc i) xs)"
    using assms(1,3) by (metis Un_iff set_ConsD set_append)
  then show ?thesis by (auto simp: remove_nth_def)
qed

lemma length_remove_nth [simp]: "i < length xs \<Longrightarrow> length (remove_nth i xs) = length xs - 1"
  by (simp add: remove_nth_def)

text \<open>What a delivery leaves in flight: nothing after a 401 to an \<open>api.js\<close> request, the other requests otherwise.\<close>

lemma pending_after_deliver:
  assumes "i < length (pending c)"
  shows "pending (client_step c (Deliver i r)) =
           (if is_api_req (pending c ! i) \<and> is_unauthorized r then [] else remove_nth i (pending c))"
  using assms
  by (cases "pending c ! i") (simp_all add: is_api_req_def page_load_pending)

lemma deliver_length_less:
  "i < length (pending c) \<Longrightarrow> length (pending (client_step c (Deliver i r))) < length (pending c)"
  by (auto simp: pending_after_deliver simp del: client_step.simps)

termination drain
  by (relation "measure (\<lambda>(pick, c). length (pending c))") (auto simp del: client_step.simps intro!: deliver_length_less)

declare drain.simps [simp del]

text \<open>While the spinner shows, the validation request is in flight.\<close>

lemma reachable_loading_validating:
  assumes "reachable c" "loading (ses c)"
  shows "\<exists>t. ValidateReq t \<in> set (pending c)"
  using assms
proof (induction arbitrary: rule: reachable.induct)
  case (load st loc)
  then show ?case by (simp add: page_load_ses page_load_pending)
next
  case (step c e)
  then show ?case
  proof (cases e)
    case (Deliver i r)
    show ?thesis
    proof (cases "i < length (pending c)")
      case True
      then show ?thesis
        using step Deliver
        by (cases "pending c ! i")
           (force simp: page_load_ses page_load_pending login_done_def register_done_def
                 credential_done_fields(1) validateToken_done_fields(1) intro: in_remove_nth)+
    qed (use step Deliver in simp)
  qed auto
qed

lemma reachable_drain: "reachable c \<Longrightarrow> reachable (drain pick c)"
proof (induction pick c rule: drain.induct)
  case (1 pick c)
  show ?case
  proof (cases "pending c = []")
    case False
    obtain i r where p: "pick c = (i, r)" by fastforce
    have "reachable (client_step c (Deliver (i mod length (pending c)) r))"
      using 1(2) by (rule reachable.step)
    then show ?thesis
      using 1(1) [OF False p [symmetric]] False p by (simp add: drain.simps del: client_step.simps)
  qed (use 1 in \<open>simp add: drain.simps\<close>)
qed

lemma drain_empty: "pending (drain pick c) = []"
  by (induction pick c rule: drain.induct) (subst drain.simps, auto simp del: client_step.simps split: prod.split)

lemma drain_loading: "reachable c \<Longrightarrow> \<not> loading (ses (drain pick c))"
  using reachable_loading_validating [OF reachable_drain [of c pick]] drain_empty [of pick c] by auto

text \<open>
  C12. Handling the answers terminates: no sequence of answers is longer than the number
  of requests in flight, because no answer puts a new request in flight (the reload after
  a 401 finds the token removed and validates nothing).
\<close>

theorem answers_bounded: "answers c es \<Longrightarrow> length es \<le> length (pending c)"
proof (induction c es rule: answers.induct)
  case (2 c i r es)
  then show ?case
    using deliver_length_less [of i c r] by (simp del: client_step.simps)
qed simp_all

theorem answers_bounded_witness:
  "answers (client_step (page_load ((\<lambda>_. None)(''token'' \<mapsto> ''t'')) ''/tasks'') (IssueApi ''/tasks''))
           [Deliver 0 NetworkError, Deliver 0 (Response 401 None)] \<and>
   length [Deliver 0 NetworkError, Deliver 0 (Response 401 (None :: auth_body option))] \<le>
     length (pending (client_step (page_load ((\<lambda>_. None)(''token'' \<mapsto> ''t'')) ''/tasks'') (IssueApi ''/tasks'')))"
proof -
  have h: "answers (client_step (page_load ((\<lambda>_. None)(''token'' \<mapsto> ''t'')) ''/tasks'') (IssueApi ''/tasks''))
             [Deliver 0 NetworkError, Deliver 0 (Response 401 None)]"
    by (simp add: page_load_pending page_load_ses remove_nth_def)
  show ?thesis using h answers_bounded [OF h] by blast
qed

text \<open>
  C17. The start-up spinner ends: from every reachable window, delivering the requests in
  flight, whatever the answers and in whatever order, leaves nothing in flight and the
  session out of the \<open>Initializing\<close> phase.
\<close>

theorem drain_settles:
  "reachable c \<Longrightarrow> pending (drain pick c) = [] \<and> phase (ses (drain pick c)) \<noteq> Initializing"
  using drain_empty [of pick c] drain_loading [of c pick] by (simp add: phase_def)

theorem drain_settles_witness:
  "reachable (page_load ((\<lambda>_. None)(''token'' \<mapsto> ''t'')) ''/tasks'') \<and>
   pending (drain (\<lambda>_. (0, NetworkError)) (page_load ((\<lambda>_. None)(''token'' \<mapsto> ''t'')) ''/tasks'')) = [] \<and>
   phase (ses (drain (\<lambda>_. (0, NetworkError)) (page_load ((\<lambda>_. None)(''token'' \<mapsto> ''t'')) ''/tasks''))) \<noteq> Initializing"
  using drain_settles [OF reachable.load] reachable.load by blast

end
