(* ===== verification/KanbanWf.thy ===== *)
theory KanbanWf
  imports Kanban
begin

text \<open>
  The kanban page as a whole (\<open>pages/KanbanBoard.jsx\<close> with \<open>components/TaskModal.jsx\<close>):
  the events a user and the network cause, and the reachable page states from
  \<open>kanban_init\<close> against a server. Its typing invariant \<open>kb_wf\<close> says that every object
  reference the page holds, the \<open>tasks\<close> array's entries and \<open>selectedTask\<close>, is an
  allocated object of the heap, so that reading a card or the modal's task never
  reads \<open>undefined\<close>; it is what lets the properties read the modal's object.
\<close>

datatype kb_event =
    KLoaded "payload response"
  | KSelect nat
  | KClose
  | KDrop drop_result
  | KToggle nat
  | KChangeStatus status

text \<open>
  \<open>KSelect j\<close> clicks the card of the \<open>j\<close>-th task of \<open>tasks\<close>; the modal's two buttons act
  on \<open>selectedTask\<close> and exist only while it is set (\<open>{selectedTask && <TaskModal/>}\<close>);
  \<open>changeStatus\<close> sends \<open>{ ...task, status }\<close> and then calls \<open>reload\<close>, the page's \<open>load\<close>.
\<close>

fun kb_event_step :: "string list \<Rightarrow> storage \<Rightarrow> server \<times> kanban \<Rightarrow> kb_event \<Rightarrow> server \<times> kanban" where
  "kb_event_step ex st (srv, k) (KLoaded r) = (srv, kb_load_done r k)"
| "kb_event_step ex st (srv, k) (KSelect j) =
     (srv, if j < length (kb_tasks k) then selectTask (kb_tasks k ! j) k else k)"
| "kb_event_step ex st (srv, k) KClose = (srv, closeModal k)"
| "kb_event_step ex st (srv, k) (KDrop res) = kanban_drop ex st srv res k"
| "kb_event_step ex st (srv, k) (KToggle i) =
     (case kb_selected k of None \<Rightarrow> (srv, k) | Some a \<Rightarrow> modal_toggle_run ex st srv a i k)"
| "kb_event_step ex st (srv, k) (KChangeStatus s) =
     (case kb_selected k of
        None \<Rightarrow> (srv, k)
      | Some a \<Rightarrow> write_then_reload ex st srv k (map_sum id Some (modal_changeStatus ex st a s k)))"

inductive kb_reachable :: "string list \<Rightarrow> storage \<Rightarrow> server \<times> kanban \<Rightarrow> bool" where
  init: "kb_reachable ex st (srv, kanban_init)"
| step: "kb_reachable ex st sk \<Longrightarrow> kb_reachable ex st (kb_event_step ex st sk e)"

definition kb_wf :: "kanban \<Rightarrow> bool" where
  "kb_wf k \<longleftrightarrow>
     list_all (\<lambda>a. a < length (kb_heap k)) (kb_tasks k) \<and>
     pred_option (\<lambda>a. a < length (kb_heap k)) (kb_selected k)"

section \<open>Lemmas\<close>

lemma kb_load_done_wf: "kb_wf k \<Longrightarrow> kb_wf (kb_load_done r k)"
  by (auto simp: kb_wf_def kb_load_done_def list_all_iff option.pred_set split: option.split)

lemma kb_reload_wf: "kb_wf k \<Longrightarrow> kb_wf (snd (kb_reload ex st srv k))"
  by (auto simp: kb_reload_def kb_load_done_wf split: sum.split prod.split)

lemma write_then_reload_wf:
  "kb_wf k \<Longrightarrow> kb_wf (snd (write_then_reload ex st srv k w))"
  by (auto simp: write_then_reload_def kb_reload_wf split: sum.split option.split prod.split)

lemma kb_wf_heap_update [simp]:
  "kb_wf (k\<lparr>kb_heap := (kb_heap k)[a := t]\<rparr>) \<longleftrightarrow> kb_wf k"
  by (simp add: kb_wf_def)

lemma modal_toggle_run_wf: "kb_wf k \<Longrightarrow> kb_wf (snd (modal_toggle_run ex st srv a i k))"
  by (auto simp: modal_toggle_run_def modal_toggleSubtask_def Let_def write_then_reload_wf
           split: prod.split)

lemma select_close_wf:
  "kb_wf k \<Longrightarrow> a \<in> set (kb_tasks k) \<Longrightarrow> kb_wf (selectTask a k)"
  "kb_wf k \<Longrightarrow> kb_wf (closeModal k)"
  by (auto simp: kb_wf_def selectTask_def closeModal_def list_all_iff)

lemma kb_event_step_wf:
  assumes "kb_wf k"
  shows "kb_wf (snd (kb_event_step ex st (srv, k) e))"
  using assms
  by (cases e) (auto simp: kb_load_done_wf kanban_drop_def write_then_reload_wf modal_toggle_run_wf
                           select_close_wf split: option.split)

lemma kb_reachable_wf: "kb_reachable ex st sk \<Longrightarrow> kb_wf (snd sk)"
proof (induction rule: kb_reachable.induct)
  case (init ex st srv)
  then show ?case by (simp add: kb_wf_def kanban_init_def)
next
  case (step ex st sk e)
  then show ?case
    using kb_event_step_wf [of "snd sk" ex st "fst sk" e] by simp
qed

lemma write_then_reload_objects:
  "kb_selected (snd (write_then_reload ex st srv k w)) = kb_selected k \<and>
   (a < length (kb_heap k) \<longrightarrow> kb_heap (snd (write_then_reload ex st srv k w)) ! a = kb_heap k ! a)"
  by (auto simp: write_then_reload_def kb_reload_def kb_load_done_def nth_append
           split: sum.split option.split prod.split)

text \<open>
  C23. With the helpers the page imports as the specification describes them
  (\<open>intended_exports\<close>), the open modal keeps working on the object it was opened with:
  \<open>load()\<close> after a status change replaces the board's task objects but not
  \<open>selectedTask\<close>. In every reachable page state whose modal shows the server's current
  task, changing its status in the modal and then toggling one of its subtasks in the
  same modal first saves the new status and then sends the stale object, which puts
  the old status back on the server.
\<close>

theorem modal_stale_copy_reverts_status:
  assumes "kb_reachable intended_exports st (srv, k)" "kb_selected k = Some a" "kb_heap k ! a = t"
    and "find_task (task_id t) (srv_tasks srv) = Some t" "j < length (subtasks t)"
  shows "case kb_event_step intended_exports st (srv, k) (KChangeStatus s) of
     (srv1, k1) \<Rightarrow> find_task (task_id t) (srv_tasks srv1) = Some (t\<lparr>status := s\<rparr>) \<and>
       (case kb_event_step intended_exports st (srv1, k1) (KToggle j) of
          (srv2, k2) \<Rightarrow> find_task (task_id t) (srv_tasks srv2) = Some (toggle_at j t) \<and>
                        status (toggle_at j t) = status t)"
proof -
  have a: "a < length (kb_heap k)"
    using kb_reachable_wf [OF assms(1)] assms(2) by (simp add: kb_wf_def)
  let ?w = "map_sum id Some (modal_changeStatus intended_exports st a s k)"
  let ?srv1 = "srv\<lparr>srv_tasks := update_task (task_id t) (apply_patch (full_patch (t\<lparr>status := s\<rparr>))) (srv_tasks srv)\<rparr>"
  have w: "?w = Inr (Some (PutTask (task_id t) (full_patch (t\<lparr>status := s\<rparr>)), api_headers st))"
    using assms(3) by (simp add: modal_changeStatus_def)
  have step1: "kb_event_step intended_exports st (srv, k) (KChangeStatus s) =
      (?srv1, snd (write_then_reload intended_exports st srv k ?w))"
    using assms(2,4) w by (simp add: write_then_reload_def prod_eq_iff kb_reload_intended)
  have f1: "find_task (task_id t) (srv_tasks ?srv1) = Some (t\<lparr>status := s\<rparr>)"
    using assms(4) by (simp add: find_task_update_same apply_full_patch)
  let ?k1 = "snd (write_then_reload intended_exports st srv k ?w)"
  have k1: "kb_selected ?k1 = Some a" "kb_heap ?k1 ! a = t"
    using write_then_reload_objects [of intended_exports st srv k ?w a] assms(2,3) a by simp_all
  have step2: "fst (kb_event_step intended_exports st (?srv1, ?k1) (KToggle j)) =
      ?srv1\<lparr>srv_tasks := update_task (task_id t) (apply_patch (full_patch (toggle_at j t))) (srv_tasks ?srv1)\<rparr>"
    using modal_toggle_run_put [OF f1 k1(2) assms(5)] k1(1) by simp
  let ?ts1 = "update_task (task_id t) (apply_patch (full_patch (t\<lparr>status := s\<rparr>))) (srv_tasks srv)"
  have f2: "find_task (task_id t) (update_task (task_id t) (apply_patch (full_patch (toggle_at j t))) ?ts1) =
      Some (toggle_at j t)"
  proof -
    have "find_task (task_id t) (update_task (task_id t) (apply_patch (full_patch (toggle_at j t))) ?ts1) =
        map_option (apply_patch (full_patch (toggle_at j t))) (find_task (task_id t) ?ts1)"
      by (rule find_task_update_same) simp
    also have "\<dots> = Some (apply_patch (full_patch (toggle_at j t)) (t\<lparr>status := s\<rparr>))"
      using f1 by simp
    also have "\<dots> = Some (toggle_at j t)" by (simp add: apply_full_patch toggle_at_def)
    finally show ?thesis .
  qed
  obtain srv2 k2 where e2: "kb_event_step intended_exports st (?srv1, ?k1) (KToggle j) = (srv2, k2)"
    by fastforce
  have "srv2 = ?srv1\<lparr>srv_tasks := update_task (task_id t) (apply_patch (full_patch (toggle_at j t))) ?ts1\<rparr>"
    using step2 e2 by simp
  then show ?thesis
    using step1 f1 e2 f2 by (simp add: toggle_at_def del: kb_event_step.simps)
qed

theorem modal_stale_copy_reverts_status_witness:
  "kb_reachable intended_exports Map.empty
     (\<lparr>srv_tasks = [\<lparr>task_id = 1, title = ''Ship'', description = [], status = TODO, priority = LOW,
        dueDate = None, subtasks = [\<lparr>subtask_id = 3, subtask_title = ''s'', completed = False\<rparr>],
        comments = []\<rparr>], srv_next = 2, srv_clock = 0\<rparr>,
      \<lparr>kb_heap = [\<lparr>task_id = 1, title = ''Ship'', description = [], status = TODO, priority = LOW,
        dueDate = None, subtasks = [\<lparr>subtask_id = 3, subtask_title = ''s'', completed = False\<rparr>],
        comments = []\<rparr>], kb_tasks = [0], kb_selected = Some 0\<rparr>) \<and>
   (case kb_event_step intended_exports Map.empty
      (\<lparr>srv_tasks = [\<lparr>task_id = 1, title = ''Ship'', description = [], status = TODO, priority = LOW,
        dueDate = None, subtasks = [\<lparr>subtask_id = 3, subtask_title = ''s'', completed = False\<rparr>],
        comments = []\<rparr>], srv_next = 2, srv_clock = 0\<rparr>,
       \<lparr>kb_heap = [\<lparr>task_id = 1, title = ''Ship'', description = [], status = TODO, priority = LOW,
        dueDate = None, subtasks = [\<lparr>subtask_id = 3, subtask_title = ''s'', completed = False\<rparr>],
        comments = []\<rparr>], kb_tasks = [0], kb_selected = Some 0\<rparr>) (KChangeStatus DONE) of
     (srv1, k1) \<Rightarrow>
       (case kb_event_step intended_exports Map.empty (srv1, k1) (KToggle 0) of
          (srv2, k2) \<Rightarrow> status (the (find_task 1 (srv_tasks srv1))) = DONE \<and>
                        status (the (find_task 1 (srv_tasks srv2))) = TODO))"
proof -
  let ?t = "\<lparr>task_id = 1, title = ''Ship'', description = [], status = TODO, priority = LOW,
        dueDate = None, subtasks = [\<lparr>subtask_id = 3, subtask_title = ''s'', completed = False\<rparr>],
        comments = []\<rparr>"
  let ?srv = "\<lparr>srv_tasks = [?t], srv_next = 2, srv_clock = 0\<rparr>"
  let ?k = "\<lparr>kb_heap = [?t], kb_tasks = [0], kb_selected = Some 0\<rparr>"
  have r: "kb_reachable intended_exports Map.empty (?srv, ?k)"
  proof -
    have "kb_reachable intended_exports Map.empty
        (kb_event_step intended_exports Map.empty
          (kb_event_step intended_exports Map.empty (?srv, kanban_init) (KLoaded (Response 200 (Some (PTasks [?t])))))
          (KSelect 0))"
      by (intro kb_reachable.step kb_reachable.init)
    moreover have "kb_event_step intended_exports Map.empty
          (kb_event_step intended_exports Map.empty (?srv, kanban_init) (KLoaded (Response 200 (Some (PTasks [?t])))))
          (KSelect 0) = (?srv, ?k)"
      by (simp add: kb_load_done_def kanban_init_def selectTask_def)
    ultimately show ?thesis by simp
  qed
  have h: "kb_selected ?k = Some 0" "kb_heap ?k ! 0 = ?t" "find_task (task_id ?t) (srv_tasks ?srv) = Some ?t"
    "0 < length (subtasks ?t)"
    by (simp_all add: find_task_def)
  show ?thesis
    using r modal_stale_copy_reverts_status [OF r h, where s = DONE]
    by (simp add: find_task_def toggle_at_def split: prod.splits)
qed

end
