(* ===== verification/Spec2Isabelle.thy ===== *)
theory Spec2Isabelle
  imports Session CreateTask TaskDetails Analytics Tasks Kanban Board Tables DetailsTimer TaskPages
    Theme Nav CreateTaskView DetailsView KanbanView AnalyticsView TasksView TablesView Chrome UI Delivery KanbanWf
begin

text \<open>
  \<^bold>\<open>A verification library for the smart-task-manager web client.\<close>

  The repository (\<open>src/src\<close>) is a React client of a remote task API. Its state logic
  is small and spread over components that talk to each other through the browser:
  \<^item> the session manager, \<open>context/AuthContext.jsx\<close>, holds \<open>user\<close>, \<open>token\<close> and
    \<open>loading\<close>, mirrors the token and username into \<open>localStorage\<close>, validates a
    stored token on start-up and offers \<open>login\<close>, \<open>register\<close> and \<open>logout\<close>;
  \<^item> the HTTP wrapper, \<open>services/api.js\<close>, attaches the bearer token and turns a 401
    into a forced logout by removing the stored token and reloading at \<open>/login\<close>;
  \<^item> the pages (\<open>pages/*.jsx\<close>, \<open>components/*.jsx\<close>) read the stored token, call
    \<open>fetch\<close> themselves, and keep their own copies of the task data.
  The components share no memory but \<open>localStorage\<close>; they interact through it, through
  navigation, and through the order in which responses to concurrent requests arrive.

  \<^bold>\<open>Layout.\<close>
  \<^item> \<open>Prelude\<close>: JavaScript coercions (truthiness, \<open>||\<close>, rendering of \<open>null\<close> and
    \<open>undefined\<close>), \<open>Math.round\<close>/\<open>Math.ceil\<close> on exact rationals, \<open>trim\<close>, decimal
    rendering, and the \<open>storage\<close> map.
  \<^item> \<open>Model\<close>: the status and priority enums and the JSON shapes of tasks, subtasks and
    comments; dates as day numbers.
  \<^item> \<open>Api\<close>: \<open>api.js\<close> (\<open>getAuthHeader\<close>, the four methods as a request plus a
    settlement function \<open>api_settle\<close>, the export list) and the pages' own header and
    status handling (\<open>bearer_headers\<close>, \<open>page_settle\<close>).
  \<^item> \<open>Session\<close>: \<open>AuthContext.jsx\<close>. The record \<open>session\<close> is the provider's state plus
    storage and location; \<open>AuthProvider\<close>, \<open>auth_mount\<close>, \<open>validateToken_done\<close>,
    \<open>login_done\<close>/\<open>register_done\<close> (via \<open>credential_done\<close>) and \<open>logout\<close> are the
    source's functions, each asynchronous one taken after its \<open>await\<close>. The window is
    a \<open>client\<close>: the session and the list of requests in flight; \<open>client_step\<close>
    applies one event (a submission, a logout click, an API call, or the arrival of the
    response to the i-th pending request), \<open>page_load\<close> is a (re)load of the page, and
    \<open>reachable\<close> is the inductive set of windows reachable from any stored state.
    \<open>phase\<close> abstracts a session to the specification's Initializing /
    Unauthenticated / Authenticated machine \<open>spec_step\<close>.
  \<^item> \<open>CreateTask\<close>: \<open>pages/CreateTask.jsx\<close>: the form state, \<open>handleChange\<close>,
    \<open>validateForm\<close> against a clock (UTC milliseconds and the local offset), and
    \<open>handleSubmit\<close> split into the request and its continuation.
  \<^item> \<open>Server\<close>: the remote task API, which is not part of the repository, modelled
    from the specification's endpoint table: a store of tasks with a next-id counter,
    and \<open>server_handle\<close> answering one \<open>api_call\<close>. It exists so that a client
    request and the reload after it can be composed; nothing is claimed of a real server.
  \<^item> \<open>TaskDetails\<close>: \<open>pages/TaskDetails.jsx\<close>: the page state (\<open>details\<close>), the
    fetch and the six handlers, each split into the request and its continuation
    (\<open>_done\<close>), the loading/error view, and \<open>run_action\<close>, which runs one handler
    against the server and performs the reload the continuation asks for.
  \<^item> \<open>Analytics\<close>: \<open>pages/Analytics.jsx\<close>: the page state, \<open>fetchAnalytics\<close> and
    its continuation, the two rates (\<open>toFixed(1)\<close> computed on exact rationals by
    \<open>to_fixed1\<close>), the insight cards, the render \<open>analytics_view\<close>, and \<open>an_reach\<close>,
    the page states any order of loads and answers produces.
  \<^item> \<open>Tasks\<close>: \<open>pages/Tasks.jsx\<close>: the list page, \<open>fetchTasks\<close> and its
    continuation, the card (\<open>task_card\<close>: overdue flag, status label, due date rendered
    in the browser's zone through \<open>civil_from_days\<close>, the Gregorian calendar of the
    JavaScript \<open>Date\<close>) and the render.
  \<^item> \<open>Helpers\<close>: the helpers \<open>getTasks\<close>, \<open>getTask\<close>, \<open>updateTask\<close>,
    \<open>deleteTask\<close>, \<open>addSubtask\<close> that the unrouted pages import from \<open>api.js\<close>,
    which does not export them: a call resolves against an export list, and
    \<open>intended_exports\<close> is the module the pages were written against, with the
    helpers' behaviour taken from the specification. Ids in paths are read back by
    the server's \<open>parse_int\<close> (round trip \<open>parse_show_int\<close>).
  \<^item> \<open>Kanban\<close>: \<open>pages/KanbanBoard.jsx\<close> and \<open>components/TaskModal.jsx\<close>, the
    loaded task objects kept on a heap so that the modal's in-place mutation of the
    shared subtask array is visible to the board; \<open>kanban_drop\<close> and
    \<open>modal_toggle_run\<close> run a handler, the server and the reload.
  \<^item> \<open>Board\<close>: \<open>pages/Board.jsx\<close>, whose \<open>moveTask\<close> calls an undefined name.
  \<^item> \<open>Tables\<close>: \<open>pages/TasksTable.jsx\<close> (search, filter, stable sort, due labels,
    progress), \<open>pages/TaskList.jsx\<close> (delete with the captured list) and
    \<open>pages/Dashboard.jsx\<close> (counts).
  \<^item> \<open>DetailsTimer\<close>: \<open>formatTime\<close>, \<open>formatDate\<close> and the timer effect of
    \<open>TaskDetails.jsx\<close>, the latter as a step function \<open>timer_step\<close> over the
    component's state, the live interval ids and the pending cleanup.
  \<^item> \<open>TaskPages\<close>: \<open>pages/EditTask.jsx\<close>, \<open>pages/DeleteTask.jsx\<close>,
    \<open>components/TaskCard.jsx\<close>.
  \<^item> \<open>Theme\<close>: App's \<open>darkMode\<close> and the three holders of the \<open>theme\<close> key
    (\<open>ThemeContext\<close>/\<open>ThemeToggle\<close>, \<open>ThemeButton\<close>, \<open>TopHeader\<close>) over a shared
    browser state \<open>dom\<close>.
  \<^item> \<open>Nav\<close>: the route table of \<open>App.jsx\<close>, path matching, and the links of
    \<open>Navbar\<close> and \<open>Sidebar\<close>.
  \<^item> \<open>CreateTaskView\<close>, \<open>DetailsView\<close>, \<open>KanbanView\<close>: what the create form,
    the loaded detail page (with its edit mode) and the kanban board and modal show;
    \<open>form_reach\<close> is every form state typing and submitting produce.
  \<^item> \<open>AnalyticsView\<close>, \<open>TasksView\<close>, \<open>TablesView\<close>: the stat cards, chart data,
    pie labels and progress section of \<open>Analytics.jsx\<close>; the badge classes, empty state
    and create button of \<open>Tasks.jsx\<close>; the filter and sort selects, colour tables and
    table render of \<open>TasksTable.jsx\<close>, and \<open>Dashboard.jsx\<close> (load and render).
  \<^item> \<open>Chrome\<close>: the frame: \<open>Navbar\<close> (links, theme button, user name, logout) with
    its clicks \<open>navbar_click\<close>, \<open>Sidebar\<close>, \<open>TopHeader\<close>'s render and profile modal,
    \<open>ProfilePanel\<close> (whose "Log Out" has no handler), \<open>Layout\<close> and \<open>Home\<close>.
  \<^item> \<open>UI\<close>: the class names of the \<open>components/ui\<close> primitives.
  \<^item> \<open>Delivery\<close>: the settling of every request in flight of a \<open>Session.client\<close>:
    \<open>answers\<close> (a sequence of answers the network can give) and \<open>drain\<close>, a
    \<open>function\<close> whose termination is the fact that no answer puts a new request in
    flight, for any scheduler choosing which request is answered next and how.
  \<^item> \<open>KanbanWf\<close>: the kanban page as a whole: its events (\<open>kb_event\<close>, one step
    function \<open>kb_event_step\<close> composing the handlers of \<open>Kanban\<close>), the reachable
    page states \<open>kb_reachable\<close>, the heap typing \<open>kb_wf\<close>, and the stale modal object.

  \<^bold>\<open>What is proved.\<close>
  Session (C1--C10): the login contract and its error path; the forced logout on a 401
  through \<open>api.js\<close>; the invariant that React state and storage agree on the token in
  every reachable window (rule induction over \<open>reachable\<close>); that every event refines a
  transition of the specification's phase machine; that only a successful login or
  register signs in; that a logout survives any interleaving of pending API reads; the
  start-up validation; and two interleavings the specification does not cover, stated
  for every client state: a rejected validation answer logs out whatever session is
  current (also a fresh login), and an accepted one sets a user while no token is held.
  Create-task form (C11, C13, C15, C16): exact characterisations of the title and
  due-date checks for every time-zone offset, that an invalid form never reaches the
  network, and the outcome of a submission.
  Settling (C12, C17): handling the answers terminates, with no sequence of answers
  longer than the requests in flight (a termination bound: the reload after a 401 finds
  no token and validates nothing); and, whatever the answers and their order, draining
  the requests in flight from any reachable window ends the start-up spinner (liveness).
  Timer (C14): leaving the detail page while the timer runs leaks the interval for good.
  Kanban as the repository stands (C18): a subtask toggled in the modal is shown toggled
  although \<open>updateTask\<close> is not exported and nothing is saved.
  Task detail page (C19--C22, C24): toggling a subtask, changing the status and adding a
  subtask are each shown after the reload exactly as intended; every failed write alerts
  and leaves the page untouched; and a status change is last write wins on every field,
  so it restores the page's old title over a concurrent rename.
  Kanban with the helpers the specification describes (C23): the open modal keeps the
  object it was opened with, so a toggle after a status change in the same modal puts
  the old status back on the server.
  Analytics page (C25--C29): the specification's 50.0% scenario end to end; the bounds
  of the completion rate and its rounding to 100.0% with an open task; that the
  "Great job" card excludes every other card on the server's counts; that no order of
  loads makes the render read a \<open>null\<close> object; and the error path.
  Task list (C30--C33): last-arrival-wins full refresh over any interleaving of loads;
  the error path; the overdue flag of a task due today (overdue from the zone's offset
  on); the due date shown a day early west of UTC.
  Detail page editing (C34): toggling a subtask while the edit form is open replaces the
  unsaved edits by the server's task.
  Boards and helpers (C35--C37): the specification's move-to-Done property with the
  helpers the specification describes; that as written no move of either board reaches
  the server; and, with those helpers, that the modal's whole-task \<open>PUT\<close> and the detail
  page's subtask endpoint leave the server in the same state.
  Tables and timer display (C38--C40): the priority sort shows exactly the tasks whose
  title contains the search text and whose status passes the filter, as HIGH, LOW,
  MEDIUM groups in loaded order; \<open>formatTime\<close> round-trips; and, with the helpers the
  specification describes, two deletes in flight resurrect the first task.
  Claims that need \<open>getTasks\<close>, \<open>updateTask\<close> or \<open>deleteTask\<close> (C23, C35, C37, C40)
  are stated for \<open>intended_exports\<close>; with the repository's \<open>api.js\<close> those pages send
  nothing (C18, C36).
  Further lemmas, not claims: every server endpoint keeps ids distinct
  (\<open>server_handle_preserves_wf\<close>, the justification of the hypothesis \<open>wf_server\<close>);
  the kanban page's references stay allocated (\<open>kb_reachable_wf\<close>); the timer keeps
  exactly one live interval while running (\<open>timer_one_interval\<close>, by rule induction);
  the dark mode survives a reload (\<open>app_darkMode_reload\<close>, \<open>theme_reload\<close>); the task
  card's status cycle has period three; every detail link is routed while the sidebar's
  and the tables' links are not; the description check cannot fire through the form's
  inputs (\<open>description_error_unreachable\<close>); the kanban progress is at most 100%
  (\<open>calcProgress_bounds\<close>) and the column counts add up; the check of the description
  (\<open>description_rejected_iff\<close>), the error clearing of \<open>handleChange\<close>
  (\<open>handleChange_clears_own_error\<close>) and the "Task not found" view after a 401 on the
  detail page (\<open>unauthorized_reload_shows_not_found\<close>); the pie labels' shares and
  the dashboard's counts add up; the badge lookups are total; the navbar marks at most
  one link and shows no name after its logout, while the profile views ignore the
  session and the panel's logout leaves it signed in.

  \<^bold>\<open>Modelling choices.\<close>
  Strings are lists of 8-bit characters and lengths count characters; the client
  measures only user-typed ASCII text here, where that equals JavaScript's UTF-16 count;
  \<open>trim\<close> strips the ASCII whitespace. Floating-point division is replaced by exact
  rational arithmetic. Time is a clock value passed in; daylight-saving changes within a
  day are not modelled. No loop of the client is unbounded (every iteration is a
  \<open>map\<close>/\<open>filter\<close> over a finite list), so no fuel is needed; the one unbounded
  process, the network delivering answers, is \<open>Delivery.drain\<close>, total by a measure. A page reload
  abandons every pending continuation. A named import the module does not export is
  bound to \<open>undefined\<close> (as a bundler does; native ES modules would refuse to link
  the page at all, so in either case none of its calls reaches the network).
  \<open>Array.prototype.sort\<close> is stable, so with a consistent comparator its result is
  \<open>sort_key\<close>; a comparator that yields \<open>NaN\<close> makes the order
  implementation-defined, returned as \<open>None\<close>. Calendar values in witnesses are
  evaluated with \<open>code_simp\<close>, where \<open>simp\<close> unfolds the arithmetic too slowly.
  The Login, Register and ProtectedRoute modules are imported by \<open>App.jsx\<close> but
  absent from the repository; their calls are the \<open>SubmitLogin\<close>,
  \<open>SubmitRegister\<close> and \<open>ClickLogout\<close> events.

  \<^bold>\<open>Not modelled.\<close>
  CSS beyond the class names the components compute, icons and emoji in texts, and the
  recharts drawings (their data arrays are modelled) carry no state logic. The JSX
  trees are modelled only as far as they decide what is shown (the \<open>_view\<close>
  functions and the card and row records). \<open>console\<close>
  output is ignored. Login, Register and ProtectedRoute are not in the repository.
\<close>


section \<open>Properties spanning components\<close>

text \<open>
  C36. As the repository stands no status move on either board reaches the server: the
  button board's \<open>moveTask\<close> throws a \<open>ReferenceError\<close> whatever \<open>api.js\<close> exports,
  and the kanban board's drop calls an \<open>updateTask\<close> that \<open>api.js\<close> does not export.
  Server and page state are left exactly as they were.
\<close>

theorem no_board_move_reaches_server:
  "board_move_run ex st srv tid s b = (srv, b) \<and>
   kanban_drop api_exports st srv res k = (srv, k)"
  by (simp add: board_move_run_def board_moveTask_fails kanban_drop_def onDragEnd_def
      write_then_reload_def updateTask_def split: option.split)

end
